theory Spec2Isabelle
  imports Main "HOL-Library.Multiset"
begin

section \<open>JavaScript strings\<close>

text \<open>
  A JavaScript string is a sequence of UTF-16 code units; a code unit is modelled by its
  numeric value. ASCII literals of the source are written \<open>asc ''...''\<close>, the other
  literals as explicit lists of code units.
\<close>

type_synonym jstr = "nat list"

definition asc :: "string \<Rightarrow> jstr" where
  "asc s = map of_char s"

text \<open>Number-to-string conversion of a non-negative integer, as in \<open>cha + nonce\<close>.\<close>

fun dec :: "nat \<Rightarrow> jstr" where
  "dec n = (if n < 10 then [48 + n] else dec (n div 10) @ [48 + n mod 10])"

declare dec.simps [simp del]

text \<open>Errors thrown by the code: \<open>new Error(message)\<close> and the faults of the runtime.\<close>

datatype js_error = Error jstr | FetchFailed | SyntaxError | TypeError | URIError

section \<open>The proof-of-work solver\<close>

text \<open>
  \<open>solveChallenge\<close> exists twice: in \<open>lib/douban_challenge.js\<close> and inlined in the server
  file. Both hash \<open>cha + nonce\<close> with SHA-512 and compare the first \<open>difficulty\<close> characters
  of the hexadecimal digest with \<open>'0'.repeat(difficulty)\<close>. The digest itself is computed by
  the platform (Web Crypto, Node's crypto module); it is the parameter \<open>sha512hex\<close>, mapping
  the hashed string to the hexadecimal digest. The two copies differ in the message of the
  error they throw, which is the parameter \<open>msg\<close> of the shared loop.
\<close>

definition pow_ok :: "(jstr \<Rightarrow> jstr) \<Rightarrow> jstr \<Rightarrow> nat \<Rightarrow> nat \<Rightarrow> bool" where
  "pow_ok sha512hex cha difficulty nonce \<longleftrightarrow>
     take difficulty (sha512hex (cha @ dec nonce)) = replicate difficulty 48"

function solve_loop ::
  "(jstr \<Rightarrow> jstr) \<Rightarrow> jstr \<Rightarrow> nat \<Rightarrow> jstr \<Rightarrow> nat \<Rightarrow> js_error + nat" where
  "solve_loop sha512hex cha difficulty msg nonce =
     (if pow_ok sha512hex cha difficulty nonce then Inr nonce
      else if Suc nonce > 500000 then Inl (Error msg)
      else solve_loop sha512hex cha difficulty msg (Suc nonce))"
  by pat_completeness auto
termination
  by (relation "measure (\<lambda>(H, cha, d, msg, nonce). 500001 - nonce)") auto

declare solve_loop.simps [simp del]

definition solveChallenge_lib :: "(jstr \<Rightarrow> jstr) \<Rightarrow> jstr \<Rightarrow> nat \<Rightarrow> js_error + nat" where
  "solveChallenge_lib sha512hex cha difficulty =
     solve_loop sha512hex cha difficulty
       (asc ''Challenge solution timeout - too many iterations'') 0"

definition solveChallenge :: "(jstr \<Rightarrow> jstr) \<Rightarrow> jstr \<Rightarrow> nat \<Rightarrow> js_error + nat" where
  "solveChallenge sha512hex cha difficulty =
     solve_loop sha512hex cha difficulty (asc ''Challenge timeout'') 0"

text \<open>Digest functions used to run the solver on concrete inputs.\<close>

definition undec :: "jstr \<Rightarrow> nat" where
  "undec s = foldl (\<lambda>a c. 10 * a + (c - 48)) 0 s"

definition digest_all_zero :: "jstr \<Rightarrow> jstr" where
  "digest_all_zero s = replicate 128 48"

definition digest_no_zero :: "jstr \<Rightarrow> jstr" where
  "digest_no_zero s = replicate 128 102"

definition digest_zero_at :: "nat \<Rightarrow> nat \<Rightarrow> jstr \<Rightarrow> jstr" where
  "digest_zero_at k n s = (if undec (drop k s) = n then replicate 128 48 else replicate 128 102)"

section \<open>String operations of the language\<close>

text \<open>\<open>s.includes(p)\<close>: \<open>p\<close> occurs in \<open>s\<close> as a contiguous substring.\<close>

fun js_includes :: "jstr \<Rightarrow> jstr \<Rightarrow> bool" where
  "js_includes [] p = (p = [])"
| "js_includes (c # s) p = (take (length p) (c # s) = p \<or> js_includes s p)"

definition startsWith :: "jstr \<Rightarrow> jstr \<Rightarrow> bool" where
  "startsWith s p \<longleftrightarrow> take (length p) s = p"

text \<open>
  \<open>s.trim()\<close> removes white space and line terminators from both ends: the code units
  U+0009 to U+000D, U+0020, U+00A0, U+1680, U+2000 to U+200A, U+2028, U+2029, U+202F,
  U+205F, U+3000 and U+FEFF.
\<close>

definition is_space :: "nat \<Rightarrow> bool" where
  "is_space c \<longleftrightarrow>
     (9 \<le> c \<and> c \<le> 13) \<or> c = 32 \<or> c = 160 \<or> c = 5760 \<or> (8192 \<le> c \<and> c \<le> 8202)
     \<or> c = 8232 \<or> c = 8233 \<or> c = 8239 \<or> c = 8287 \<or> c = 12288 \<or> c = 65279"

definition trim :: "jstr \<Rightarrow> jstr" where
  "trim s = rev (dropWhile is_space (rev (dropWhile is_space s)))"

text \<open>\<open>s.split(sep)\<close>; an empty separator splits into the single code units.\<close>

function split_go :: "jstr \<Rightarrow> jstr \<Rightarrow> jstr \<Rightarrow> jstr list" where
  "split_go sep cur [] = [rev cur]"
| "split_go sep cur (c # s) =
     (if sep \<noteq> [] \<and> take (length sep) (c # s) = sep
      then rev cur # split_go sep [] (drop (length sep - 1) s)
      else split_go sep (c # cur) s)"
  by pat_completeness auto
termination
  by (relation "measure (\<lambda>(sep, cur, s). length s)") auto

definition js_split :: "jstr \<Rightarrow> jstr \<Rightarrow> jstr list" where
  "js_split sep s = (if sep = [] then map (\<lambda>c. [c]) s else split_go sep [] s)"

text \<open>\<open>xs.join(sep)\<close> on an array of strings.\<close>

fun js_join :: "jstr \<Rightarrow> jstr list \<Rightarrow> jstr" where
  "js_join sep [] = []"
| "js_join sep [x] = x"
| "js_join sep (x # y # ys) = x @ sep @ js_join sep (y # ys)"

text \<open>
  \<open>s.replace(p, r)\<close> with a string pattern replaces the first occurrence. The
  replacement strings of the source contain no \<open>$\<close>.
\<close>

fun replace_first :: "jstr \<Rightarrow> jstr \<Rightarrow> jstr \<Rightarrow> jstr" where
  "replace_first p r [] = (if p = [] then r else [])"
| "replace_first p r (c # s) =
     (if take (length p) (c # s) = p then r @ drop (length p) (c # s)
      else c # replace_first p r s)"

text \<open>
  A global regular-expression replace whose pattern is an alternation of literals:
  scanning from the left, the first alternative that matches at the current position is
  replaced by its replacement, and the scan goes on behind the match. \<open>match_alt\<close> returns
  the replacement and the number of further code units the match covers.
\<close>

fun match_alt :: "(jstr \<times> jstr) list \<Rightarrow> jstr \<Rightarrow> (jstr \<times> nat) option" where
  "match_alt [] s = None"
| "match_alt ((p, r) # alts) s =
     (if p \<noteq> [] \<and> take (length p) s = p then Some (r, length p - 1)
      else match_alt alts s)"

function replace_alts :: "(jstr \<times> jstr) list \<Rightarrow> jstr \<Rightarrow> jstr" where
  "replace_alts alts [] = []"
| "replace_alts alts (c # s) =
     (case match_alt alts (c # s) of
        Some (r, n) \<Rightarrow> r @ replace_alts alts (drop n s)
      | None \<Rightarrow> c # replace_alts alts s)"
  by pat_completeness auto
termination
  by (relation "measure (\<lambda>(alts, s). length s)") auto

text \<open>\<open>s.repeat(n)\<close>, \<open>s.substr(start, len)\<close> and \<open>s.padStart(n, "0")\<close>.\<close>

definition js_repeat :: "jstr \<Rightarrow> nat \<Rightarrow> jstr" where
  "js_repeat s n = concat (replicate n s)"

definition substr :: "jstr \<Rightarrow> nat \<Rightarrow> nat \<Rightarrow> jstr" where
  "substr s start len = take len (drop start s)"

definition padStart0 :: "nat \<Rightarrow> jstr \<Rightarrow> jstr" where
  "padStart0 n s = replicate (n - length s) 48 @ s"

section \<open>Values and objects\<close>

text \<open>
  The values the code handles: JSON documents parsed from upstream pages, the records the
  adapters build, and the cached records. A number is given by its canonical decimal text,
  the string \<open>String(x)\<close> returns for it (\<open>"0"\<close>, \<open>"8.7"\<close>, \<open>"NaN"\<close>); an object is the
  list of its properties in insertion order, with distinct keys.
\<close>

datatype jsval =
    JUndefined
  | JNull
  | JBool bool
  | JNum jstr
  | JStr jstr
  | JArr "jsval list"
  | JObj "(string \<times> jsval) list"

type_synonym obj = "(string \<times> jsval) list"

fun truthy :: "jsval \<Rightarrow> bool" where
  "truthy JUndefined = False"
| "truthy JNull = False"
| "truthy (JBool b) = b"
| "truthy (JNum n) = (n \<noteq> asc ''0'' \<and> n \<noteq> asc ''NaN'')"
| "truthy (JStr s) = (s \<noteq> [])"
| "truthy (JArr xs) = True"
| "truthy (JObj fs) = True"

text \<open>\<open>a || b\<close> on values.\<close>

definition js_or :: "jsval \<Rightarrow> jsval \<Rightarrow> jsval" where
  "js_or a b = (if truthy a then a else b)"

text \<open>Reading a property of an object: a missing property reads as \<open>undefined\<close>.\<close>

definition js_get :: "obj \<Rightarrow> string \<Rightarrow> jsval" where
  "js_get fs k = (case map_of fs k of None \<Rightarrow> JUndefined | Some v \<Rightarrow> v)"

text \<open>
  \<open>data.k = v\<close> and the spread \<open>{...a, ...b}\<close>: an existing property keeps its place and
  takes the new value, a new one is added at the end.
\<close>

fun obj_set :: "string \<Rightarrow> jsval \<Rightarrow> obj \<Rightarrow> obj" where
  "obj_set k v [] = [(k, v)]"
| "obj_set k v ((k', v') # fs) = (if k = k' then (k, v) # fs else (k', v') # obj_set k v fs)"

definition spread :: "obj \<Rightarrow> obj \<Rightarrow> obj" where
  "spread a b = foldl (\<lambda>acc (k, v). obj_set k v acc) a b"

text \<open>
  \<open>v.k\<close> on an arbitrary value: a \<open>TypeError\<close> on \<open>undefined\<close> and \<open>null\<close>; strings and
  arrays have a \<open>length\<close>; none of the other property names the code reads exists on a
  primitive or an array. \<open>v?.k\<close> reads \<open>undefined\<close> instead of throwing.
\<close>

fun get_prop :: "jsval \<Rightarrow> string \<Rightarrow> js_error + jsval" where
  "get_prop JUndefined k = Inl TypeError"
| "get_prop JNull k = Inl TypeError"
| "get_prop (JObj fs) k = Inr (js_get fs k)"
| "get_prop (JStr s) k = Inr (if k = ''length'' then JNum (dec (length s)) else JUndefined)"
| "get_prop (JArr xs) k = Inr (if k = ''length'' then JNum (dec (length xs)) else JUndefined)"
| "get_prop v k = Inr JUndefined"

definition opt_prop :: "jsval \<Rightarrow> string \<Rightarrow> jsval" where
  "opt_prop v k = (case get_prop v k of Inl e \<Rightarrow> JUndefined | Inr x \<Rightarrow> x)"

text \<open>
  Conversion to a string, as a template literal does it: arrays join their elements with
  a comma (\<open>undefined\<close> and \<open>null\<close> elements as the empty string), plain objects give
  \<open>[object Object]\<close>.
\<close>

fun to_str :: "jsval \<Rightarrow> jstr" where
  "to_str JUndefined = asc ''undefined''"
| "to_str JNull = asc ''null''"
| "to_str (JBool b) = (if b then asc ''true'' else asc ''false'')"
| "to_str (JNum n) = n"
| "to_str (JStr s) = s"
| "to_str (JArr xs) =
     js_join (asc '','') (map (\<lambda>x. if x = JUndefined \<or> x = JNull then [] else to_str x) xs)"
| "to_str (JObj fs) = asc ''[object Object]''"

text \<open>
  \<open>xs.join(sep)\<close> on an array of values: \<open>undefined\<close> and \<open>null\<close> elements give the empty
  string.
\<close>

definition join_vals :: "jstr \<Rightarrow> jsval list \<Rightarrow> jstr" where
  "join_vals sep xs =
     js_join sep (map (\<lambda>x. if x = JUndefined \<or> x = JNull then [] else to_str x) xs)"

text \<open>
  What \<open>JSON.parse(JSON.stringify(v))\<close> returns: properties whose value is \<open>undefined\<close>
  are dropped, \<open>undefined\<close> elements of an array and the numbers without a JSON notation
  become \<open>null\<close>.
\<close>

fun json_norm :: "jsval \<Rightarrow> jsval" where
  "json_norm (JNum n) =
     (if n = asc ''NaN'' \<or> n = asc ''Infinity'' \<or> n = asc ''-Infinity'' then JNull else JNum n)"
| "json_norm (JArr xs) = JArr (map json_norm xs)"
| "json_norm (JObj fs) =
     JObj (map (\<lambda>(k, v). (k, json_norm v)) (filter (\<lambda>(k, v). js_get fs k \<noteq> JUndefined) fs))"
| "json_norm JUndefined = JNull"
| "json_norm v = v"

text \<open>Sequencing of steps that may throw.\<close>

definition bind_err :: "js_error + 'a \<Rightarrow> ('a \<Rightarrow> js_error + 'b) \<Rightarrow> js_error + 'b" where
  "bind_err m f = (case m of Inl e \<Rightarrow> Inl e | Inr x \<Rightarrow> f x)"

text \<open>\<open>xs.map(x => x.k)\<close> on the elements of an array.\<close>

fun map_prop :: "string \<Rightarrow> jsval list \<Rightarrow> js_error + jsval list" where
  "map_prop k [] = Inr []"
| "map_prop k (x # xs) =
     bind_err (get_prop x k) (\<lambda>v. bind_err (map_prop k xs) (\<lambda>vs. Inr (v # vs)))"

text \<open>
  \<open>v.map(x => x.k)\<close> on a value that is not \<open>undefined\<close> or \<open>null\<close>: only an array has the
  method; on anything else the call throws.
\<close>

definition arr_map_prop :: "string \<Rightarrow> jsval \<Rightarrow> js_error + jsval list" where
  "arr_map_prop k v = (case v of JArr xs \<Rightarrow> map_prop k xs | _ \<Rightarrow> Inl TypeError)"

definition strs :: "jstr list \<Rightarrow> jsval" where
  "strs xs = JArr (map JStr xs)"

text \<open>
  \<open>xs.sort(cmp)\<close>: the sort is stable; an element moves behind another one only where the
  comparison function returns a positive number. For a consistent comparison function
  this determines the result; for an inconsistent one the language leaves the order to
  the implementation, and the model gives the order of a stable insertion sort.
\<close>

fun insort_cmp :: "('a \<Rightarrow> 'a \<Rightarrow> int) \<Rightarrow> 'a \<Rightarrow> 'a list \<Rightarrow> 'a list" where
  "insort_cmp cmp x [] = [x]"
| "insort_cmp cmp x (y # ys) = (if cmp x y > 0 then y # insort_cmp cmp x ys else x # y # ys)"

definition js_sort :: "('a \<Rightarrow> 'a \<Rightarrow> int) \<Rightarrow> 'a list \<Rightarrow> 'a list" where
  "js_sort cmp xs = foldr (insort_cmp cmp) xs []"

text \<open>
  A consistent comparison function: any two elements are comparable, and the order is
  transitive.
\<close>

definition consistent_cmp :: "('a \<Rightarrow> 'a \<Rightarrow> int) \<Rightarrow> bool" where
  "consistent_cmp cmp \<longleftrightarrow>
     (\<forall>a b. cmp a b \<le> 0 \<or> cmp b a \<le> 0)
     \<and> (\<forall>a b c. cmp a b \<le> 0 \<and> cmp b c \<le> 0 \<longrightarrow> cmp a c \<le> 0)"


section \<open>Outbound requests\<close>

text \<open>
  \<open>fetch\<close> is a collaborator: given the state of the outside world and a request it
  answers with a response or fails (the promise rejects), and the world moves on. The
  model keeps the list of the requests sent, in order.
\<close>

record request =
  req_url :: jstr
  req_method :: jstr
  req_headers :: "(string \<times> jstr) list"
  req_body :: "jstr option"
  req_redirect :: jstr

record response =
  resp_status :: nat
  resp_url :: jstr
  resp_header :: "string \<Rightarrow> jstr option"
  resp_text :: jstr

type_synonym 'w fetcher = "'w \<Rightarrow> request \<Rightarrow> (js_error + response) \<times> 'w"

record 'w net =
  world :: 'w
  sent :: "request list"

definition js_fetch :: "'w fetcher \<Rightarrow> request \<Rightarrow> 'w net \<Rightarrow> (js_error + response) \<times> 'w net" where
  "js_fetch fetch rq st =
     (case fetch (world st) rq of (r, w') \<Rightarrow> (r, \<lparr>world = w', sent = sent st @ [rq]\<rparr>))"

definition get_request :: "jstr \<Rightarrow> (string \<times> jstr) list \<Rightarrow> request" where
  "get_request u hs =
     \<lparr>req_url = u, req_method = asc ''GET'', req_headers = hs, req_body = None,
      req_redirect = asc ''follow''\<rparr>"

text \<open>Truthiness of a header value or an optional string: present and not empty.\<close>

definition str_truthy :: "jstr option \<Rightarrow> bool" where
  "str_truthy v = (case v of None \<Rightarrow> False | Some s \<Rightarrow> s \<noteq> [])"

section \<open>Extraction of the challenge parameters\<close>

text \<open>
  The parameters are found with the regular expressions
  \<open>/id=["']NAME["'][^>]*value=["']([^"']+)["']/i\<close> and, if that one does not match,
  \<open>/value=["']([^"']+)["'][^>]*id=["']NAME["']/i\<close>. The functions below are these two
  expressions written out: a match is tried at each position from the left; \<open>[^>]*\<close> is
  greedy and gives characters back one by one; \<open>[^"']+\<close> takes every character up to the
  next quote and needs at least one. With the flag \<open>i\<close> the ASCII letters match in both
  cases, and no other character matches a letter of the pattern.
\<close>

definition lower :: "nat \<Rightarrow> nat" where
  "lower c = (if 65 \<le> c \<and> c \<le> 90 then c + 32 else c)"

definition is_quote :: "nat \<Rightarrow> bool" where
  "is_quote c \<longleftrightarrow> c = 34 \<or> c = 39"

definition ci_prefix :: "jstr \<Rightarrow> jstr \<Rightarrow> jstr option" where
  "ci_prefix p s =
     (if length p \<le> length s \<and> map lower (take (length p) s) = map lower p
      then Some (drop (length p) s) else None)"

definition strip_quote :: "jstr \<Rightarrow> jstr option" where
  "strip_quote s = (case s of [] \<Rightarrow> None | c # r \<Rightarrow> if is_quote c then Some r else None)"

text \<open>\<open>id=["']NAME["']\<close> at the start of \<open>s\<close>: what follows it.\<close>

definition attr_id :: "jstr \<Rightarrow> jstr \<Rightarrow> jstr option" where
  "attr_id name s =
     Option.bind (ci_prefix (asc ''id='') s) (\<lambda>s1.
     Option.bind (strip_quote s1) (\<lambda>s2.
     Option.bind (ci_prefix name s2) strip_quote))"

text \<open>\<open>value=["']([^"']+)["']\<close> at the start of \<open>s\<close>: the captured group and what follows.\<close>

definition attr_value :: "jstr \<Rightarrow> (jstr \<times> jstr) option" where
  "attr_value s =
     Option.bind (ci_prefix (asc ''value='') s) (\<lambda>s1.
     Option.bind (strip_quote s1) (\<lambda>s2.
       let cap = takeWhile (\<lambda>c. \<not> is_quote c) s2;
           rest = dropWhile (\<lambda>c. \<not> is_quote c) s2
       in if cap = [] \<or> rest = [] then None else Some (cap, tl rest)))"

fun first_some :: "'a option list \<Rightarrow> 'a option" where
  "first_some [] = None"
| "first_some (None # xs) = first_some xs"
| "first_some (Some x # xs) = Some x"

text \<open>\<open>[^>]*\<close> followed by \<open>k\<close>: the longest run first, then shorter ones.\<close>

definition skip_then :: "(jstr \<Rightarrow> 'a option) \<Rightarrow> jstr \<Rightarrow> 'a option" where
  "skip_then k s =
     first_some (map (\<lambda>j. k (drop j s)) (rev [0 ..< Suc (length (takeWhile (\<lambda>c. c \<noteq> 62) s))]))"

definition match_id_value :: "jstr \<Rightarrow> jstr \<Rightarrow> jstr option" where
  "match_id_value name s =
     Option.bind (attr_id name s) (skip_then (\<lambda>r. map_option fst (attr_value r)))"

definition match_value_id :: "jstr \<Rightarrow> jstr \<Rightarrow> jstr option" where
  "match_value_id name s =
     Option.bind (attr_value s) (\<lambda>(cap, r).
       skip_then (\<lambda>r'. map_option (\<lambda>_. cap) (attr_id name r')) r)"

fun first_match :: "(jstr \<Rightarrow> 'a option) \<Rightarrow> jstr \<Rightarrow> 'a option" where
  "first_match m [] = m []"
| "first_match m (c # s) = (case m (c # s) of Some x \<Rightarrow> Some x | None \<Rightarrow> first_match m s)"

text \<open>\<open>text.match(idFirst) || text.match(valueFirst)\<close>, reduced to the captured group.\<close>

definition js_match_attr :: "jstr \<Rightarrow> jstr \<Rightarrow> jstr option" where
  "js_match_attr name s =
     (case first_match (match_id_value name) s of
        Some cap \<Rightarrow> Some cap
      | None \<Rightarrow> first_match (match_value_id name) s)"

section \<open>The challenge solver\<close>

record challenge_result =
  ch_solved :: bool
  ch_text :: jstr
  ch_error :: "jstr option"
  ch_cookies :: "jstr option"

definition marker_process :: jstr where
  "marker_process = asc ''process(cha)''"

definition marker_id_cha :: jstr where
  "marker_id_cha = asc ''id='' @ [34] @ asc ''cha'' @ [34]"

definition user_agent :: jstr where
  "user_agent = asc ''Mozilla/5.0 (Macintosh; Intel Mac OS X 10_15_7) AppleWebKit/537.36''"

definition submit_request :: "jstr \<Rightarrow> jstr \<Rightarrow> request" where
  "submit_request responseUrl form_body =
     \<lparr>req_url = asc ''https://sec.douban.com/c'', req_method = asc ''POST'',
      req_headers =
        [(''Content-Type'', asc ''application/x-www-form-urlencoded''),
         (''User-Agent'', user_agent),
         (''Referer'', responseUrl),
         (''Origin'', asc ''https://sec.douban.com'')],
      req_body = Some form_body, req_redirect = asc ''manual''\<rparr>"

definition final_request :: "jstr \<Rightarrow> jstr \<Rightarrow> request" where
  "final_request target cookies =
     get_request target
       [(''Cookie'', cookies), (''User-Agent'', user_agent),
        (''Referer'', asc ''https://sec.douban.com/'')]"

text \<open>
  The copy in \<open>lib/douban_challenge.js\<close>. It runs where \<open>URLSearchParams\<close> is the
  platform's class; \<open>form_urlencoded\<close> stands for \<open>append\<close> followed by \<open>toString\<close>, the
  form encoding of the list of pairs.
\<close>

definition solveDoubanChallenge_lib ::
  "(jstr \<Rightarrow> jstr) \<Rightarrow> ((jstr \<times> jstr) list \<Rightarrow> jstr) \<Rightarrow> 'w fetcher \<Rightarrow> jstr \<Rightarrow> jstr \<Rightarrow> 'w net
     \<Rightarrow> (js_error + challenge_result) \<times> 'w net" where
  "solveDoubanChallenge_lib sha512hex form_urlencoded fetch responseUrl responseText st =
     (if \<not> js_includes responseText marker_process \<or> \<not> js_includes responseText marker_id_cha
      then (Inr \<lparr>ch_solved = False, ch_text = responseText, ch_error = None, ch_cookies = None\<rparr>, st)
      else
        let tokMatch = js_match_attr (asc ''tok'') responseText;
            chaMatch = js_match_attr (asc ''cha'') responseText;
            redMatch = js_match_attr (asc ''red'') responseText
        in case (tokMatch, chaMatch) of
          (Some tok, Some cha) \<Rightarrow>
            (let red = (case redMatch of Some r \<Rightarrow> r | None \<Rightarrow> asc ''https://movie.douban.com/'')
             in case solveChallenge_lib sha512hex cha 4 of
               Inl e \<Rightarrow> (Inl e, st)
             | Inr sol \<Rightarrow>
                 (let formData = [(asc ''tok'', tok), (asc ''cha'', cha), (asc ''sol'', dec sol),
                                  (asc ''red'', red)]
                  in case js_fetch fetch (submit_request responseUrl (form_urlencoded formData)) st of
                    (Inl e, st1) \<Rightarrow> (Inl e, st1)
                  | (Inr submitResp, st1) \<Rightarrow>
                      (let cookies = resp_header submitResp ''set-cookie'';
                           location = resp_header submitResp ''location''
                       in if \<not> str_truthy cookies
                          then (Inr \<lparr>ch_solved = False, ch_text = responseText,
                                     ch_error = Some (asc ''No cookies received from challenge submission''),
                                     ch_cookies = None\<rparr>, st1)
                          else
                            case js_fetch fetch
                                   (final_request (if str_truthy location then the location else red)
                                      (the cookies)) st1 of
                              (Inl e, st2) \<Rightarrow> (Inl e, st2)
                            | (Inr finalResp, st2) \<Rightarrow>
                                (Inr \<lparr>ch_solved = True, ch_text = resp_text finalResp,
                                      ch_error = None, ch_cookies = cookies\<rparr>, st2))))
        | _ \<Rightarrow>
            (Inr \<lparr>ch_solved = False, ch_text = responseText,
                  ch_error = Some (asc ''Could not extract challenge parameters''),
                  ch_cookies = None\<rparr>, st))"

text \<open>
  The copy inlined in the server file. That file replaces the global \<open>URLSearchParams\<close>
  by a class of its own, which keeps a map of parameters and has the methods \<open>get\<close> and
  \<open>has\<close> only. \<open>new URLSearchParams()\<close> in the solver builds an instance of that class,
  \<open>formData.append\<close> is \<open>undefined\<close> on it, and the call throws a \<open>TypeError\<close>.
\<close>

record polyfill_params =
  params :: "(jstr \<times> jstr) list"

definition polyfill_new :: polyfill_params where
  "polyfill_new = \<lparr>params = []\<rparr>"

definition polyfill_get :: "polyfill_params \<Rightarrow> jstr \<Rightarrow> jstr option" where
  "polyfill_get p name =
     (case map_of (params p) name of None \<Rightarrow> None | Some v \<Rightarrow> if v = [] then None else Some v)"

definition polyfill_has :: "polyfill_params \<Rightarrow> jstr \<Rightarrow> bool" where
  "polyfill_has p name \<longleftrightarrow> name \<in> fst ` set (params p)"

definition polyfill_append :: "polyfill_params \<Rightarrow> jstr \<Rightarrow> jstr \<Rightarrow> js_error + polyfill_params" where
  "polyfill_append p name v = Inl TypeError"

text \<open>The four calls of \<open>append\<close> in a row: the first one that throws ends the sequence.\<close>

fun polyfill_appends ::
  "polyfill_params \<Rightarrow> (jstr \<times> jstr) list \<Rightarrow> js_error + polyfill_params" where
  "polyfill_appends p [] = Inr p"
| "polyfill_appends p ((name, v) # rest) =
     (case polyfill_append p name v of Inl e \<Rightarrow> Inl e | Inr p' \<Rightarrow> polyfill_appends p' rest)"

definition polyfill_toString :: "polyfill_params \<Rightarrow> jstr" where
  "polyfill_toString p = asc ''[object Object]''"

definition solveDoubanChallenge ::
  "(jstr \<Rightarrow> jstr) \<Rightarrow> 'w fetcher \<Rightarrow> jstr \<Rightarrow> jstr \<Rightarrow> 'w net
     \<Rightarrow> (js_error + challenge_result) \<times> 'w net" where
  "solveDoubanChallenge sha512hex fetch responseUrl responseText st =
     (if \<not> js_includes responseText marker_process \<or> \<not> js_includes responseText marker_id_cha
      then (Inr \<lparr>ch_solved = False, ch_text = responseText, ch_error = None, ch_cookies = None\<rparr>, st)
      else
        let tokMatch = js_match_attr (asc ''tok'') responseText;
            chaMatch = js_match_attr (asc ''cha'') responseText;
            redMatch = js_match_attr (asc ''red'') responseText
        in case (tokMatch, chaMatch) of
          (Some tok, Some cha) \<Rightarrow>
            (let red = (case redMatch of Some r \<Rightarrow> r | None \<Rightarrow> asc ''https://movie.douban.com/'')
             in case solveChallenge sha512hex cha 4 of
               Inl e \<Rightarrow> (Inl e, st)
             | Inr sol \<Rightarrow>
                 (case polyfill_appends polyfill_new
                         [(asc ''tok'', tok), (asc ''cha'', cha), (asc ''sol'', dec sol),
                          (asc ''red'', red)] of
                    Inl e \<Rightarrow> (Inl e, st)
                  | Inr formData \<Rightarrow>
                     (case js_fetch fetch (submit_request responseUrl (polyfill_toString formData)) st of
                        (Inl e, st1) \<Rightarrow> (Inl e, st1)
                      | (Inr submitResp, st1) \<Rightarrow>
                          (let cookies = resp_header submitResp ''set-cookie'';
                               location = resp_header submitResp ''location''
                           in if \<not> str_truthy cookies
                              then (Inr \<lparr>ch_solved = False, ch_text = responseText,
                                         ch_error = Some (asc ''No cookies received''),
                                         ch_cookies = None\<rparr>, st1)
                              else
                                case js_fetch fetch
                                       (final_request (if str_truthy location then the location else red)
                                          (the cookies)) st1 of
                                  (Inl e, st2) \<Rightarrow> (Inl e, st2)
                                | (Inr finalResp, st2) \<Rightarrow>
                                    (Inr \<lparr>ch_solved = True, ch_text = resp_text finalResp,
                                          ch_error = None, ch_cookies = cookies\<rparr>, st2)))))
        | _ \<Rightarrow>
            (Inr \<lparr>ch_solved = False, ch_text = responseText,
                  ch_error = Some (asc ''Could not extract challenge parameters''),
                  ch_cookies = None\<rparr>, st))"

section \<open>Collaborators of the adapters\<close>

text \<open>
  What the document queries of an adapter return for a page. The HTML parser is a
  library; an adapter sees a page through the texts, attributes and node values its
  selectors yield. An info label of a Douban page is an \<open>anchor\<close>: no element matched, or
  the first matched element with the value of the node that follows it, if it has one.
\<close>

datatype anchor = NoMatch | Matched "jstr option"

definition fetch_anchor :: "anchor \<Rightarrow> jstr" where
  "fetch_anchor a = (case a of Matched (Some v) \<Rightarrow> trim v | _ \<Rightarrow> [])"

definition anchor_found :: "anchor \<Rightarrow> bool" where
  "anchor_found a \<longleftrightarrow> a \<noteq> NoMatch"

record douban_dom =
  d_title :: jstr
  d_ld_script :: "jstr option"
  d_imdb :: anchor
  d_itemreviewed :: jstr
  d_aka :: anchor
  d_regions :: anchor
  d_language :: anchor
  d_episodes :: anchor
  d_duration :: anchor
  d_year :: jstr
  d_genre :: "jstr list"
  d_release :: "jstr list"
  d_runtime :: jstr
  d_intro :: "jstr option"
  d_tags :: "jstr list"

record bangumi_dom =
  b_cover_href :: "jstr option"
  b_summary :: jstr
  b_infobox :: "jstr list"
  b_votes :: jstr
  b_average :: jstr
  b_tags :: "jstr list"

record steam_dom =
  s_apphub_name :: jstr
  s_itemprop_name :: jstr
  s_header_src :: "jstr option"
  s_tags :: "jstr list"

record indienova_dom =
  i_cover_src :: "jstr option"
  i_title :: jstr

text \<open>
  The platform: the digest, \<open>fetch\<close>, \<open>JSON.parse\<close> on a fetched text, the collation of
  \<open>localeCompare\<close>, the time value of \<open>new Date(s)\<close> (none for an invalid date),
  \<open>encodeURIComponent\<close>, \<open>toLowerCase\<close>, the message the runtime gives an error it throws
  itself, the document queries of each adapter, and the match of a URL against the table
  of supported sites (the first site whose pattern matches, with the captured id).
\<close>

record 'w platform =
  p_sha512hex :: "jstr \<Rightarrow> jstr"
  p_fetch :: "'w fetcher"
  p_json_parse :: "jstr \<Rightarrow> js_error + jsval"
  p_localeCompare :: "jstr \<Rightarrow> jstr \<Rightarrow> int"
  p_date_ms :: "jstr \<Rightarrow> int option"
  p_encodeURIComponent :: "jstr \<Rightarrow> js_error + jstr"
  p_toLowerCase :: "jstr \<Rightarrow> jstr"
  p_runtime_message :: "js_error \<Rightarrow> jstr"
  p_page_douban :: "jstr \<Rightarrow> douban_dom"
  p_page_imdb_ld :: "jstr \<Rightarrow> jstr option"
  p_page_bangumi :: "jstr \<Rightarrow> bangumi_dom"
  p_page_steam :: "jstr \<Rightarrow> steam_dom"
  p_page_indienova :: "jstr \<Rightarrow> indienova_dom"
  p_support_match :: "jstr \<Rightarrow> (jstr \<times> jstr) option"

definition NONE_EXIST_ERROR :: jstr where
  "NONE_EXIST_ERROR = asc ''The corresponding resource does not exist.''"

text \<open>An optional line of a description: the text if the condition holds, nothing otherwise.\<close>

definition line_if :: "bool \<Rightarrow> jstr \<Rightarrow> jstr" where
  "line_if c l = (if c then l else [])"

definition nl :: jstr where
  "nl = [10]"

definition img_block :: "jstr \<Rightarrow> jstr" where
  "img_block poster = asc ''[img]'' @ poster @ asc ''[/img]'' @ nl @ nl"

section \<open>The Douban adapter\<close>

text \<open>The literals of the adapter that are not ASCII, as code units.\<close>

definition douban_not_found_marker :: jstr where
  "douban_not_found_marker = [20320, 24819, 35775, 38382, 30340, 39029, 38754, 19981, 23384, 22312]"

definition douban_banned_marker :: jstr where
  "douban_banned_marker = [26816, 27979, 21040, 26377, 24322, 24120, 35831, 27714]"

definition douban_title_suffix :: jstr where
  "douban_title_suffix = [40, 35910, 29923, 41]"

definition no_introduction :: jstr where
  "no_introduction = [26242, 26080, 30456, 20851, 21095, 24773, 20171, 32461]"

definition lbl_trans_title :: jstr where "lbl_trans_title = [9678, 35793, 12288, 12288, 21517, 12288]"
definition lbl_this_title :: jstr where "lbl_this_title = [9678, 29255, 12288, 12288, 21517, 12288]"
definition lbl_year :: jstr where "lbl_year = [9678, 24180, 12288, 12288, 20195, 12288]"
definition lbl_region :: jstr where "lbl_region = [9678, 20135, 12288, 12288, 22320, 12288]"
definition lbl_genre :: jstr where "lbl_genre = [9678, 31867, 12288, 12288, 21035, 12288]"
definition lbl_language :: jstr where "lbl_language = [9678, 35821, 12288, 12288, 35328, 12288]"
definition lbl_playdate :: jstr where "lbl_playdate = [9678, 19978, 26144, 26085, 26399, 12288]"
definition lbl_imdb_rating :: jstr where "lbl_imdb_rating = [9678, 73, 77, 68, 98, 35780, 20998, 32, 32]"
definition lbl_imdb_link :: jstr where "lbl_imdb_link = [9678, 73, 77, 68, 98, 38142, 25509, 32, 32]"
definition lbl_douban_rating :: jstr where "lbl_douban_rating = [9678, 35910, 29923, 35780, 20998, 12288]"
definition lbl_douban_link :: jstr where "lbl_douban_link = [9678, 35910, 29923, 38142, 25509, 12288]"
definition lbl_episodes :: jstr where "lbl_episodes = [9678, 38598, 12288, 12288, 25968, 12288]"
definition lbl_duration :: jstr where "lbl_duration = [9678, 29255, 12288, 12288, 38271, 12288]"
definition lbl_director :: jstr where "lbl_director = [9678, 23548, 12288, 12288, 28436, 12288]"
definition lbl_writer :: jstr where "lbl_writer = [9678, 32534, 12288, 12288, 21095, 12288]"
definition lbl_cast :: jstr where "lbl_cast = [9678, 20027, 12288, 12288, 28436, 12288]"
definition lbl_tags :: jstr where "lbl_tags = [9678, 26631, 12288, 12288, 31614, 12288]"
definition lbl_introduction :: jstr where "lbl_introduction = [9678, 31616, 12288, 12288, 20171]"

definition cast_separator :: jstr where
  "cast_separator = nl @ js_repeat [12288] 4 @ [32, 32, 12288]"

text \<open>
  The alternate titles: the value behind the label, split at \<open>" / "\<close>, sorted with
  \<open>localeCompare\<close> and joined with \<open>"/"\<close>.
\<close>

definition douban_aka :: "(jstr \<Rightarrow> jstr \<Rightarrow> int) \<Rightarrow> anchor \<Rightarrow> jstr" where
  "douban_aka cmp aka_anchor =
     (if anchor_found aka_anchor
      then js_join (asc ''/'') (js_sort cmp (js_split (asc '' / '') (fetch_anchor aka_anchor)))
      else [])"

text \<open>The comparison function of the release dates: \<open>new Date(a) - new Date(b)\<close>.\<close>

definition date_cmp :: "(jstr \<Rightarrow> int option) \<Rightarrow> jstr \<Rightarrow> jstr \<Rightarrow> int" where
  "date_cmp ms a b = (case (ms a, ms b) of (Some x, Some y) \<Rightarrow> x - y | _ \<Rightarrow> 0)"

text \<open>
  The poster: \<open>ld_json.image\<close> with the size token swapped, or the empty string; a truthy
  value that is not a string has no \<open>replace\<close>.
\<close>

definition douban_poster :: "jsval \<Rightarrow> js_error + jstr" where
  "douban_poster img =
     (if truthy img
      then (case img of
              JStr s \<Rightarrow>
                Inr (replace_first (asc ''img3'') (asc ''img1'')
                      (replace_alts [(asc ''s_ratio_poster'', asc ''l_ratio_poster''),
                                     (asc ''spic'', asc ''lpic'')] s))
            | _ \<Rightarrow> Inl TypeError)
      else Inr [])"

text \<open>
  A line of names: nothing when \<open>people.length\<close> is falsy, otherwise the names of the
  elements joined with the separator.
\<close>

definition names_joined :: "jsval \<Rightarrow> jstr \<Rightarrow> js_error + jstr option" where
  "names_joined people sep =
     (if truthy (opt_prop people ''length'')
      then bind_err (arr_map_prop ''name'' people) (\<lambda>ns. Inr (Some (join_vals sep ns)))
      else Inr None)"

text \<open>The fields the description is rendered from, and the description.\<close>

record douban_fields =
  f_poster :: jstr
  f_trans_title :: jstr
  f_this_title :: jstr
  f_year :: jstr
  f_region :: "jstr list"
  f_genre :: "jstr list"
  f_language :: "jstr list"
  f_playdate :: "jstr list"
  f_imdb_rating :: jsval
  f_imdb_link :: jsval
  f_douban_rating :: jstr
  f_douban_link :: jstr
  f_episodes :: jstr
  f_duration :: jstr
  f_director :: "jstr option"
  f_writer :: "jstr option"
  f_cast :: "jstr option"
  f_tags :: "jstr list"
  f_introduction :: jstr

definition opt_line :: "jstr \<Rightarrow> jstr option \<Rightarrow> jstr" where
  "opt_line lbl v = (case v of None \<Rightarrow> [] | Some s \<Rightarrow> lbl @ s @ nl)"

definition douban_descr :: "douban_fields \<Rightarrow> jstr" where
  "douban_descr f =
     line_if (f_poster f \<noteq> []) (img_block (f_poster f))
     @ line_if (f_trans_title f \<noteq> []) (lbl_trans_title @ f_trans_title f @ nl)
     @ line_if (f_this_title f \<noteq> []) (lbl_this_title @ f_this_title f @ nl)
     @ line_if (f_year f \<noteq> []) (lbl_year @ trim (f_year f) @ nl)
     @ line_if (f_region f \<noteq> []) (lbl_region @ js_join (asc '' / '') (f_region f) @ nl)
     @ line_if (f_genre f \<noteq> []) (lbl_genre @ js_join (asc '' / '') (f_genre f) @ nl)
     @ line_if (f_language f \<noteq> []) (lbl_language @ js_join (asc '' / '') (f_language f) @ nl)
     @ line_if (f_playdate f \<noteq> []) (lbl_playdate @ js_join (asc '' / '') (f_playdate f) @ nl)
     @ line_if (truthy (f_imdb_rating f)) (lbl_imdb_rating @ to_str (f_imdb_rating f) @ nl)
     @ line_if (truthy (f_imdb_link f)) (lbl_imdb_link @ to_str (f_imdb_link f) @ nl)
     @ line_if (f_douban_rating f \<noteq> []) (lbl_douban_rating @ f_douban_rating f @ nl)
     @ line_if (f_douban_link f \<noteq> []) (lbl_douban_link @ f_douban_link f @ nl)
     @ line_if (f_episodes f \<noteq> []) (lbl_episodes @ f_episodes f @ nl)
     @ line_if (f_duration f \<noteq> []) (lbl_duration @ f_duration f @ nl)
     @ opt_line lbl_director (f_director f)
     @ opt_line lbl_writer (f_writer f)
     @ opt_line lbl_cast (map_option trim (f_cast f))
     @ line_if (f_tags f \<noteq> []) (nl @ lbl_tags @ js_join (asc '' | '') (f_tags f) @ nl)
     @ line_if (f_introduction f \<noteq> [])
         (nl @ lbl_introduction @ nl @ nl @ [12288, 12288]
          @ replace_alts [(nl, nl @ js_repeat [12288] 2)] (f_introduction f) @ nl)"

definition douban_format :: "douban_fields \<Rightarrow> jstr" where
  "douban_format f = trim (douban_descr f)"

text \<open>
  The part of \<open>gen_douban\<close> behind the two marker checks: the queries on the parsed page,
  the structured data, the derived fields and the record. \<open>final_url\<close> is
  \<open>resp.url || douban_link\<close>.
\<close>

definition douban_debug_missing :: "jstr \<Rightarrow> jstr \<Rightarrow> jstr \<Rightarrow> jsval" where
  "douban_debug_missing final_url title text =
     JObj [(''final_url'', JStr final_url), (''title'', JStr title),
           (''has_challenge'', JBool (js_includes text marker_process)),
           (''page_length'', JNum (dec (length text))),
           (''page_preview'', JStr (take 2000 text))]"

definition douban_debug_parse :: "jstr \<Rightarrow> jstr \<Rightarrow> jstr \<Rightarrow> jstr \<Rightarrow> jsval" where
  "douban_debug_parse final_url title ldScript message =
     JObj [(''final_url'', JStr final_url), (''title'', JStr title),
           (''ld_script_preview'', JStr (take 1000 ldScript)),
           (''parse_error'', JStr message)]"

definition error_message :: "(js_error \<Rightarrow> jstr) \<Rightarrow> js_error \<Rightarrow> jstr" where
  "error_message wording e = (case e of Error m \<Rightarrow> m | _ \<Rightarrow> wording e)"

definition douban_record ::
  "'w platform \<Rightarrow> jsval \<Rightarrow> jstr \<Rightarrow> jstr \<Rightarrow> jstr \<Rightarrow> js_error + obj" where
  "douban_record P sid douban_link final_url text =
     (let data = [(''site'', JStr (asc ''douban'')), (''sid'', sid)];
          doc = p_page_douban P text;
          title = trim (replace_first douban_title_suffix [] (d_title doc))
      in case d_ld_script doc of
           None \<Rightarrow>
             Inr (data @ [(''error'', JStr (asc ''Could not find movie data'')),
                          (''debug_info'', douban_debug_missing final_url title text)])
         | Some ldScript \<Rightarrow>
             if ldScript = [] then
               Inr (data @ [(''error'', JStr (asc ''Could not find movie data'')),
                            (''debug_info'', douban_debug_missing final_url title text)])
             else
               (case p_json_parse P (filter (\<lambda>c. c \<noteq> 13 \<and> c \<noteq> 10 \<and> c \<noteq> 9) ldScript) of
                  Inl e \<Rightarrow>
                    Inr (data @ [(''error'', JStr (asc ''Failed to parse movie data'')),
                                 (''debug_info'',
                                  douban_debug_parse final_url title ldScript
                                    (error_message (p_runtime_message P) e))])
                | Inr ld_json \<Rightarrow>
                    (let imdb_id = (if anchor_found (d_imdb doc)
                                    then JStr (fetch_anchor (d_imdb doc)) else JUndefined);
                         imdb_link = (if anchor_found (d_imdb doc)
                                      then JStr (asc ''https://www.imdb.com/title/''
                                                 @ fetch_anchor (d_imdb doc) @ asc ''/'')
                                      else JUndefined);
                         imdb_rating = JUndefined;
                         chinese_title = title;
                         foreign_title = trim (replace_first chinese_title [] (d_itemreviewed doc));
                         aka = douban_aka (p_localeCompare P) (d_aka doc);
                         trans_title = (if foreign_title \<noteq> []
                                        then chinese_title @ (if aka \<noteq> [] then asc ''/'' @ aka else [])
                                        else aka);
                         this_title = (if foreign_title \<noteq> [] then foreign_title else chinese_title);
                         year = asc '' '' @ substr (d_year doc) 1 4;
                         region = (if anchor_found (d_regions doc)
                                   then js_split (asc '' / '') (fetch_anchor (d_regions doc)) else []);
                         genre = map trim (d_genre doc);
                         language = (if anchor_found (d_language doc)
                                     then js_split (asc '' / '') (fetch_anchor (d_language doc)) else []);
                         playdate = js_sort (date_cmp (p_date_ms P)) (map trim (d_release doc));
                         episodes = (if anchor_found (d_episodes doc)
                                     then fetch_anchor (d_episodes doc) else []);
                         duration = (if anchor_found (d_duration doc)
                                     then fetch_anchor (d_duration doc) else trim (d_runtime doc));
                         introduction =
                           (case d_intro doc of
                              Some t \<Rightarrow> js_join nl (filter (\<lambda>a. a \<noteq> []) (map trim (js_split nl t)))
                            | None \<Rightarrow> no_introduction)
                     in
                     bind_err (get_prop ld_json ''aggregateRating'') (\<lambda>rating.
                     let douban_average_rating = js_or (opt_prop rating ''ratingValue'') (JNum (asc ''0''));
                         douban_votes = js_or (opt_prop rating ''ratingCount'') (JNum (asc ''0''));
                         douban_rating = to_str douban_average_rating @ asc ''/10 from ''
                                         @ to_str douban_votes @ asc '' users''
                     in
                     bind_err (get_prop ld_json ''image'') (\<lambda>img.
                     bind_err (douban_poster img) (\<lambda>poster.
                     bind_err (get_prop ld_json ''director'') (\<lambda>d.
                     bind_err (get_prop ld_json ''author'') (\<lambda>w.
                     bind_err (get_prop ld_json ''actor'') (\<lambda>c.
                     let director = js_or d (JArr []);
                         writer = js_or w (JArr []);
                         cast = js_or c (JArr []);
                         tags = d_tags doc
                     in
                     bind_err (names_joined director (asc '' / '')) (\<lambda>director_line.
                     bind_err (names_joined writer (asc '' / '')) (\<lambda>writer_line.
                     bind_err (names_joined cast cast_separator) (\<lambda>cast_line.
                     let descr = douban_descr
                           \<lparr>f_poster = poster, f_trans_title = trans_title, f_this_title = this_title,
                            f_year = year, f_region = region, f_genre = genre,
                            f_language = language, f_playdate = playdate,
                            f_imdb_rating = imdb_rating, f_imdb_link = imdb_link,
                            f_douban_rating = douban_rating, f_douban_link = douban_link,
                            f_episodes = episodes, f_duration = duration,
                            f_director = director_line, f_writer = writer_line,
                            f_cast = cast_line, f_tags = tags, f_introduction = introduction\<rparr>
                     in Inr (data @
                          [(''success'', JBool True),
                           (''format'', JStr (trim descr)),
                           (''chinese_title'', JStr chinese_title),
                           (''foreign_title'', JStr foreign_title),
                           (''aka'', if aka \<noteq> [] then strs (js_split (asc ''/'') aka) else JArr []),
                           (''trans_title'', strs (js_split (asc ''/'') trans_title)),
                           (''this_title'', strs (js_split (asc ''/'') this_title)),
                           (''year'', JStr year),
                           (''region'', strs region),
                           (''genre'', strs genre),
                           (''language'', strs language),
                           (''playdate'', strs playdate),
                           (''episodes'', JStr episodes),
                           (''duration'', JStr duration),
                           (''introduction'', JStr introduction),
                           (''douban_rating_average'', douban_average_rating),
                           (''douban_votes'', douban_votes),
                           (''douban_rating'', JStr douban_rating),
                           (''poster'', JStr poster),
                           (''director'', director),
                           (''writer'', writer),
                           (''cast'', cast),
                           (''tags'', strs tags),
                           (''imdb_id'', imdb_id),
                           (''imdb_link'', imdb_link)])))))))))))))"

text \<open>
  \<open>gen_douban\<close>: the page is fetched, handed to the challenge solver of the server file
  and, if that one solved a challenge and got cookies, fetched again with them; then the
  two marker checks and the record.
\<close>

definition gen_douban :: "'w platform \<Rightarrow> jsval \<Rightarrow> 'w net \<Rightarrow> (js_error + obj) \<times> 'w net" where
  "gen_douban P sid st =
     (let data = [(''site'', JStr (asc ''douban'')), (''sid'', sid)];
          douban_link = asc ''https://movie.douban.com/subject/'' @ to_str sid @ asc ''/''
      in case js_fetch (p_fetch P) (get_request douban_link []) st of
           (Inl e, st1) \<Rightarrow> (Inl e, st1)
         | (Inr resp, st1) \<Rightarrow>
             (case solveDoubanChallenge (p_sha512hex P) (p_fetch P)
                     (if resp_url resp \<noteq> [] then resp_url resp else douban_link)
                     (resp_text resp) st1 of
                (Inl e, st2) \<Rightarrow> (Inl e, st2)
              | (Inr challenge, st2) \<Rightarrow>
                  (case (if ch_solved challenge \<and> str_truthy (ch_cookies challenge)
                         then js_fetch (p_fetch P)
                                (get_request douban_link
                                   [(''Cookie'', the (ch_cookies challenge)),
                                    (''User-Agent'', asc ''Mozilla/5.0'')]) st2
                         else (Inr resp, st2)) of
                     (Inl e, st3) \<Rightarrow> (Inl e, st3)
                   | (Inr resp', st3) \<Rightarrow>
                       (let text = (if ch_solved challenge
                                    then (if str_truthy (ch_cookies challenge)
                                          then resp_text resp' else ch_text challenge)
                                    else resp_text resp)
                        in if js_includes text douban_not_found_marker
                           then (Inr (data @ [(''error'', JStr NONE_EXIST_ERROR)]), st3)
                           else if js_includes text douban_banned_marker
                           then (Inr (data @ [(''error'',
                                       JStr (asc ''GenHelp was temporary banned by Douban''))]), st3)
                           else (douban_record P sid douban_link
                                   (if resp_url resp' \<noteq> [] then resp_url resp' else douban_link)
                                   text, st3)))))"

section \<open>The IMDb adapter\<close>

text \<open>
  The canonical id: a leading \<open>tt\<close> is removed, the rest is padded on the left with \<open>0\<close>
  to seven characters, and \<open>tt\<close> is put in front.
\<close>

definition imdb_id_of :: "jstr \<Rightarrow> jstr" where
  "imdb_id_of sid =
     asc ''tt'' @ padStart0 7 (if startsWith sid (asc ''tt'') then drop 2 sid else sid)"

definition imdb_url_of :: "jstr \<Rightarrow> jstr" where
  "imdb_url_of sid = asc ''https://www.imdb.com/title/'' @ imdb_id_of sid @ asc ''/''"

text \<open>The shape the specification gives the id: \<open>tt\<close> followed by at least seven digits.\<close>

definition is_digit :: "nat \<Rightarrow> bool" where
  "is_digit c \<longleftrightarrow> 48 \<le> c \<and> c \<le> 57"

definition tt_then_digits :: "jstr \<Rightarrow> bool" where
  "tt_then_digits s \<longleftrightarrow>
     take 2 s = asc ''tt'' \<and> 7 \<le> length (drop 2 s) \<and> list_all is_digit (drop 2 s)"

text \<open>\<open>v?.slice(0, 4)\<close>: strings and arrays have the method.\<close>

definition js_slice4 :: "jsval \<Rightarrow> js_error + jsval" where
  "js_slice4 v =
     (case v of
        JUndefined \<Rightarrow> Inr JUndefined
      | JNull \<Rightarrow> Inr JUndefined
      | JStr s \<Rightarrow> Inr (JStr (take 4 s))
      | JArr xs \<Rightarrow> Inr (JArr (take 4 xs))
      | _ \<Rightarrow> Inl TypeError)"

record imdb_fields =
  m_poster :: jsval
  m_name :: jsval
  m_datePublished :: jsval
  m_imdb_rating :: jsval
  m_imdb_link :: jstr

definition imdb_descr :: "imdb_fields \<Rightarrow> jstr" where
  "imdb_descr f =
     line_if (truthy (m_poster f)) (img_block (to_str (m_poster f)))
     @ line_if (truthy (m_name f)) (asc ''Title: '' @ to_str (m_name f) @ nl)
     @ line_if (truthy (m_datePublished f))
         (asc ''Date Published: '' @ to_str (m_datePublished f) @ nl)
     @ line_if (truthy (m_imdb_rating f)) (asc ''IMDb Rating: '' @ to_str (m_imdb_rating f) @ nl)
     @ line_if (m_imdb_link f \<noteq> []) (asc ''IMDb Link: '' @ m_imdb_link f @ nl)"

definition imdb_format :: "imdb_fields \<Rightarrow> jstr" where
  "imdb_format f = trim (imdb_descr f)"

definition imdb_record :: "'w platform \<Rightarrow> jsval \<Rightarrow> jstr \<Rightarrow> jstr \<Rightarrow> jstr \<Rightarrow> js_error + obj" where
  "imdb_record P sid imdb_id imdb_url text =
     (case p_page_imdb_ld P text of
        None \<Rightarrow> Inl TypeError
      | Some html \<Rightarrow>
          bind_err (p_json_parse P (filter (\<lambda>c. c \<noteq> 10) html)) (\<lambda>page_json.
          bind_err (get_prop page_json ''name'') (\<lambda>name.
          bind_err (get_prop page_json ''genre'') (\<lambda>genre.
          bind_err (get_prop page_json ''contentRating'') (\<lambda>contentRating.
          bind_err (get_prop page_json ''datePublished'') (\<lambda>datePublished.
          bind_err (get_prop page_json ''description'') (\<lambda>description.
          bind_err (get_prop page_json ''duration'') (\<lambda>duration.
          bind_err (get_prop page_json ''image'') (\<lambda>poster.
          bind_err (js_slice4 datePublished) (\<lambda>year.
          bind_err (get_prop page_json ''aggregateRating'') (\<lambda>aggregateRating.
          let imdb_votes = js_or (opt_prop aggregateRating ''ratingCount'') (JNum (asc ''0''));
              imdb_rating_average = js_or (opt_prop aggregateRating ''ratingValue'') (JNum (asc ''0''));
              imdb_rating = to_str imdb_rating_average @ asc ''/10 from '' @ to_str imdb_votes
                            @ asc '' users'';
              rated = (if truthy aggregateRating
                       then [(''imdb_votes'', imdb_votes),
                             (''imdb_rating_average'', imdb_rating_average),
                             (''imdb_rating'', JStr imdb_rating)]
                       else []);
              descr = imdb_descr
                \<lparr>m_poster = poster, m_name = name, m_datePublished = datePublished,
                 m_imdb_rating = (if truthy aggregateRating then JStr imdb_rating else JUndefined),
                 m_imdb_link = imdb_url\<rparr>
          in Inr ([(''site'', JStr (asc ''imdb'')), (''sid'', sid),
                   (''imdb_id'', JStr imdb_id),
                   (''imdb_link'', JStr imdb_url),
                   (''name'', name),
                   (''genre'', genre),
                   (''contentRating'', contentRating),
                   (''datePublished'', datePublished),
                   (''description'', description),
                   (''duration'', duration),
                   (''poster'', poster),
                   (''year'', year)]
                  @ rated
                  @ [(''format'', JStr (trim descr)), (''success'', JBool True)]))))))))))))"

text \<open>
  \<open>gen_imdb\<close>. The subject id comes from the query string or from a matched URL; only a
  string has \<open>startsWith\<close>.
\<close>

definition gen_imdb :: "'w platform \<Rightarrow> jsval \<Rightarrow> 'w net \<Rightarrow> (js_error + obj) \<times> 'w net" where
  "gen_imdb P sid st =
     (case sid of
        JStr s \<Rightarrow>
          (let data = [(''site'', JStr (asc ''imdb'')), (''sid'', sid)];
               imdb_id = imdb_id_of s;
               imdb_url = imdb_url_of s
           in case js_fetch (p_fetch P) (get_request imdb_url []) st of
                (Inl e, st1) \<Rightarrow> (Inl e, st1)
              | (Inr resp, st1) \<Rightarrow>
                  if js_includes (resp_text resp) (asc ''404 Error - IMDb'')
                  then (Inr (data @ [(''error'', JStr NONE_EXIST_ERROR)]), st1)
                  else (imdb_record P sid imdb_id imdb_url (resp_text resp), st1))
      | _ \<Rightarrow> (Inl TypeError, st))"

section \<open>The Bangumi adapter\<close>

definition bangumi_error_marker :: jstr where
  "bangumi_error_marker = [21596, 21653, 65292, 20986, 38169, 20102]"

definition bangumi_info_prefixes :: "jstr list" where
  "bangumi_info_prefixes =
     [[20013, 25991, 21517], [35805, 25968], [25918, 36865, 24320, 22987],
      [25918, 36865, 26143, 26399], [21035, 21517], [23448, 26041, 32593, 31449]]"

definition lbl_source :: jstr where
  "lbl_source = [40, 26469, 28304, 20110, 32]"

text \<open>
  A regular-expression replace without the flag \<open>g\<close> whose pattern is an alternation of
  literals: the leftmost match is replaced.
\<close>

fun replace_first_of :: "jstr list \<Rightarrow> jstr \<Rightarrow> jstr \<Rightarrow> jstr" where
  "replace_first_of ps r [] = []"
| "replace_first_of ps r (c # s) =
     (case find (\<lambda>p. take (length p) (c # s) = p) ps of
        Some p \<Rightarrow> r @ drop (length p) (c # s)
      | None \<Rightarrow> c # replace_first_of ps r s)"

text \<open>\<open>href.replace(/\/cover\/[lcmsg]\//, "/cover/l/")\<close>.\<close>

definition cover_large :: "jstr \<Rightarrow> jstr" where
  "cover_large href =
     replace_first_of (map (\<lambda>c. asc ''/cover/'' @ [c] @ asc ''/'') (asc ''lcmsg''))
       (asc ''/cover/l/'') href"

record bangumi_fields =
  g_poster :: jstr
  g_story :: jstr
  g_staff :: "jstr list"
  g_alt :: jstr

definition bangumi_descr :: "bangumi_fields \<Rightarrow> jstr" where
  "bangumi_descr f =
     line_if (g_poster f \<noteq> []) (img_block (g_poster f))
     @ line_if (g_story f \<noteq> []) (asc ''[b]Story: [/b]'' @ nl @ nl @ g_story f @ nl @ nl)
     @ line_if (g_staff f \<noteq> [])
         (asc ''[b]Staff: [/b]'' @ nl @ nl @ js_join nl (take 15 (g_staff f)) @ nl @ nl)
     @ line_if (g_alt f \<noteq> []) (lbl_source @ g_alt f @ asc '')'' @ nl)"

definition bangumi_format :: "bangumi_fields \<Rightarrow> jstr" where
  "bangumi_format f = trim (bangumi_descr f)"

definition gen_bangumi :: "'w platform \<Rightarrow> jsval \<Rightarrow> 'w net \<Rightarrow> (js_error + obj) \<times> 'w net" where
  "gen_bangumi P sid st =
     (let data = [(''site'', JStr (asc ''bangumi'')), (''sid'', sid)];
          bangumi_link = asc ''https://bgm.tv/subject/'' @ to_str sid
      in case js_fetch (p_fetch P) (get_request bangumi_link []) st of
           (Inl e, st1) \<Rightarrow> (Inl e, st1)
         | (Inr resp, st1) \<Rightarrow>
             if js_includes (resp_text resp) bangumi_error_marker
             then (Inr (data @ [(''error'', JStr NONE_EXIST_ERROR)]), st1)
             else
               (let doc = p_page_bangumi P (resp_text resp);
                    poster = (if str_truthy (b_cover_href doc)
                              then asc ''https:'' @ cover_large (the (b_cover_href doc)) else []);
                    story = trim (b_summary doc);
                    info = b_infobox doc;
                    staff = filter (\<lambda>d. \<not> (\<exists>p \<in> set bangumi_info_prefixes. startsWith d p)) info;
                    descr = bangumi_descr
                      \<lparr>g_poster = poster, g_story = story, g_staff = staff, g_alt = bangumi_link\<rparr>
                in (Inr (data @
                     [(''alt'', JStr bangumi_link),
                      (''poster'', JStr poster),
                      (''story'', JStr story),
                      (''staff'', strs staff),
                      (''info'', strs (filter (\<lambda>d. d \<in> set staff) info)),
                      (''bangumi_votes'', JStr (b_votes doc)),
                      (''bangumi_rating_average'', JStr (b_average doc)),
                      (''tags'', strs (b_tags doc)),
                      (''format'', JStr (trim descr)),
                      (''success'', JBool True)]), st1)))"

section \<open>The Steam adapter\<close>

definition lbl_game_name_colon :: jstr where
  "lbl_game_name_colon = [28216, 25103, 21517, 31216, 58, 32]"

definition lbl_steam_page :: jstr where
  "lbl_steam_page = asc ''Steam'' @ [39029, 38754] @ asc '': https://store.steampowered.com/app/''"

text \<open>\<open>src.replace(/\?t=\d+$/, "")\<close>: a query \<open>?t=\<close> with digits up to the end is cut off.\<close>

definition is_t_query :: "jstr \<Rightarrow> bool" where
  "is_t_query s \<longleftrightarrow> take 3 s = asc ''?t='' \<and> drop 3 s \<noteq> [] \<and> list_all is_digit (drop 3 s)"

fun strip_t_query :: "jstr \<Rightarrow> jstr" where
  "strip_t_query [] = []"
| "strip_t_query (c # s) = (if is_t_query (c # s) then [] else c # strip_t_query s)"

definition steam_request :: "jstr \<Rightarrow> request" where
  "steam_request u =
     \<lparr>req_url = u, req_method = asc ''GET'',
      req_headers = [(''Cookie'', asc ''lastagecheckage=1-January-1975; birthtime=157737601; mature_content=1; wants_mature_content=1; Steam_Language=schinese'')],
      req_body = None, req_redirect = asc ''manual''\<rparr>"

record steam_fields =
  t_poster :: "jstr option"
  t_name :: jstr
  t_sid :: jstr

definition steam_descr :: "steam_fields \<Rightarrow> jstr" where
  "steam_descr f =
     line_if (str_truthy (t_poster f)) (img_block (the (t_poster f)))
     @ line_if (t_name f \<noteq> []) (lbl_game_name_colon @ t_name f @ nl)
     @ lbl_steam_page @ t_sid f @ asc ''/'' @ nl"

definition steam_format :: "steam_fields \<Rightarrow> jstr" where
  "steam_format f = trim (steam_descr f)"

definition opt_str :: "jstr option \<Rightarrow> jsval" where
  "opt_str v = (case v of None \<Rightarrow> JUndefined | Some s \<Rightarrow> JStr s)"

definition gen_steam :: "'w platform \<Rightarrow> jsval \<Rightarrow> 'w net \<Rightarrow> (js_error + obj) \<times> 'w net" where
  "gen_steam P sid st =
     (let data = [(''site'', JStr (asc ''steam'')), (''sid'', sid)]
      in case js_fetch (p_fetch P)
                (steam_request (asc ''https://store.steampowered.com/app/'' @ to_str sid
                                @ asc ''/?l=schinese'')) st of
           (Inl e, st1) \<Rightarrow> (Inl e, st1)
         | (Inr resp, st1) \<Rightarrow>
             if resp_status resp = 302 then (Inr (data @ [(''error'', JStr NONE_EXIST_ERROR)]), st1)
             else if resp_status resp = 403
             then (Inr (data @ [(''error'', JStr (asc ''Steam Server ban''))]), st1)
             else
               (let doc = p_page_steam P (resp_text resp);
                    name = (if trim (s_apphub_name doc) \<noteq> [] then trim (s_apphub_name doc)
                            else trim (s_itemprop_name doc));
                    poster = map_option strip_t_query (s_header_src doc);
                    tags = map trim (s_tags doc);
                    descr = steam_descr \<lparr>t_poster = poster, t_name = name, t_sid = to_str sid\<rparr>
                in (Inr (data @
                     [(''name'', JStr name),
                      (''poster'', opt_str poster),
                      (''tags'', strs tags),
                      (''format'', JStr (trim descr)),
                      (''success'', JBool True)]), st1)))"

section \<open>The Indienova adapter\<close>

definition indienova_error_marker :: jstr where
  "indienova_error_marker = [20986, 29616, 38169, 35823]"

definition lbl_chinese_name :: jstr where
  "lbl_chinese_name = [20013, 25991, 21517, 31216, 65306]"

text \<open>\<open>s.split(sep)[0]\<close>.\<close>

definition first_part :: "jstr \<Rightarrow> jstr \<Rightarrow> jstr" where
  "first_part sep s = (case js_split sep s of [] \<Rightarrow> [] | x # xs \<Rightarrow> x)"

record indienova_fields =
  n_poster :: "jstr option"
  n_chinese_title :: jstr

definition indienova_descr :: "indienova_fields \<Rightarrow> jstr" where
  "indienova_descr f =
     line_if (str_truthy (n_poster f)) (img_block (the (n_poster f)))
     @ line_if (n_chinese_title f \<noteq> []) (lbl_chinese_name @ n_chinese_title f @ nl)"

definition indienova_format :: "indienova_fields \<Rightarrow> jstr" where
  "indienova_format f = trim (indienova_descr f)"

definition gen_indienova :: "'w platform \<Rightarrow> jsval \<Rightarrow> 'w net \<Rightarrow> (js_error + obj) \<times> 'w net" where
  "gen_indienova P sid st =
     (let data = [(''site'', JStr (asc ''indienova'')), (''sid'', sid)]
      in case js_fetch (p_fetch P)
                (get_request (asc ''https://indienova.com/game/'' @ to_str sid) []) st of
           (Inl e, st1) \<Rightarrow> (Inl e, st1)
         | (Inr resp, st1) \<Rightarrow>
             if js_includes (resp_text resp) indienova_error_marker
             then (Inr (data @ [(''error'', JStr NONE_EXIST_ERROR)]), st1)
             else
               (let doc = p_page_indienova P (resp_text resp);
                    poster = i_cover_src doc;
                    chinese_title = trim (first_part (asc ''-'') (first_part (asc ''|'') (i_title doc)));
                    descr = indienova_descr \<lparr>n_poster = poster, n_chinese_title = chinese_title\<rparr>
                in (Inr (data @
                     [(''poster'', opt_str poster),
                      (''chinese_title'', JStr chinese_title),
                      (''format'', JStr (trim descr)),
                      (''success'', JBool True)]), st1)))"

section \<open>The Epic adapter\<close>

definition lbl_game_name_wide :: jstr where
  "lbl_game_name_wide = [28216, 25103, 21517, 31216, 65306]"

definition lbl_store_link :: jstr where
  "lbl_store_link = [21830, 24215, 38142, 25509, 65306]"

definition lbl_game_intro :: jstr where
  "lbl_game_intro = [12304, 28216, 25103, 31616, 20171, 12305]"

text \<open>\<open>v?.[0]\<close>.\<close>

definition js_index0 :: "jsval \<Rightarrow> jsval" where
  "js_index0 v =
     (case v of
        JArr xs \<Rightarrow> (case xs of [] \<Rightarrow> JUndefined | x # r \<Rightarrow> x)
      | JStr s \<Rightarrow> (case s of [] \<Rightarrow> JUndefined | c # r \<Rightarrow> JStr [c])
      | JObj fs \<Rightarrow> js_get fs ''0''
      | _ \<Rightarrow> JUndefined)"

record epic_fields =
  e_poster :: jsval
  e_name :: jsval
  e_epic_link :: jstr
  e_desc :: jsval

definition epic_descr :: "epic_fields \<Rightarrow> jstr" where
  "epic_descr f =
     line_if (truthy (e_poster f)) (img_block (to_str (e_poster f)))
     @ line_if (truthy (e_name f)) (lbl_game_name_wide @ to_str (e_name f) @ nl)
     @ line_if (e_epic_link f \<noteq> []) (lbl_store_link @ e_epic_link f @ nl)
     @ line_if (truthy (e_desc f)) (nl @ lbl_game_intro @ nl @ nl @ to_str (e_desc f) @ nl)"

definition epic_format :: "epic_fields \<Rightarrow> jstr" where
  "epic_format f = trim (epic_descr f)"

definition epic_record :: "'w platform \<Rightarrow> jsval \<Rightarrow> jstr \<Rightarrow> js_error + obj" where
  "epic_record P sid text =
     (let data = [(''site'', JStr (asc ''epic'')), (''sid'', sid)]
      in bind_err (p_json_parse P text) (\<lambda>api_json.
         bind_err (get_prop api_json ''pages'') (\<lambda>pages.
         let page = js_index0 pages
         in if \<not> truthy page then Inr (data @ [(''error'', JStr (asc ''Invalid response''))])
            else
              (let name = opt_prop page ''productName'';
                   epic_link = asc ''https://www.epicgames.com/store/zh-CN/product/'' @ to_str sid
                               @ asc ''/home'';
                   pdata = opt_prop page ''data'';
                   desc = opt_prop (opt_prop pdata ''about'') ''description'';
                   poster = opt_prop (opt_prop (opt_prop pdata ''hero'') ''logoImage'') ''src'';
                   gallery = opt_prop (opt_prop pdata ''gallery'') ''galleryImages''
               in bind_err (arr_map_prop ''src'' (js_or gallery (JArr []))) (\<lambda>screenshot.
                  let descr = epic_descr
                        \<lparr>e_poster = poster, e_name = name, e_epic_link = epic_link, e_desc = desc\<rparr>
                  in Inr (data @
                       [(''name'', name),
                        (''epic_link'', JStr epic_link),
                        (''desc'', desc),
                        (''poster'', poster),
                        (''screenshot'', JArr screenshot),
                        (''format'', JStr (trim descr)),
                        (''success'', JBool True)]))))))"

definition gen_epic :: "'w platform \<Rightarrow> jsval \<Rightarrow> 'w net \<Rightarrow> (js_error + obj) \<times> 'w net" where
  "gen_epic P sid st =
     (let data = [(''site'', JStr (asc ''epic'')), (''sid'', sid)]
      in case js_fetch (p_fetch P)
                (get_request (asc ''https://store-content.ak.epicgames.com/api/zh-CN/content/products/''
                              @ to_str sid) []) st of
           (Inl e, st1) \<Rightarrow> (Inl e, st1)
         | (Inr resp, st1) \<Rightarrow>
             if resp_status resp = 404 then (Inr (data @ [(''error'', JStr NONE_EXIST_ERROR)]), st1)
             else (epic_record P sid (resp_text resp), st1))"

section \<open>The search functions\<close>

text \<open>\<open>xs.map(f)\<close> where \<open>f\<close> may throw.\<close>

fun map_items :: "(jsval \<Rightarrow> js_error + jsval) \<Rightarrow> jsval list \<Rightarrow> js_error + jsval list" where
  "map_items f [] = Inr []"
| "map_items f (x # xs) = bind_err (f x) (\<lambda>y. bind_err (map_items f xs) (\<lambda>ys. Inr (y # ys)))"

text \<open>\<open>v.map(f)\<close> on a value that is not \<open>undefined\<close> or \<open>null\<close>: only an array has the method.\<close>

definition arr_map_items :: "(jsval \<Rightarrow> js_error + jsval) \<Rightarrow> jsval \<Rightarrow> js_error + jsval list" where
  "arr_map_items f v = (case v of JArr xs \<Rightarrow> map_items f xs | _ \<Rightarrow> Inl TypeError)"

definition douban_item :: "jsval \<Rightarrow> js_error + jsval" where
  "douban_item d =
     bind_err (get_prop d ''year'') (\<lambda>year.
     bind_err (get_prop d ''type'') (\<lambda>type.
     bind_err (get_prop d ''title'') (\<lambda>title.
     bind_err (get_prop d ''sub_title'') (\<lambda>sub_title.
     bind_err (get_prop d ''id'') (\<lambda>ident.
       Inr (JObj [(''year'', year), (''subtype'', type), (''title'', title),
                  (''subtitle'', sub_title),
                  (''link'', JStr (asc ''https://movie.douban.com/subject/'' @ to_str ident
                                   @ asc ''/''))]))))))"

text \<open>
  \<open>search_douban\<close>: everything behind the fetch and the challenge solver is inside a
  \<open>try\<close>; whatever is thrown there gives the error object.
\<close>

definition search_douban :: "'w platform \<Rightarrow> jsval \<Rightarrow> 'w net \<Rightarrow> (js_error + obj) \<times> 'w net" where
  "search_douban P query st =
     (case p_encodeURIComponent P (to_str query) of
        Inl e \<Rightarrow> (Inl e, st)
      | Inr q \<Rightarrow>
          (let search_url = asc ''https://movie.douban.com/j/subject_suggest?q='' @ q
           in case js_fetch (p_fetch P) (get_request search_url []) st of
                (Inl e, st1) \<Rightarrow> (Inl e, st1)
              | (Inr resp, st1) \<Rightarrow>
                  (case solveDoubanChallenge (p_sha512hex P) (p_fetch P)
                          (if resp_url resp \<noteq> [] then resp_url resp else search_url)
                          (resp_text resp) st1 of
                     (Inl e, st2) \<Rightarrow> (Inl e, st2)
                   | (Inr challenge, st2) \<Rightarrow>
                       (let text = (if ch_solved challenge then ch_text challenge
                                    else resp_text resp)
                        in case bind_err (p_json_parse P text)
                                  (\<lambda>data. bind_err (arr_map_items douban_item data)
                                     (\<lambda>items. Inr items)) of
                             Inr items \<Rightarrow> (Inr [(''data'', JArr items)], st2)
                           | Inl e \<Rightarrow>
                               (Inr [(''error'', JStr (asc ''Failed to parse search results'')),
                                     (''debug_info'',
                                      JObj [(''response_preview'', JStr (take 2000 text)),
                                            (''parse_error'',
                                             JStr (error_message (p_runtime_message P) e))])],
                                st2)))))"

definition imdb_item :: "jsval \<Rightarrow> js_error + jsval" where
  "imdb_item d =
     bind_err (get_prop d ''y'') (\<lambda>y.
     bind_err (get_prop d ''q'') (\<lambda>q.
     bind_err (get_prop d ''l'') (\<lambda>l.
     bind_err (get_prop d ''id'') (\<lambda>ident.
       Inr (JObj [(''year'', y), (''subtype'', q), (''title'', l),
                  (''link'', JStr (asc ''https://www.imdb.com/title/'' @ to_str ident))])))))"

text \<open>\<open>xs.filter(d => /^tt/.test(d.id))\<close>.\<close>

fun filter_tt :: "jsval list \<Rightarrow> js_error + jsval list" where
  "filter_tt [] = Inr []"
| "filter_tt (d # ds) =
     bind_err (get_prop d ''id'') (\<lambda>ident.
     bind_err (filter_tt ds) (\<lambda>rest.
       Inr (if startsWith (to_str ident) (asc ''tt'') then d # rest else rest)))"

definition search_imdb :: "'w platform \<Rightarrow> jsval \<Rightarrow> 'w net \<Rightarrow> (js_error + obj) \<times> 'w net" where
  "search_imdb P query st =
     (case query of
        JStr q0 \<Rightarrow>
          (let q = p_toLowerCase P q0
           in case js_fetch (p_fetch P)
                     (get_request (asc ''https://v2.sg.media-imdb.com/suggestion/'' @ take 1 q
                                   @ asc ''/'' @ q @ asc ''.json'') []) st of
                (Inl e, st1) \<Rightarrow> (Inl e, st1)
              | (Inr resp, st1) \<Rightarrow>
                  (bind_err (p_json_parse P (resp_text resp)) (\<lambda>data.
                   bind_err (get_prop data ''d'') (\<lambda>d.
                   case js_or d (JArr []) of
                     JArr ds \<Rightarrow>
                       bind_err (filter_tt ds) (\<lambda>kept.
                       bind_err (map_items imdb_item kept) (\<lambda>items.
                         Inr [(''data'', JArr items)]))
                   | _ \<Rightarrow> Inl TypeError)), st1))
      | _ \<Rightarrow> (Inl TypeError, st))"

definition tp_dict :: "(jstr \<times> jstr) list" where
  "tp_dict =
     [(asc ''1'', [28459, 30011, 47, 23567, 35828]),
      (asc ''2'', [21160, 30011, 47, 20108, 27425, 20803, 30058]),
      (asc ''3'', [38899, 20048]),
      (asc ''4'', [28216, 25103]),
      (asc ''6'', [19977, 27425, 20803, 30058])]"

text \<open>
  \<open>tp_dict[d.type]\<close>: the entry of the table for the type, \<open>undefined\<close> for a type the
  table does not have (a type is never the name of a method every object inherits).
\<close>

definition bangumi_item :: "jsval \<Rightarrow> js_error + jsval" where
  "bangumi_item d =
     bind_err (get_prop d ''air_date'') (\<lambda>air_date.
     bind_err (js_slice4 air_date) (\<lambda>year.
     bind_err (get_prop d ''type'') (\<lambda>type.
     bind_err (get_prop d ''name_cn'') (\<lambda>name_cn.
     bind_err (get_prop d ''name'') (\<lambda>name.
     bind_err (get_prop d ''url'') (\<lambda>link.
       Inr (JObj [(''year'', year),
                  (''subtype'', opt_str (map_of tp_dict (to_str type))),
                  (''title'', js_or name_cn name),
                  (''subtitle'', name),
                  (''link'', link)])))))))"

definition search_bangumi :: "'w platform \<Rightarrow> jsval \<Rightarrow> 'w net \<Rightarrow> (js_error + obj) \<times> 'w net" where
  "search_bangumi P query st =
     (case p_encodeURIComponent P (to_str query) of
        Inl e \<Rightarrow> (Inl e, st)
      | Inr q \<Rightarrow>
          (case js_fetch (p_fetch P)
                  (get_request (asc ''http://api.bgm.tv/search/subject/'' @ q
                                @ asc ''?responseGroup=large'') []) st of
             (Inl e, st1) \<Rightarrow> (Inl e, st1)
           | (Inr resp, st1) \<Rightarrow>
               (bind_err (p_json_parse P (resp_text resp)) (\<lambda>data.
                bind_err (get_prop data ''list'') (\<lambda>l.
                bind_err (arr_map_items bangumi_item (js_or l (JArr []))) (\<lambda>items.
                  Inr [(''data'', JArr items)]))), st1)))"

section \<open>The cache\<close>

text \<open>
  The store of the server file is a map in memory from keys to entries with an expiry
  time. Only the handler writes to it, and what it writes is \<open>JSON.stringify\<close> of a
  record, read back with \<open>JSON.parse\<close>. A stored text is represented by the value it
  parses to: writing stores \<open>json_norm\<close> of the record, reading returns the stored value.
  An entry whose expiry time has passed is deleted when it is read.
\<close>

record kv_item =
  kv_value :: jsval
  kv_expiry :: nat

type_synonym kv_store = "jstr \<Rightarrow> kv_item option"

definition kv_get :: "nat \<Rightarrow> kv_store \<Rightarrow> jstr \<Rightarrow> jsval option \<times> kv_store" where
  "kv_get now store key =
     (case store key of
        None \<Rightarrow> (None, store)
      | Some item \<Rightarrow>
          if now > kv_expiry item then (None, store(key := None))
          else (Some (kv_value item), store))"

definition kv_put :: "nat \<Rightarrow> kv_store \<Rightarrow> jstr \<Rightarrow> jsval \<Rightarrow> nat \<Rightarrow> kv_store" where
  "kv_put now store key v ttl = store(key \<mapsto> \<lparr>kv_value = v, kv_expiry = now + ttl * 1000\<rparr>)"

text \<open>
  \<open>restoreFromKV\<close>: \<open>undefined\<close> without a store, \<open>null\<close> without a live entry, the parsed
  entry otherwise.
\<close>

definition restoreFromKV :: "nat \<Rightarrow> kv_store option \<Rightarrow> jstr \<Rightarrow> jsval \<times> kv_store option" where
  "restoreFromKV now kv cache_key =
     (case kv of
        None \<Rightarrow> (JUndefined, None)
      | Some store \<Rightarrow>
          (case kv_get now store cache_key of
             (None, store') \<Rightarrow> (JNull, Some store')
           | (Some v, store') \<Rightarrow> (v, Some store')))"

section \<open>Responses\<close>

record environment =
  env_APIKEY :: "jstr option"
  env_DISABLE_SEARCH :: "jstr option"
  env_AUTHOR :: "jstr option"
  env_indexHtml :: jstr

text \<open>The readings of \<open>Date.now()\<close> while a request is handled.\<close>

record clock =
  at_lookup :: nat
  at_response :: nat
  at_store :: nat

datatype body = Html jstr | Json obj

record http_response =
  rs_status :: nat
  rs_content_type :: jstr
  rs_body :: body

text \<open>
  \<open>makeJsonRawResponse\<close>; the body is the object handed to \<open>JSON.stringify\<close>, and
  \<open>sent_document\<close> is the JSON document the caller receives.
\<close>

definition makeJsonRawResponse :: "obj \<Rightarrow> nat \<Rightarrow> http_response" where
  "makeJsonRawResponse b status =
     \<lparr>rs_status = (if status = 0 then 200 else status),
      rs_content_type = asc ''application/json'', rs_body = Json b\<rparr>"

definition sent_document :: "obj \<Rightarrow> jsval" where
  "sent_document b = json_norm (JObj b)"

definition VERSION :: jstr where
  "VERSION = asc ''0.6.4''"

definition default_body :: "environment \<Rightarrow> obj" where
  "default_body env =
     [(''success'', JBool False),
      (''error'', JNull),
      (''format'', JStr []),
      (''copyright'', JStr (asc ''Powered by @''
         @ (if str_truthy (env_AUTHOR env) then the (env_AUTHOR env) else asc ''Rhilip''))),
      (''version'', JStr VERSION),
      (''generate_at'', JNum (asc ''0''))]"

text \<open>
  The own enumerable properties a spread copies: those of an object, the indexed
  elements of an array or a string, none of another value.
\<close>

definition index_key :: "nat \<Rightarrow> string" where
  "index_key i = map char_of (dec i)"

definition spread_of :: "jsval \<Rightarrow> obj" where
  "spread_of v =
     (case v of
        JObj fs \<Rightarrow> fs
      | JArr xs \<Rightarrow> map (\<lambda>i. (index_key i, xs ! i)) [0 ..< length xs]
      | JStr s \<Rightarrow> map (\<lambda>i. (index_key i, JStr [s ! i])) [0 ..< length s]
      | _ \<Rightarrow> [])"

definition makeJsonResponse :: "environment \<Rightarrow> nat \<Rightarrow> jsval \<Rightarrow> nat \<Rightarrow> http_response" where
  "makeJsonResponse env now body_update statusCode =
     makeJsonRawResponse
       (obj_set ''generate_at'' (JNum (dec now)) (spread (default_body env) (spread_of body_update)))
       statusCode"

section \<open>The request handler\<close>

text \<open>
  A request as \<open>url.parse(request.url, true)\<close> presents it: the path, the query string
  (empty when there is none) and the query parameters, each one \<open>undefined\<close>, a string, or
  an array of strings when the parameter is repeated.
\<close>

record http_request =
  rq_url :: jstr
  rq_method :: jstr
  rq_pathname :: jstr
  rq_search :: jstr
  rq_query :: "string \<Rightarrow> jsval"

definition err_name :: "js_error \<Rightarrow> jstr" where
  "err_name e =
     (case e of
        Error m \<Rightarrow> asc ''Error''
      | FetchFailed \<Rightarrow> asc ''TypeError''
      | SyntaxError \<Rightarrow> asc ''SyntaxError''
      | TypeError \<Rightarrow> asc ''TypeError''
      | URIError \<Rightarrow> asc ''URIError'')"

text \<open>\<open>Date.now() / 1000\<close> as a number: the seconds, and the milliseconds behind the point.\<close>

definition seconds_text :: "nat \<Rightarrow> jstr" where
  "seconds_text ms =
     (let frac = rev (dropWhile (\<lambda>c. c = 48) (rev (padStart0 3 (dec (ms mod 1000)))))
      in dec (ms div 1000) @ (if frac = [] then [] else asc ''.'' @ frac))"

definition debug_get_err :: "(js_error \<Rightarrow> jstr) \<Rightarrow> nat \<Rightarrow> js_error \<Rightarrow> http_request \<Rightarrow> jsval" where
  "debug_get_err wording now err request =
     JObj [(''message'', JStr (err_name err @ asc '': '' @ error_message wording err)),
           (''timestamp'', JNum (seconds_text now)),
           (''request'', JObj [(''method'', JStr (rq_method request)),
                               (''url'', JStr (rq_url request))])]"

text \<open>The search endpoint behind the cache lookup.\<close>

definition dispatch_search :: "'w platform \<Rightarrow> jsval \<Rightarrow> jsval \<Rightarrow> 'w net \<Rightarrow> (js_error + obj) \<times> 'w net" where
  "dispatch_search P source keywords st =
     (if source = JStr (asc ''douban'') then search_douban P keywords st
      else if source = JStr (asc ''imdb'') then search_imdb P keywords st
      else if source = JStr (asc ''bangumi'') then search_bangumi P keywords st
      else (Inr [(''error'', JStr (asc ''Unknown source: '' @ to_str source))], st))"

text \<open>The generate endpoint behind the cache lookup.\<close>

definition dispatch_gen :: "'w platform \<Rightarrow> jsval \<Rightarrow> jsval \<Rightarrow> 'w net \<Rightarrow> (js_error + obj) \<times> 'w net" where
  "dispatch_gen P site sid st =
     (if site = JStr (asc ''douban'') then gen_douban P sid st
      else if site = JStr (asc ''imdb'') then gen_imdb P sid st
      else if site = JStr (asc ''bangumi'') then gen_bangumi P sid st
      else if site = JStr (asc ''steam'') then gen_steam P sid st
      else if site = JStr (asc ''indienova'') then gen_indienova P sid st
      else if site = JStr (asc ''epic'') then gen_epic P sid st
      else (Inr [(''error'', JStr (asc ''Unknown site: '' @ to_str site))], st))"

text \<open>
  Lookup and dispatch under a cache key: a truthy cached value is the response data,
  otherwise the adapter runs.
\<close>

definition cached_or ::
  "nat \<Rightarrow> jstr \<Rightarrow> ('w net \<Rightarrow> (js_error + obj) \<times> 'w net) \<Rightarrow> kv_store option \<Rightarrow> 'w net
     \<Rightarrow> (js_error + jsval \<times> jstr option) \<times> kv_store option \<times> 'w net" where
  "cached_or now cache_key live kv st =
     (case restoreFromKV now kv cache_key of
        (cache_data, kv') \<Rightarrow>
          if truthy cache_data then (Inr (cache_data, Some cache_key), kv', st)
          else (case live st of
                  (Inl e, st') \<Rightarrow> (Inl e, kv', st')
                | (Inr r, st') \<Rightarrow> (Inr (JObj r, Some cache_key), kv', st')))"

text \<open>
  The site and the subject id of a generate request: from the URL, matched against the
  table of supported sites, or from the parameters \<open>site\<close> and \<open>sid\<close>. Only a string has
  \<open>match\<close>.
\<close>

definition identify :: "'w platform \<Rightarrow> http_request \<Rightarrow> js_error + jsval \<times> jsval" where
  "identify P rq =
     (if truthy (rq_query rq ''url'')
      then (case rq_query rq ''url'' of
              JStr url_str \<Rightarrow>
                (case p_support_match P url_str of
                   Some (site, sid) \<Rightarrow> Inr (JStr site, JStr sid)
                 | None \<Rightarrow> Inr (JUndefined, JUndefined))
            | _ \<Rightarrow> Inl TypeError)
      else Inr (rq_query rq ''site'', rq_query rq ''sid''))"

text \<open>
  The part of \<open>handle\<close> that computes the response data and the cache key; \<open>None\<close> is a
  cache key that was never assigned.
\<close>

definition response_data_of ::
  "'w platform \<Rightarrow> environment \<Rightarrow> clock \<Rightarrow> http_request \<Rightarrow> kv_store option \<Rightarrow> 'w net
     \<Rightarrow> (js_error + jsval \<times> jstr option) \<times> kv_store option \<times> 'w net" where
  "response_data_of P env clk rq kv st =
     (if truthy (rq_query rq ''search'')
      then
        (if str_truthy (env_DISABLE_SEARCH env)
         then (Inr (JObj [(''error'', JStr (asc ''this ptgen disallow search''))], None), kv, st)
         else
           (let keywords = rq_query rq ''search'';
                source = js_or (rq_query rq ''source'') (JStr (asc ''douban''));
                cache_key = asc ''search-'' @ to_str source @ asc ''-'' @ to_str keywords
            in cached_or (at_lookup clk) cache_key (dispatch_search P source keywords) kv st))
      else
        (case identify P rq of
           Inl e \<Rightarrow> (Inl e, kv, st)
         | Inr (site, sid) \<Rightarrow>
             if \<not> truthy site \<or> \<not> truthy sid
             then (Inr (JObj [(''error'',
                      JStr (asc ''Miss key of site or sid, or input unsupported resource url.''))],
                    None), kv, st)
             else
               (let cache_key = asc ''info-'' @ to_str site @ asc ''-'' @ to_str sid
                in cached_or (at_lookup clk) cache_key (dispatch_gen P site sid) kv st)))"

text \<open>
  \<open>handle\<close>. The result is the response (\<open>None\<close> where the function returns nothing), the
  store and the network afterwards.
\<close>

definition handle ::
  "'w platform \<Rightarrow> environment \<Rightarrow> clock \<Rightarrow> http_request \<Rightarrow> kv_store option \<Rightarrow> 'w net
     \<Rightarrow> http_response option \<times> kv_store option \<times> 'w net" where
  "handle P env clk rq kv st =
     (if rq_pathname rq = asc ''/'' \<and> rq_search rq = []
      then (Some \<lparr>rs_status = 200, rs_content_type = asc ''text/html'',
                   rs_body = Html (env_indexHtml env)\<rparr>, kv, st)
      else if str_truthy (env_APIKEY env) \<and> rq_query rq ''apikey'' \<noteq> JStr (the (env_APIKEY env))
      then (Some (makeJsonRawResponse [(''error'', JStr (asc ''apikey required.''))] 403), kv, st)
      else
        (case response_data_of P env clk rq kv st of
           (Inl err, kv', st') \<Rightarrow>
             (Some (makeJsonResponse env (at_response clk)
                      (JObj [(''error'', JStr (asc ''Internal Error: ''
                                               @ error_message (p_runtime_message P) err)),
                             (''debug'', debug_get_err (p_runtime_message P) (at_response clk) err rq)])
                      500),
              kv', st')
         | (Inr (response_data, cache_key), kv', st') \<Rightarrow>
             if truthy response_data
             then
               (let response = makeJsonResponse env (at_response clk) response_data 200
                in (Some response,
                    (case kv' of
                       None \<Rightarrow> None
                     | Some store \<Rightarrow>
                         if \<not> truthy (opt_prop response_data ''error'') \<and> str_truthy cache_key
                         then Some (kv_put (at_store clk) store (the cache_key)
                                      (json_norm response_data) (86400 * 2))
                         else Some store),
                    st'))
             else (None, kv', st')))"

section \<open>Shapes of results\<close>

text \<open>
  The three shapes of the data an adapter or a search function returns: an error record,
  a record of a successful resolution, and a list of search candidates.
\<close>

definition error_result :: "obj \<Rightarrow> bool" where
  "error_result r \<longleftrightarrow>
     truthy (js_get r ''error'') \<and> js_get r ''success'' = JUndefined
     \<and> js_get r ''format'' = JUndefined"

definition success_result :: "obj \<Rightarrow> bool" where
  "success_result r \<longleftrightarrow>
     js_get r ''error'' = JUndefined \<and> js_get r ''success'' = JBool True
     \<and> (\<exists>s. js_get r ''format'' = JStr s)"

definition data_result :: "obj \<Rightarrow> bool" where
  "data_result r \<longleftrightarrow>
     js_get r ''error'' = JUndefined \<and> js_get r ''success'' = JUndefined
     \<and> js_get r ''format'' = JUndefined"

definition distinct_keys :: "obj \<Rightarrow> bool" where
  "distinct_keys r \<longleftrightarrow> distinct (map fst r)"

text \<open>
  The invariant of a record returned to the caller: with \<open>success\<close> true there is no
  error, with \<open>success\<close> false the description is empty.
\<close>

definition record_inv :: "obj \<Rightarrow> bool" where
  "record_inv b \<longleftrightarrow>
     (js_get b ''success'' = JBool True \<longrightarrow>
        js_get b ''error'' = JNull \<or> js_get b ''error'' = JUndefined)
     \<and> (js_get b ''success'' = JBool False \<longrightarrow>
        js_get b ''format'' = JStr [] \<or> js_get b ''format'' = JUndefined)"

text \<open>The properties of the JSON document a body is sent as.\<close>

definition doc_fields :: "obj \<Rightarrow> obj" where
  "doc_fields b = (case sent_document b of JObj gs \<Rightarrow> gs | _ \<Rightarrow> [])"

text \<open>
  Response data are an object of one of the three shapes; the store holds objects of the
  two shapes without an error.
\<close>

definition data_ok :: "jsval \<Rightarrow> bool" where
  "data_ok v \<longleftrightarrow>
     (\<exists>fs. v = JObj fs \<and> distinct_keys fs
        \<and> (error_result fs \<or> success_result fs \<or> data_result fs))"

definition stored_ok :: "jsval \<Rightarrow> bool" where
  "stored_ok v \<longleftrightarrow>
     (\<exists>fs. v = JObj fs \<and> distinct_keys fs \<and> (success_result fs \<or> data_result fs))"

definition cache_ok :: "kv_store option \<Rightarrow> bool" where
  "cache_ok kv \<longleftrightarrow>
     (case kv of
        None \<Rightarrow> True
      | Some store \<Rightarrow> (\<forall>k item. store k = Some item \<longrightarrow> stored_ok (kv_value item)))"

text \<open>
  The server hands each request to \<open>handle\<close>; \<open>serve\<close> is a run of requests handled one
  after another, each with its clock readings, on the store and the network the previous
  one left.
\<close>

fun serve ::
  "'w platform \<Rightarrow> environment \<Rightarrow> (clock \<times> http_request) list \<Rightarrow> kv_store option \<Rightarrow> 'w net
     \<Rightarrow> http_response option list \<times> kv_store option \<times> 'w net" where
  "serve P env [] kv st = ([], kv, st)"
| "serve P env ((clk, rq) # rest) kv st =
     (case handle P env clk rq kv st of
        (resp, kv', st') \<Rightarrow>
          (case serve P env rest kv' st' of
             (resps, kv'', st'') \<Rightarrow> (resp # resps, kv'', st'')))"

section \<open>Concrete inputs\<close>

text \<open>
  A gate page with the token \<open>T1\<close> and the challenge string \<open>abc\<close>, an ordinary page, a
  network that refuses every request, and the state in which nothing has been sent.
\<close>

definition gate_page :: jstr where
  "gate_page =
     concat [asc ''<input id='', [34], asc ''tok'', [34], asc '' value='', [34], asc ''T1'', [34],
       asc ''><input id='', [34], asc ''cha'', [34], asc '' value='', [34], asc ''abc'', [34],
       asc ''><script>process(cha)</script>'']"

definition plain_page :: jstr where
  "plain_page = asc ''<html><title>Example</title></html>''"

definition fetch_refused :: "unit fetcher" where
  "fetch_refused w rq = (Inl FetchFailed, w)"

definition net0 :: "unit net" where
  "net0 = \<lparr>world = (), sent = []\<rparr>"

definition form_plain :: "(jstr \<times> jstr) list \<Rightarrow> jstr" where
  "form_plain kvs = js_join (asc ''&'') (map (\<lambda>(k, v). k @ asc ''='' @ v) kvs)"

text \<open>
  A comparison of strings by code units, which is how \<open>localeCompare\<close> orders strings of
  ASCII letters of one case.
\<close>

fun lex_cmp :: "jstr \<Rightarrow> jstr \<Rightarrow> int" where
  "lex_cmp [] [] = 0"
| "lex_cmp [] (y # ys) = - 1"
| "lex_cmp (x # xs) [] = 1"
| "lex_cmp (x # xs) (y # ys) = (if x < y then - 1 else if y < x then 1 else lex_cmp xs ys)"

text \<open>
  A Douban page with the title \<open>T\<close>, an empty structured-data object and nothing else: no
  year, no labels, no tags, no introduction.
\<close>

definition bare_douban_dom :: douban_dom where
  "bare_douban_dom =
     \<lparr>d_title = asc ''T'', d_ld_script = Some (asc ''{}''), d_imdb = NoMatch,
      d_itemreviewed = asc ''T'', d_aka = NoMatch, d_regions = NoMatch, d_language = NoMatch,
      d_episodes = NoMatch, d_duration = NoMatch, d_year = [], d_genre = [], d_release = [],
      d_runtime = [], d_intro = None, d_tags = []\<rparr>"

definition suggest_url :: jstr where
  "suggest_url = asc ''https://movie.douban.com/j/subject_suggest?q=''"

text \<open>
  An upstream that answers every request with status 200: an empty JSON array to the
  search of Douban, the ordinary page to everything else; and a platform around it whose
  JSON parser knows the two documents \<open>[]\<close> and \<open>{}\<close>.
\<close>

definition fetch_fixed :: "unit fetcher" where
  "fetch_fixed w rq =
     (Inr \<lparr>resp_status = 200, resp_url = req_url rq, resp_header = (\<lambda>h. None),
           resp_text = (if startsWith (req_url rq) suggest_url then asc ''[]'' else plain_page)\<rparr>,
      w)"

definition parse_fixed :: "jstr \<Rightarrow> js_error + jsval" where
  "parse_fixed s =
     (if s = asc ''[]'' then Inr (JArr []) else if s = asc ''{}'' then Inr (JObj [])
      else Inl SyntaxError)"

definition fixed_platform :: "unit platform" where
  "fixed_platform =
     \<lparr>p_sha512hex = digest_all_zero, p_fetch = fetch_fixed, p_json_parse = parse_fixed,
      p_localeCompare = lex_cmp, p_date_ms = (\<lambda>s. None), p_encodeURIComponent = Inr,
      p_toLowerCase = (\<lambda>s. s), p_runtime_message = (\<lambda>e. asc ''failed''),
      p_page_douban = (\<lambda>t. bare_douban_dom), p_page_imdb_ld = (\<lambda>t. Some (asc ''{}'')),
      p_page_bangumi = (\<lambda>t. \<lparr>b_cover_href = None, b_summary = [], b_infobox = [], b_votes = [],
                                b_average = [], b_tags = []\<rparr>),
      p_page_steam = (\<lambda>t. \<lparr>s_apphub_name = [], s_itemprop_name = [], s_header_src = None,
                              s_tags = []\<rparr>),
      p_page_indienova = (\<lambda>t. \<lparr>i_cover_src = None, i_title = []\<rparr>),
      p_support_match = (\<lambda>u. None)\<rparr>"

definition plain_env :: environment where
  "plain_env = \<lparr>env_APIKEY = None, env_DISABLE_SEARCH = None, env_AUTHOR = None,
                env_indexHtml = asc ''<html></html>''\<rparr>"

definition clock0 :: clock where
  "clock0 = \<lparr>at_lookup = 1000, at_response = 2000, at_store = 3000\<rparr>"

definition query_of :: "(string \<times> jsval) list \<Rightarrow> string \<Rightarrow> jsval" where
  "query_of ps k = js_get ps k"


definition info_request :: "jstr \<Rightarrow> jstr \<Rightarrow> http_request" where
  "info_request site sid =
     \<lparr>rq_url = asc ''/?site='' @ site @ asc ''&sid='' @ sid, rq_method = asc ''GET'',
      rq_pathname = asc ''/'', rq_search = asc ''?site='' @ site @ asc ''&sid='' @ sid,
      rq_query = query_of [(''site'', JStr site), (''sid'', JStr sid)]\<rparr>"

text \<open>The JSON body of a response, and the empty store.\<close>

definition json_body :: "http_response option \<Rightarrow> obj" where
  "json_body resp =
     (case resp of
        None \<Rightarrow> []
      | Some r \<Rightarrow> (case rs_body r of Json b \<Rightarrow> b | Html h \<Rightarrow> []))"

definition empty_store :: kv_store where
  "empty_store = (\<lambda>k. None)"

text \<open>
  A record as a previous resolution of Douban subject \<open>1\<close> left it in the store, live
  until the clock reads 5000, and a platform whose network refuses every request.
\<close>

definition cached_record :: obj where
  "cached_record =
     [(''site'', JStr (asc ''douban'')), (''sid'', JStr (asc ''1'')),
      (''success'', JBool True), (''format'', JStr (asc ''T''))]"

definition warm_store :: kv_store where
  "warm_store =
     empty_store(asc ''info-douban-1'' \<mapsto> \<lparr>kv_value = JObj cached_record, kv_expiry = 5000\<rparr>)"

definition offline_platform :: "unit platform" where
  "offline_platform = fixed_platform\<lparr>p_fetch := fetch_refused\<rparr>"

text \<open>The record \<open>gen_douban\<close> builds for subject \<open>1\<close> from that page.\<close>

definition bare_douban_record :: obj where
  "bare_douban_record =
     [(''site'', JStr (asc ''douban'')), (''sid'', JStr (asc ''1'')),
          (''success'', JBool True),
          (''format'',
           JStr (lbl_this_title @ asc ''T'' @ nl
                 @ lbl_year @ nl
                 @ lbl_douban_rating @ asc ''0/10 from 0 users'' @ nl
                 @ lbl_douban_link @ asc ''https://movie.douban.com/subject/1/'' @ nl
                 @ nl @ lbl_introduction @ nl @ nl @ [12288, 12288] @ no_introduction)),
          (''chinese_title'', JStr (asc ''T'')),
          (''foreign_title'', JStr []),
          (''aka'', JArr []),
          (''trans_title'', JArr [JStr []]),
          (''this_title'', JArr [JStr (asc ''T'')]),
          (''year'', JStr (asc '' '')),
          (''region'', JArr []),
          (''genre'', JArr []),
          (''language'', JArr []),
          (''playdate'', JArr []),
          (''episodes'', JStr []),
          (''duration'', JStr []),
          (''introduction'', JStr no_introduction),
          (''douban_rating_average'', JNum (asc ''0'')),
          (''douban_votes'', JNum (asc ''0'')),
          (''douban_rating'', JStr (asc ''0/10 from 0 users'')),
          (''poster'', JStr []),
          (''director'', JArr []),
          (''writer'', JArr []),
          (''cast'', JArr []),
          (''tags'', JArr []),
          (''imdb_id'', JUndefined),
          (''imdb_link'', JUndefined)]"

text \<open>
  An upstream that accepts a submitted solution: it answers a \<open>POST\<close> with a session
  cookie and no location, and every other request with the ordinary page.
\<close>

definition session_cookie :: jstr where
  "session_cookie = asc ''sid=1''"

definition fetch_gate :: "unit fetcher" where
  "fetch_gate w rq =
     (if req_method rq = asc ''POST''
      then (Inr \<lparr>resp_status = 302, resp_url = req_url rq,
                 resp_header = (\<lambda>h. if h = ''set-cookie'' then Some session_cookie else None),
                 resp_text = []\<rparr>, w)
      else (Inr \<lparr>resp_status = 200, resp_url = req_url rq, resp_header = (\<lambda>h. None),
                 resp_text = plain_page\<rparr>, w))"

section \<open>Facts about the solver\<close>

lemma solve_loop_hit:
  "pow_ok H cha d k \<Longrightarrow> solve_loop H cha d msg k = Inr k"
  by (subst solve_loop.simps) simp

lemma solve_loop_step:
  "\<not> pow_ok H cha d k \<Longrightarrow> k < 500000 \<Longrightarrow>
   solve_loop H cha d msg k = solve_loop H cha d msg (Suc k)"
  by (subst solve_loop.simps) simp

lemma solve_loop_stop:
  "\<not> pow_ok H cha d k \<Longrightarrow> 500000 \<le> k \<Longrightarrow> solve_loop H cha d msg k = Inl (Error msg)"
  by (subst solve_loop.simps) simp

lemma solve_loop_finds:
  assumes "pow_ok H cha d n" and "k \<le> n" and "n \<le> 500000"
    and "\<forall>m. k \<le> m \<and> m < n \<longrightarrow> \<not> pow_ok H cha d m"
  shows "solve_loop H cha d msg k = Inr n"
  using assms
proof (induction "n - k" arbitrary: k)
  case 0
  then have "k = n" by simp
  with 0 show ?case by (simp add: solve_loop_hit)
next
  case (Suc j)
  then have lt: "k < n" by simp
  with Suc.prems have nok: "\<not> pow_ok H cha d k" by simp
  have "solve_loop H cha d msg (Suc k) = Inr n"
    using Suc.hyps Suc.prems lt by (intro Suc.hyps(1)) auto
  with nok lt Suc.prems show ?case by (simp add: solve_loop_step)
qed

lemma solve_loop_exhausts:
  assumes "\<forall>m. k \<le> m \<and> m \<le> 500000 \<longrightarrow> \<not> pow_ok H cha d m" and "k \<le> 500000"
  shows "solve_loop H cha d msg k = Inl (Error msg)"
  using assms
proof (induction "500000 - k" arbitrary: k)
  case 0
  then have "k = 500000" by simp
  with 0 show ?case by (simp add: solve_loop_stop)
next
  case (Suc j)
  then have lt: "k < 500000" by simp
  from Suc.prems have nok: "\<not> pow_ok H cha d k" by simp
  have "solve_loop H cha d msg (Suc k) = Inl (Error msg)"
    using Suc.hyps Suc.prems lt by (intro Suc.hyps(1)) auto
  with nok lt show ?case by (simp add: solve_loop_step)
qed

lemma solve_loop_cases:
  "(\<exists>n \<le> 500000. pow_ok H cha d n \<and> (\<forall>m < n. \<not> pow_ok H cha d m)
       \<and> solve_loop H cha d msg 0 = Inr n)
   \<or> ((\<forall>m \<le> 500000. \<not> pow_ok H cha d m) \<and> solve_loop H cha d msg 0 = Inl (Error msg))"
proof (cases "\<exists>m \<le> 500000. pow_ok H cha d m")
  case True
  then obtain m where m: "m \<le> 500000" "pow_ok H cha d m" by blast
  define n where "n = (LEAST i. pow_ok H cha d i)"
  have ok: "pow_ok H cha d n" unfolding n_def using m(2) by (rule LeastI)
  have le: "n \<le> m" unfolding n_def using m(2) by (rule Least_le)
  have least: "\<forall>i < n. \<not> pow_ok H cha d i"
    unfolding n_def using not_less_Least by blast
  have "solve_loop H cha d msg 0 = Inr n"
    using ok le m(1) least by (intro solve_loop_finds) auto
  with ok le m(1) least show ?thesis by auto
next
  case False
  then have none: "\<forall>m \<le> 500000. \<not> pow_ok H cha d m" by blast
  then have "solve_loop H cha d msg 0 = Inl (Error msg)"
    by (intro solve_loop_exhausts) auto
  with none show ?thesis by blast
qed

lemma undec_snoc: "undec (s @ [c]) = 10 * undec s + (c - 48)"
  by (simp add: undec_def)

lemma undec_dec: "undec (dec n) = n"
proof (induction n rule: dec.induct)
  case (1 n)
  show ?case
  proof (cases "n < 10")
    case True
    then show ?thesis by (subst dec.simps) (simp add: undec_def)
  next
    case False
    with 1 have "undec (dec (n div 10)) = n div 10" by simp
    with False show ?thesis by (subst dec.simps) (simp add: undec_snoc)
  qed
qed

lemma pow_ok_all_zero: "pow_ok digest_all_zero cha 4 n"
  by (simp add: pow_ok_def digest_all_zero_def)

lemma pow_ok_no_zero: "\<not> pow_ok digest_no_zero cha 4 n"
  by (simp add: pow_ok_def digest_no_zero_def)

lemma pow_ok_zero_at: "pow_ok (digest_zero_at (length cha) n) cha 4 m \<longleftrightarrow> m = n"
  by (simp add: pow_ok_def digest_zero_at_def undec_dec)

section \<open>Claims about the proof-of-work solver\<close>

text \<open>
  C1 (as stated): for every challenge string the solver returns the least nonce whose
  digest starts with four \<open>'0'\<close>. The statement fails where no nonce up to the ceiling
  qualifies: with a digest that never starts with \<open>'0'\<close> the search throws instead of
  returning a nonce.
\<close>

theorem C1_counterexample:
  "\<not> (\<exists>n. solveChallenge digest_no_zero (asc ''abc'') 4 = Inr n)
   \<and> solveChallenge digest_no_zero (asc ''abc'') 4 = Inl (Error (asc ''Challenge timeout''))"
proof -
  have "solveChallenge digest_no_zero (asc ''abc'') 4 = Inl (Error (asc ''Challenge timeout''))"
    using solve_loop_cases [of digest_no_zero "asc ''abc''" 4 "asc ''Challenge timeout''"]
    by (auto simp: solveChallenge_def pow_ok_no_zero)
  then show ?thesis by simp
qed

text \<open>
  C1 (amended): both copies of the solver return the nonce \<open>n\<close> exactly when \<open>n\<close> is at
  most 500000, the digest of \<open>cha + n\<close> starts with four \<open>'0'\<close>, and no smaller nonce has
  that property; so whenever some nonce from 0 to 500000 qualifies the least one is
  returned, and the result depends on the challenge string (and the digest function) only.
\<close>

theorem C1_least_nonce:
  "(solveChallenge H cha 4 = Inr n \<longleftrightarrow>
      n \<le> 500000 \<and> pow_ok H cha 4 n \<and> (\<forall>m < n. \<not> pow_ok H cha 4 m))
   \<and> (solveChallenge_lib H cha 4 = Inr n \<longleftrightarrow>
      n \<le> 500000 \<and> pow_ok H cha 4 n \<and> (\<forall>m < n. \<not> pow_ok H cha 4 m))"
proof -
  have main: "solve_loop H cha 4 msg 0 = Inr n \<longleftrightarrow>
      n \<le> 500000 \<and> pow_ok H cha 4 n \<and> (\<forall>m < n. \<not> pow_ok H cha 4 m)" for msg
  proof
    assume r: "solve_loop H cha 4 msg 0 = Inr n"
    with solve_loop_cases [of H cha 4 msg]
    show "n \<le> 500000 \<and> pow_ok H cha 4 n \<and> (\<forall>m < n. \<not> pow_ok H cha 4 m)"
      by auto
  next
    assume "n \<le> 500000 \<and> pow_ok H cha 4 n \<and> (\<forall>m < n. \<not> pow_ok H cha 4 m)"
    then show "solve_loop H cha 4 msg 0 = Inr n"
      by (intro solve_loop_finds) auto
  qed
  show ?thesis
    unfolding solveChallenge_def solveChallenge_lib_def using main by blast
qed

theorem C1_least_nonce_witness:
  "solveChallenge (digest_zero_at 3 7) (asc ''abc'') 4 = Inr 7
   \<and> solveChallenge_lib (digest_zero_at 3 7) (asc ''abc'') 4 = Inr 7"
proof -
  have len: "length (asc ''abc'') = 3" by (simp add: asc_def)
  have ok: "pow_ok (digest_zero_at 3 7) (asc ''abc'') 4 m \<longleftrightarrow> m = 7" for m
    using pow_ok_zero_at [of "asc ''abc''" 7 m] by (simp add: len)
  show ?thesis
    using C1_least_nonce [of "digest_zero_at 3 7" "asc ''abc''" 7] by (simp add: ok)
qed

text \<open>
  C2 (as stated): a challenge with no solution among the first 500,000 nonces tried
  (0 to 499999) makes the solver fail. The loop tests \<open>nonce > 500000\<close> after the
  increment, so nonce 500000 is tried as well: a challenge whose only solution is 500000
  is solved, not refused.
\<close>

theorem C2_counterexample:
  "\<not> (\<exists>m. m < 500000 \<and> pow_ok (digest_zero_at 3 500000) (asc ''abc'') 4 m)
   \<and> solveChallenge (digest_zero_at 3 500000) (asc ''abc'') 4 = Inr 500000"
proof -
  have len: "length (asc ''abc'') = 3" by (simp add: asc_def)
  have ok: "pow_ok (digest_zero_at 3 500000) (asc ''abc'') 4 m \<longleftrightarrow> m = 500000" for m
    using pow_ok_zero_at [of "asc ''abc''" 500000 m] by (simp add: len)
  have "solveChallenge (digest_zero_at 3 500000) (asc ''abc'') 4 = Inr 500000"
    unfolding solveChallenge_def by (intro solve_loop_finds) (simp_all add: ok)
  then show ?thesis by (simp add: ok)
qed

text \<open>
  C2 (amended): the search is bounded at 500,001 attempts, the nonces 0 to 500000. Both
  copies of the solver fail with their timeout error exactly when none of these nonces
  qualifies, and on every input the solver either fails so or returns a nonce of at most
  500000: it is total.
\<close>

theorem C2_bounded_search:
  "(solveChallenge H cha d = Inl (Error (asc ''Challenge timeout'')) \<longleftrightarrow>
      (\<forall>m \<le> 500000. \<not> pow_ok H cha d m))
   \<and> (solveChallenge_lib H cha d =
        Inl (Error (asc ''Challenge solution timeout - too many iterations'')) \<longleftrightarrow>
      (\<forall>m \<le> 500000. \<not> pow_ok H cha d m))
   \<and> (solveChallenge H cha d = Inl (Error (asc ''Challenge timeout''))
      \<or> (\<exists>n \<le> 500000. solveChallenge H cha d = Inr n))
   \<and> (solveChallenge_lib H cha d =
        Inl (Error (asc ''Challenge solution timeout - too many iterations''))
      \<or> (\<exists>n \<le> 500000. solveChallenge_lib H cha d = Inr n))"
proof -
  have iff: "solve_loop H cha d msg 0 = Inl (Error msg) \<longleftrightarrow>
      (\<forall>m \<le> 500000. \<not> pow_ok H cha d m)" for msg
    using solve_loop_cases [of H cha d msg] by auto
  have tot: "solve_loop H cha d msg 0 = Inl (Error msg)
      \<or> (\<exists>n \<le> 500000. solve_loop H cha d msg 0 = Inr n)" for msg
    using solve_loop_cases [of H cha d msg] by auto
  show ?thesis
    unfolding solveChallenge_def solveChallenge_lib_def using iff tot by blast
qed

theorem C2_bounded_search_witness:
  "\<not> (\<exists>m. m \<le> 500000 \<and> pow_ok digest_no_zero (asc ''abc'') 4 m)
   \<and> solveChallenge digest_no_zero (asc ''abc'') 4 = Inl (Error (asc ''Challenge timeout''))
   \<and> solveChallenge_lib digest_no_zero (asc ''abc'') 4 =
        Inl (Error (asc ''Challenge solution timeout - too many iterations''))"
  using C2_bounded_search [of digest_no_zero "asc ''abc''" 4]
  by (simp add: pow_ok_no_zero)

section \<open>Facts about the challenge solver\<close>

lemma gate_page_markers:
  "js_includes gate_page marker_process" "js_includes gate_page marker_id_cha"
  by code_simp+

lemma gate_page_tok: "js_match_attr (asc ''tok'') gate_page = Some (asc ''T1'')"
  by code_simp

lemma gate_page_cha: "js_match_attr (asc ''cha'') gate_page = Some (asc ''abc'')"
  by code_simp

lemma plain_page_markers: "\<not> js_includes plain_page marker_process"
  by code_simp

lemma polyfill_appends_throws: "polyfill_appends p (kv # kvs) = Inl TypeError"
  by (cases kv) (simp add: polyfill_append_def)

lemma not_gate_server:
  "\<not> (js_includes body marker_process \<and> js_includes body marker_id_cha) \<Longrightarrow>
   solveDoubanChallenge H fetch u body st =
     (Inr \<lparr>ch_solved = False, ch_text = body, ch_error = None, ch_cookies = None\<rparr>, st)"
  by (auto simp: solveDoubanChallenge_def)

lemma not_gate_lib:
  "\<not> (js_includes body marker_process \<and> js_includes body marker_id_cha) \<Longrightarrow>
   solveDoubanChallenge_lib H enc fetch u body st =
     (Inr \<lparr>ch_solved = False, ch_text = body, ch_error = None, ch_cookies = None\<rparr>, st)"
  by (auto simp: solveDoubanChallenge_lib_def)

lemma gate_server:
  assumes "js_includes body marker_process" "js_includes body marker_id_cha"
  shows "fst (solveDoubanChallenge H fetch u body st) \<noteq>
     Inr \<lparr>ch_solved = False, ch_text = body, ch_error = None, ch_cookies = None\<rparr>"
  using assms
  by (auto simp: solveDoubanChallenge_def Let_def polyfill_appends_throws
           split: option.splits sum.splits prod.splits)

lemma gate_lib:
  assumes "js_includes body marker_process" "js_includes body marker_id_cha"
  shows "fst (solveDoubanChallenge_lib H enc fetch u body st) \<noteq>
     Inr \<lparr>ch_solved = False, ch_text = body, ch_error = None, ch_cookies = None\<rparr>"
  using assms
  by (auto simp: solveDoubanChallenge_lib_def Let_def
           split: option.splits sum.splits prod.splits)

lemma params_missing_server:
  assumes "js_includes body marker_process" "js_includes body marker_id_cha"
    and "js_match_attr (asc ''tok'') body = None \<or> js_match_attr (asc ''cha'') body = None"
  shows "solveDoubanChallenge H fetch u body st =
     (Inr \<lparr>ch_solved = False, ch_text = body,
           ch_error = Some (asc ''Could not extract challenge parameters''),
           ch_cookies = None\<rparr>, st)"
  using assms by (auto simp: solveDoubanChallenge_def Let_def split: option.splits)

lemma params_missing_lib:
  assumes "js_includes body marker_process" "js_includes body marker_id_cha"
    and "js_match_attr (asc ''tok'') body = None \<or> js_match_attr (asc ''cha'') body = None"
  shows "solveDoubanChallenge_lib H enc fetch u body st =
     (Inr \<lparr>ch_solved = False, ch_text = body,
           ch_error = Some (asc ''Could not extract challenge parameters''),
           ch_cookies = None\<rparr>, st)"
  using assms by (auto simp: solveDoubanChallenge_lib_def Let_def split: option.splits)

lemma exhausted_server:
  assumes "js_includes body marker_process" "js_includes body marker_id_cha"
    and "js_match_attr (asc ''tok'') body = Some tok" "js_match_attr (asc ''cha'') body = Some cha"
    and "\<forall>m \<le> 500000. \<not> pow_ok H cha 4 m"
  shows "solveDoubanChallenge H fetch u body st = (Inl (Error (asc ''Challenge timeout'')), st)"
proof -
  have "solveChallenge H cha 4 = Inl (Error (asc ''Challenge timeout''))"
    using solve_loop_cases [of H cha 4 "asc ''Challenge timeout''"] assms(5)
    by (auto simp: solveChallenge_def)
  with assms(1-4) show ?thesis
    by (simp add: solveDoubanChallenge_def Let_def)
qed

lemma exhausted_lib:
  assumes "js_includes body marker_process" "js_includes body marker_id_cha"
    and "js_match_attr (asc ''tok'') body = Some tok" "js_match_attr (asc ''cha'') body = Some cha"
    and "\<forall>m \<le> 500000. \<not> pow_ok H cha 4 m"
  shows "solveDoubanChallenge_lib H enc fetch u body st =
     (Inl (Error (asc ''Challenge solution timeout - too many iterations'')), st)"
proof -
  have "solveChallenge_lib H cha 4 =
      Inl (Error (asc ''Challenge solution timeout - too many iterations''))"
    using solve_loop_cases [of H cha 4 "asc ''Challenge solution timeout - too many iterations''"]
      assms(5)
    by (auto simp: solveChallenge_lib_def)
  with assms(1-4) show ?thesis
    by (simp add: solveDoubanChallenge_lib_def Let_def)
qed

text \<open>
  On a gate page whose parameters are found and whose challenge is solved, the copy of
  the server file throws the \<open>TypeError\<close> of the missing \<open>append\<close> and sends nothing.
\<close>

lemma solved_server_throws:
  assumes "js_includes body marker_process" "js_includes body marker_id_cha"
    and "js_match_attr (asc ''tok'') body = Some tok" "js_match_attr (asc ''cha'') body = Some cha"
    and "solveChallenge H cha 4 = Inr sol"
  shows "solveDoubanChallenge H fetch u body st = (Inl TypeError, st)"
  using assms
  by (simp add: solveDoubanChallenge_def Let_def polyfill_appends_throws)

text \<open>
  Every request goes to the list of those sent, and the copy of the server file leaves the
  network as it found it: it returns or throws before it reaches a \<open>fetch\<close>.
\<close>

lemma js_fetch_sent:
  "js_fetch fetch rq st = (r, st1) \<Longrightarrow> sent st1 = sent st @ [rq]"
  by (auto simp: js_fetch_def split: prod.splits)


text \<open>
  On such a page the copy of the library goes on: it submits the solution, and with a
  cookie in the answer it fetches the page behind the gate.
\<close>

lemma solve_loop_least:
  assumes "n \<le> 500000" and "pow_ok H cha d n"
  shows "\<exists>sol \<le> n. pow_ok H cha d sol \<and> solve_loop H cha d msg 0 = Inr sol"
proof -
  from solve_loop_cases [of H cha d msg] assms obtain k where
    k: "pow_ok H cha d k" "\<forall>m < k. \<not> pow_ok H cha d m" "solve_loop H cha d msg 0 = Inr k"
    by auto
  from k(2) assms(2) have "k \<le> n" by (meson not_less)
  with k show ?thesis by auto
qed

lemma gate_page_red: "js_match_attr (asc ''red'') gate_page = None"
  by code_simp

lemma solved_lib_submits:
  assumes "js_includes body marker_process" "js_includes body marker_id_cha"
    and "js_match_attr (asc ''tok'') body = Some tok" "js_match_attr (asc ''cha'') body = Some cha"
    and "solveChallenge_lib H cha 4 = Inr sol"
    and "red = (case js_match_attr (asc ''red'') body of Some r \<Rightarrow> r
                | None \<Rightarrow> asc ''https://movie.douban.com/'')"
    and "post = submit_request u (enc [(asc ''tok'', tok), (asc ''cha'', cha),
                   (asc ''sol'', dec sol), (asc ''red'', red)])"
  shows "\<exists>more. sent (snd (solveDoubanChallenge_lib H enc fetch u body st)) = sent st @ post # more"
proof -
  obtain r st1 where f: "js_fetch fetch post st = (r, st1)" by (cases "js_fetch fetch post st")
  then have s1: "sent st1 = sent st @ [post]" by (rule js_fetch_sent)
  show ?thesis
  proof (cases r)
    case (Inl e)
    with assms f have "snd (solveDoubanChallenge_lib H enc fetch u body st) = st1"
      by (simp add: solveDoubanChallenge_lib_def Let_def)
    with s1 show ?thesis by simp
  next
    case (Inr sresp)
    show ?thesis
    proof (cases "str_truthy (resp_header sresp ''set-cookie'')")
      case False
      with Inr assms f have "snd (solveDoubanChallenge_lib H enc fetch u body st) = st1"
        by (simp add: solveDoubanChallenge_lib_def Let_def)
      with s1 show ?thesis by simp
    next
      case True
      define fin where "fin = final_request (if str_truthy (resp_header sresp ''location'')
                                 then the (resp_header sresp ''location'') else red)
                                (the (resp_header sresp ''set-cookie''))"
      obtain r2 st2 where g: "js_fetch fetch fin st1 = (r2, st2)"
        by (cases "js_fetch fetch fin st1")
      then have s2: "sent st2 = sent st1 @ [fin]" by (rule js_fetch_sent)
      from True Inr assms f g have "snd (solveDoubanChallenge_lib H enc fetch u body st) = st2"
        by (cases r2; cases "str_truthy (resp_header sresp ''location'')")
           (simp_all add: solveDoubanChallenge_lib_def Let_def fin_def)
      with s1 s2 show ?thesis by simp
    qed
  qed
qed

lemma solved_lib_returns:
  assumes "js_includes body marker_process" "js_includes body marker_id_cha"
    and "js_match_attr (asc ''tok'') body = Some tok" "js_match_attr (asc ''cha'') body = Some cha"
    and "solveChallenge_lib H cha 4 = Inr sol"
    and "red = (case js_match_attr (asc ''red'') body of Some r \<Rightarrow> r
                | None \<Rightarrow> asc ''https://movie.douban.com/'')"
    and "post = submit_request u (enc [(asc ''tok'', tok), (asc ''cha'', cha),
                   (asc ''sol'', dec sol), (asc ''red'', red)])"
    and "fetch (world st) post = (Inr sresp, w1)"
    and "resp_header sresp ''set-cookie'' = Some ck" and "ck \<noteq> []"
    and "final = final_request (if str_truthy (resp_header sresp ''location'')
                                  then the (resp_header sresp ''location'') else red) ck"
    and "fetch w1 final = (Inr fresp, w2)"
  shows "solveDoubanChallenge_lib H enc fetch u body st =
     (Inr \<lparr>ch_solved = True, ch_text = resp_text fresp, ch_error = None, ch_cookies = Some ck\<rparr>,
      \<lparr>world = w2, sent = sent st @ [post, final]\<rparr>)"
proof -
  have p: "js_fetch fetch post st = (Inr sresp, \<lparr>world = w1, sent = sent st @ [post]\<rparr>)"
    using assms(8) by (simp add: js_fetch_def)
  have f: "js_fetch fetch final \<lparr>world = w1, sent = sent st @ [post]\<rparr>
             = (Inr fresp, \<lparr>world = w2, sent = sent st @ [post, final]\<rparr>)"
    using assms(12) by (simp add: js_fetch_def)
  have c: "str_truthy (resp_header sresp ''set-cookie'')"
    using assms(9,10) by (simp add: str_truthy_def)
  show ?thesis
  proof (cases "str_truthy (resp_header sresp ''location'')")
    case True
    with assms(1-7,9,11) p f c show ?thesis
      by (simp add: solveDoubanChallenge_lib_def Let_def)
  next
    case False
    with assms(1-7,9,11) p f c show ?thesis
      by (simp add: solveDoubanChallenge_lib_def Let_def)
  qed
qed

section \<open>Claims about the challenge solver\<close>

text \<open>
  C8: a page body is treated as a gate exactly when it contains both \<open>process(cha)\<close> and
  \<open>id="cha"\<close>. When either is missing, both copies of the solver return
  \<open>{solved: false, text: responseText}\<close> with the original body and leave the network
  untouched (no request is added to those sent); when both are present the outcome is
  never that plain result.
\<close>

theorem C8_gate_detection:
  "(\<not> (js_includes body marker_process \<and> js_includes body marker_id_cha) \<longrightarrow>
      solveDoubanChallenge H fetch u body st =
        (Inr \<lparr>ch_solved = False, ch_text = body, ch_error = None, ch_cookies = None\<rparr>, st)
      \<and> solveDoubanChallenge_lib H enc fetch u body st =
        (Inr \<lparr>ch_solved = False, ch_text = body, ch_error = None, ch_cookies = None\<rparr>, st))
   \<and> (js_includes body marker_process \<and> js_includes body marker_id_cha \<longrightarrow>
      fst (solveDoubanChallenge H fetch u body st) \<noteq>
        Inr \<lparr>ch_solved = False, ch_text = body, ch_error = None, ch_cookies = None\<rparr>
      \<and> fst (solveDoubanChallenge_lib H enc fetch u body st) \<noteq>
        Inr \<lparr>ch_solved = False, ch_text = body, ch_error = None, ch_cookies = None\<rparr>)"
  using not_gate_server [of body H fetch u st] not_gate_lib [of body H enc fetch u st]
    gate_server [of body H fetch u st] gate_lib [of body H enc fetch u st]
  by blast

theorem C8_gate_detection_witness:
  "\<not> (js_includes plain_page marker_process \<and> js_includes plain_page marker_id_cha)
   \<and> solveDoubanChallenge digest_all_zero fetch_refused (asc ''https://movie.douban.com/'')
        plain_page net0 =
      (Inr \<lparr>ch_solved = False, ch_text = plain_page, ch_error = None, ch_cookies = None\<rparr>, net0)
   \<and> sent net0 = []
   \<and> js_includes gate_page marker_process \<and> js_includes gate_page marker_id_cha
   \<and> fst (solveDoubanChallenge digest_all_zero fetch_refused (asc ''https://movie.douban.com/'')
        gate_page net0) \<noteq>
      Inr \<lparr>ch_solved = False, ch_text = gate_page, ch_error = None, ch_cookies = None\<rparr>"
  using C8_gate_detection [of plain_page digest_all_zero fetch_refused
      "asc ''https://movie.douban.com/''" net0 form_plain]
    C8_gate_detection [of gate_page digest_all_zero fetch_refused
      "asc ''https://movie.douban.com/''" net0 form_plain]
  by (simp add: plain_page_markers gate_page_markers net0_def)

text \<open>
  C9: the two copies of the challenge solver are not equivalent. The server file replaces
  the global \<open>URLSearchParams\<close> by a class of its own that has no \<open>append\<close>. On a gate page
  whose token and challenge string are found and whose challenge has a solution among the
  nonces from 0 to 500000, the copy of the server file therefore throws a \<open>TypeError\<close> at
  \<open>formData.append\<close> and sends nothing, whereas the copy of the library submits the
  solution to \<open>https://sec.douban.com/c\<close>; and when the upstream answers the submission
  with a cookie and the following request with a page, the copy of the library returns
  \<open>{solved: true, text, cookies}\<close> with the text of that page.
\<close>

theorem C9_server_copy_throws:
  assumes "js_includes body marker_process" and "js_includes body marker_id_cha"
    and "js_match_attr (asc ''tok'') body = Some tok"
    and "js_match_attr (asc ''cha'') body = Some cha"
    and "n \<le> 500000" and "pow_ok H cha 4 n"
    and "red = (case js_match_attr (asc ''red'') body of Some r \<Rightarrow> r
                | None \<Rightarrow> asc ''https://movie.douban.com/'')"
  shows "solveDoubanChallenge H fetch u body st = (Inl TypeError, st)
     \<and> solveDoubanChallenge_lib H enc fetch u body st \<noteq> solveDoubanChallenge H fetch u body st
     \<and> (\<exists>sol post. sol \<le> n \<and> pow_ok H cha 4 sol
          \<and> post = submit_request u (enc [(asc ''tok'', tok), (asc ''cha'', cha),
                      (asc ''sol'', dec sol), (asc ''red'', red)])
          \<and> (\<exists>more. sent (snd (solveDoubanChallenge_lib H enc fetch u body st))
                       = sent st @ post # more)
          \<and> (\<forall>sresp w1 ck final fresp w2.
                fetch (world st) post = (Inr sresp, w1)
                \<and> resp_header sresp ''set-cookie'' = Some ck \<and> ck \<noteq> []
                \<and> final = final_request (if str_truthy (resp_header sresp ''location'')
                              then the (resp_header sresp ''location'') else red) ck
                \<and> fetch w1 final = (Inr fresp, w2)
                \<longrightarrow> solveDoubanChallenge_lib H enc fetch u body st =
                      (Inr \<lparr>ch_solved = True, ch_text = resp_text fresp, ch_error = None,
                            ch_cookies = Some ck\<rparr>,
                       \<lparr>world = w2, sent = sent st @ [post, final]\<rparr>)))"
proof -
  from solve_loop_least [OF assms(5,6)] obtain s1 where
    s1: "solveChallenge H cha 4 = Inr s1"
    by (auto simp: solveChallenge_def)
  from solve_loop_least [OF assms(5,6)] obtain sol where
    sol: "sol \<le> n" "pow_ok H cha 4 sol" "solveChallenge_lib H cha 4 = Inr sol"
    by (auto simp: solveChallenge_lib_def)
  define post where "post = submit_request u (enc [(asc ''tok'', tok), (asc ''cha'', cha),
                      (asc ''sol'', dec sol), (asc ''red'', red)])"
  have srv: "solveDoubanChallenge H fetch u body st = (Inl TypeError, st)"
    using assms(1-4) s1 by (rule solved_server_throws)
  from solved_lib_submits [where enc = enc and fetch = fetch and st = st, OF assms(1-4) sol(3) assms(7) post_def]
  obtain more where more:
    "sent (snd (solveDoubanChallenge_lib H enc fetch u body st)) = sent st @ post # more"
    by (elim exE)
  have "snd (solveDoubanChallenge_lib H enc fetch u body st) \<noteq> st"
  proof
    assume "snd (solveDoubanChallenge_lib H enc fetch u body st) = st"
    with more have "sent st = sent st @ post # more" by simp
    then show False by simp
  qed
  then have ne: "solveDoubanChallenge_lib H enc fetch u body st
      \<noteq> solveDoubanChallenge H fetch u body st"
    unfolding srv by (metis snd_conv)
  have ret: "\<forall>sresp w1 ck final fresp w2.
                fetch (world st) post = (Inr sresp, w1)
                \<and> resp_header sresp ''set-cookie'' = Some ck \<and> ck \<noteq> []
                \<and> final = final_request (if str_truthy (resp_header sresp ''location'')
                              then the (resp_header sresp ''location'') else red) ck
                \<and> fetch w1 final = (Inr fresp, w2)
                \<longrightarrow> solveDoubanChallenge_lib H enc fetch u body st =
                      (Inr \<lparr>ch_solved = True, ch_text = resp_text fresp, ch_error = None,
                            ch_cookies = Some ck\<rparr>,
                       \<lparr>world = w2, sent = sent st @ [post, final]\<rparr>)"
  proof (intro allI impI, elim conjE)
    fix sresp w1 ck final fresp w2
    assume "fetch (world st) post = (Inr sresp, w1)"
      and "resp_header sresp ''set-cookie'' = Some ck" and "ck \<noteq> []"
      and "final = final_request (if str_truthy (resp_header sresp ''location'')
                              then the (resp_header sresp ''location'') else red) ck"
      and "fetch w1 final = (Inr fresp, w2)"
    then show "solveDoubanChallenge_lib H enc fetch u body st =
                      (Inr \<lparr>ch_solved = True, ch_text = resp_text fresp, ch_error = None,
                            ch_cookies = Some ck\<rparr>,
                       \<lparr>world = w2, sent = sent st @ [post, final]\<rparr>)"
      by (rule solved_lib_returns [where enc = enc and fetch = fetch and st = st, OF assms(1-4) sol(3) assms(7) post_def])
  qed
  show ?thesis
  proof (intro conjI)
    show "solveDoubanChallenge H fetch u body st = (Inl TypeError, st)" by (rule srv)
    show "solveDoubanChallenge_lib H enc fetch u body st
      \<noteq> solveDoubanChallenge H fetch u body st" by (rule ne)
    from sol(1,2) more ret show "\<exists>sol post. sol \<le> n \<and> pow_ok H cha 4 sol
          \<and> post = submit_request u (enc [(asc ''tok'', tok), (asc ''cha'', cha),
                      (asc ''sol'', dec sol), (asc ''red'', red)])
          \<and> (\<exists>more. sent (snd (solveDoubanChallenge_lib H enc fetch u body st))
                       = sent st @ post # more)
          \<and> (\<forall>sresp w1 ck final fresp w2.
                fetch (world st) post = (Inr sresp, w1)
                \<and> resp_header sresp ''set-cookie'' = Some ck \<and> ck \<noteq> []
                \<and> final = final_request (if str_truthy (resp_header sresp ''location'')
                              then the (resp_header sresp ''location'') else red) ck
                \<and> fetch w1 final = (Inr fresp, w2)
                \<longrightarrow> solveDoubanChallenge_lib H enc fetch u body st =
                      (Inr \<lparr>ch_solved = True, ch_text = resp_text fresp, ch_error = None,
                            ch_cookies = Some ck\<rparr>,
                       \<lparr>world = w2, sent = sent st @ [post, final]\<rparr>))"
      using post_def
      by (intro exI [of _ sol] exI [of _ post] exI [of _ more] conjI) assumption+
  qed
qed

theorem C9_server_copy_throws_witness:
  "js_includes gate_page marker_process \<and> js_includes gate_page marker_id_cha
   \<and> js_match_attr (asc ''tok'') gate_page = Some (asc ''T1'')
   \<and> js_match_attr (asc ''cha'') gate_page = Some (asc ''abc'')
   \<and> (65660 :: nat) \<le> 500000
   \<and> pow_ok (digest_zero_at 3 65660) (asc ''abc'') 4 65660
   \<and> solveDoubanChallenge (digest_zero_at 3 65660) fetch_gate
         (asc ''https://movie.douban.com/subject/1/'') gate_page net0
       = (Inl TypeError, net0)
   \<and> solveDoubanChallenge_lib (digest_zero_at 3 65660) form_plain fetch_gate
         (asc ''https://movie.douban.com/subject/1/'') gate_page net0
       = (Inr \<lparr>ch_solved = True, ch_text = plain_page, ch_error = None,
               ch_cookies = Some session_cookie\<rparr>,
          \<lparr>world = (),
           sent = [submit_request (asc ''https://movie.douban.com/subject/1/'')
                     (form_plain [(asc ''tok'', asc ''T1''), (asc ''cha'', asc ''abc''),
                                  (asc ''sol'', dec 65660),
                                  (asc ''red'', asc ''https://movie.douban.com/'')]),
                   final_request (asc ''https://movie.douban.com/'') session_cookie]\<rparr>)"
proof -
  let ?H = "digest_zero_at 3 65660"
  let ?u = "asc ''https://movie.douban.com/subject/1/''"
  let ?red = "asc ''https://movie.douban.com/''"
  have len: "length (asc ''abc'') = 3" by (simp add: asc_def)
  have pw: "\<And>m. pow_ok ?H (asc ''abc'') 4 m \<longleftrightarrow> m = 65660"
    using pow_ok_zero_at [of "asc ''abc''" 65660] by (simp only: len)
  have ok: "pow_ok ?H (asc ''abc'') 4 65660" by (simp only: pw)
  have le: "(65660 :: nat) \<le> 500000" by simp
  have red: "?red = (case js_match_attr (asc ''red'') gate_page of Some r \<Rightarrow> r
                | None \<Rightarrow> asc ''https://movie.douban.com/'')"
    by (simp only: gate_page_red option.case)
  note t = C9_server_copy_throws [where enc = form_plain and fetch = fetch_gate and u = ?u
      and st = net0, OF gate_page_markers gate_page_tok gate_page_cha le ok red]
  from t have srv: "solveDoubanChallenge ?H fetch_gate ?u gate_page net0 = (Inl TypeError, net0)"
    by (rule conjunct1)
  from t obtain sol post where sol: "pow_ok ?H (asc ''abc'') 4 sol"
    and post: "post = submit_request ?u (form_plain [(asc ''tok'', asc ''T1''),
                 (asc ''cha'', asc ''abc''), (asc ''sol'', dec sol), (asc ''red'', ?red)])"
    and ret: "\<forall>sresp w1 ck final fresp w2.
                fetch_gate (world net0) post = (Inr sresp, w1)
                \<and> resp_header sresp ''set-cookie'' = Some ck \<and> ck \<noteq> []
                \<and> final = final_request (if str_truthy (resp_header sresp ''location'')
                              then the (resp_header sresp ''location'') else ?red) ck
                \<and> fetch_gate w1 final = (Inr fresp, w2)
                \<longrightarrow> solveDoubanChallenge_lib ?H form_plain fetch_gate ?u gate_page net0 =
                      (Inr \<lparr>ch_solved = True, ch_text = resp_text fresp, ch_error = None,
                            ch_cookies = Some ck\<rparr>,
                       \<lparr>world = w2, sent = sent net0 @ [post, final]\<rparr>)"
    by (elim conjE exE)
  from sol have s: "sol = 65660" by (simp only: pw)
  define sresp where "sresp = \<lparr>resp_status = 302, resp_url = req_url post,
      resp_header = (\<lambda>h. if h = ''set-cookie'' then Some session_cookie else None),
      resp_text = []\<rparr>"
  define final where "final = final_request ?red session_cookie"
  define fresp where "fresp = \<lparr>resp_status = 200, resp_url = req_url final,
      resp_header = (\<lambda>h. None :: jstr option), resp_text = plain_page\<rparr>"
  have 1: "fetch_gate (world net0) post = (Inr sresp, ())"
    by (simp add: fetch_gate_def post submit_request_def sresp_def net0_def)
  have 2: "resp_header sresp ''set-cookie'' = Some session_cookie"
    by (simp add: sresp_def)
  have 3: "session_cookie \<noteq> []" by (simp add: session_cookie_def asc_def)
  have 4: "final = final_request (if str_truthy (resp_header sresp ''location'')
                              then the (resp_header sresp ''location'') else ?red) session_cookie"
    by (simp add: final_def sresp_def str_truthy_def)
  have 5: "fetch_gate () final = (Inr fresp, ())"
    by (simp add: fetch_gate_def final_def final_request_def get_request_def fresp_def asc_def)
  from ret have "fetch_gate (world net0) post = (Inr sresp, ())
                \<and> resp_header sresp ''set-cookie'' = Some session_cookie \<and> session_cookie \<noteq> []
                \<and> final = final_request (if str_truthy (resp_header sresp ''location'')
                              then the (resp_header sresp ''location'') else ?red) session_cookie
                \<and> fetch_gate () final = (Inr fresp, ())
                \<longrightarrow> solveDoubanChallenge_lib ?H form_plain fetch_gate ?u gate_page net0 =
                      (Inr \<lparr>ch_solved = True, ch_text = resp_text fresp, ch_error = None,
                            ch_cookies = Some session_cookie\<rparr>,
                       \<lparr>world = (), sent = sent net0 @ [post, final]\<rparr>)"
    by (elim allE)
  with 1 2 3 4 5 have lib: "solveDoubanChallenge_lib ?H form_plain fetch_gate ?u gate_page net0 =
                      (Inr \<lparr>ch_solved = True, ch_text = resp_text fresp, ch_error = None,
                            ch_cookies = Some session_cookie\<rparr>,
                       \<lparr>world = (), sent = sent net0 @ [post, final]\<rparr>)"
    by (elim impE) (intro conjI)
  have sn: "sent net0 = []" by (simp add: net0_def)
  have ft: "resp_text fresp = plain_page" by (simp add: fresp_def)
  show ?thesis
    unfolding srv lib sn ft post s final_def
    using gate_page_markers gate_page_tok gate_page_cha le ok by simp
qed

section \<open>Facts about the concrete inputs\<close>

lemmas str_defs = asc_def trim_def is_space_def js_split_def js_sort_def nl_def js_repeat_def
  substr_def padStart0_def startsWith_def line_if_def img_block_def opt_line_def

lemma fixed_sel:
  "p_fetch fixed_platform = fetch_fixed"
  "p_sha512hex fixed_platform = digest_all_zero"
  "p_json_parse fixed_platform = parse_fixed"
  "p_localeCompare fixed_platform = lex_cmp"
  "p_date_ms fixed_platform = (\<lambda>s. None)"
  "p_encodeURIComponent fixed_platform = Inr"
  "p_page_douban fixed_platform = (\<lambda>t. bare_douban_dom)"
  "p_page_imdb_ld fixed_platform = (\<lambda>t. Some (asc ''{}''))"
  by (simp_all add: fixed_platform_def)

lemma plain_no_douban_markers:
  "\<not> js_includes plain_page douban_not_found_marker"
  "\<not> js_includes plain_page douban_banned_marker"
  by (simp_all add: plain_page_def douban_not_found_marker_def douban_banned_marker_def asc_def)

lemma plain_no_imdb_marker: "\<not> js_includes plain_page (asc ''404 Error - IMDb'')"
  by (simp add: plain_page_def asc_def)

lemma fetch_fixed_page:
  "\<not> startsWith u suggest_url \<Longrightarrow>
   js_fetch fetch_fixed (get_request u hs) st =
     (Inr \<lparr>resp_status = 200, resp_url = u, resp_header = (\<lambda>h. None), resp_text = plain_page\<rparr>,
      \<lparr>world = (), sent = sent st @ [get_request u hs]\<rparr>)"
  by (simp add: js_fetch_def fetch_fixed_def get_request_def)

lemma not_suggest:
  "\<not> startsWith (asc ''https://movie.douban.com/subject/'' @ s) suggest_url"
  "\<not> startsWith (asc ''https://www.imdb.com/title/'' @ s) suggest_url"
  by (simp_all add: startsWith_def suggest_url_def asc_def)

lemma not_gate_plain:
  "solveDoubanChallenge H f u plain_page st =
     (Inr \<lparr>ch_solved = False, ch_text = plain_page, ch_error = None, ch_cookies = None\<rparr>, st)"
  using plain_page_markers by (simp add: solveDoubanChallenge_def)

lemma gen_douban_fixed:
  "gen_douban fixed_platform (JStr s) st =
     (douban_record fixed_platform (JStr s)
        (asc ''https://movie.douban.com/subject/'' @ s @ asc ''/'')
        (asc ''https://movie.douban.com/subject/'' @ s @ asc ''/'') plain_page,
      \<lparr>world = (),
       sent = sent st @ [get_request (asc ''https://movie.douban.com/subject/'' @ s @ asc ''/'') []]\<rparr>)"
  by (simp add: gen_douban_def Let_def fixed_sel fetch_fixed_page not_suggest not_gate_plain
      plain_no_douban_markers)

lemma douban_record_fixed:
  "douban_record fixed_platform (JStr (asc ''1''))
      (asc ''https://movie.douban.com/subject/'' @ asc ''1'' @ asc ''/'') u plain_page
   = Inr bare_douban_record"
  by (simp add: douban_record_def fixed_sel bare_douban_dom_def parse_fixed_def
      bare_douban_record_def
      Let_def bind_err_def anchor_found_def fetch_anchor_def douban_aka_def date_cmp_def
      js_or_def opt_prop_def js_get_def douban_poster_def names_joined_def arr_map_prop_def
      douban_descr_def douban_title_suffix_def no_introduction_def strs_def dec.simps
      lbl_this_title_def lbl_year_def lbl_douban_rating_def lbl_douban_link_def lbl_introduction_def
      str_defs)

lemma gen_imdb_fixed:
  "gen_imdb fixed_platform (JStr s) st =
     (imdb_record fixed_platform (JStr s) (imdb_id_of s) (imdb_url_of s) plain_page,
      \<lparr>world = (), sent = sent st @ [get_request (imdb_url_of s) []]\<rparr>)"
  by (simp add: gen_imdb_def Let_def fixed_sel fetch_fixed_page not_suggest imdb_url_of_def
      plain_no_imdb_marker)

lemma imdb_record_fixed:
  "imdb_record fixed_platform sid i u plain_page =
     Inr [(''site'', JStr (asc ''imdb'')), (''sid'', sid), (''imdb_id'', JStr i),
          (''imdb_link'', JStr u), (''name'', JUndefined), (''genre'', JUndefined),
          (''contentRating'', JUndefined), (''datePublished'', JUndefined),
          (''description'', JUndefined), (''duration'', JUndefined), (''poster'', JUndefined),
          (''year'', JUndefined),
          (''format'', JStr (trim (line_if (u \<noteq> []) (asc ''IMDb Link: '' @ u @ nl)))),
          (''success'', JBool True)]"
  by (simp add: imdb_record_def fixed_sel parse_fixed_def asc_def bind_err_def js_get_def
      js_slice4_def Let_def imdb_descr_def line_if_def)

section \<open>Facts about sorting\<close>

lemma mset_insort_cmp: "mset (insort_cmp cmp x ys) = add_mset x (mset ys)"
  by (induction ys) auto

lemma mset_js_sort: "mset (js_sort cmp xs) = mset xs"
  by (induction xs) (auto simp: js_sort_def mset_insort_cmp)

lemma set_insort_cmp: "set (insort_cmp cmp x ys) = insert x (set ys)"
  by (induction ys) auto

lemma sorted_insort_cmp:
  assumes "consistent_cmp cmp" and "sorted_wrt (\<lambda>a b. cmp a b \<le> 0) ys"
  shows "sorted_wrt (\<lambda>a b. cmp a b \<le> 0) (insort_cmp cmp x ys)"
  using assms(2)
proof (induction ys)
  case Nil
  then show ?case by simp
next
  case (Cons y ys)
  have tot: "cmp a b \<le> 0 \<or> cmp b a \<le> 0" for a b
    using assms(1) unfolding consistent_cmp_def by blast
  have trans: "cmp a b \<le> 0 \<Longrightarrow> cmp b c \<le> 0 \<Longrightarrow> cmp a c \<le> 0" for a b c
    using assms(1) unfolding consistent_cmp_def by blast
  from Cons.prems have ys: "sorted_wrt (\<lambda>a b. cmp a b \<le> 0) ys"
    and y_le: "\<forall>z \<in> set ys. cmp y z \<le> 0" by simp_all
  show ?case
  proof (cases "cmp x y > 0")
    case True
    then have yx: "cmp y x \<le> 0" using tot [of x y] by simp
    have "sorted_wrt (\<lambda>a b. cmp a b \<le> 0) (insort_cmp cmp x ys)"
      using ys by (rule Cons.IH)
    moreover have "\<forall>z \<in> set (insort_cmp cmp x ys). cmp y z \<le> 0"
      using yx y_le by (simp add: set_insort_cmp)
    ultimately show ?thesis using True by simp
  next
    case False
    then have xy: "cmp x y \<le> 0" by simp
    have "\<forall>z \<in> set ys. cmp x z \<le> 0"
    proof
      fix z assume "z \<in> set ys"
      with y_le have "cmp y z \<le> 0" by blast
      with xy show "cmp x z \<le> 0" by (rule trans)
    qed
    with False xy Cons.prems show ?thesis by simp
  qed
qed

lemma sorted_js_sort:
  "consistent_cmp cmp \<Longrightarrow> sorted_wrt (\<lambda>a b. cmp a b \<le> 0) (js_sort cmp xs)"
proof (induction xs)
  case Nil
  then show ?case by (simp add: js_sort_def)
next
  case (Cons x xs)
  then have "sorted_wrt (\<lambda>a b. cmp a b \<le> 0) (insort_cmp cmp x (js_sort cmp xs))"
    by (intro sorted_insort_cmp) simp_all
  then show ?case by (simp add: js_sort_def)
qed

lemma lex_cmp_total: "lex_cmp a b \<le> 0 \<or> lex_cmp b a \<le> 0"
  by (induction a b rule: lex_cmp.induct) simp_all

lemma lex_cmp_trans: "lex_cmp a b \<le> 0 \<Longrightarrow> lex_cmp b c \<le> 0 \<Longrightarrow> lex_cmp a c \<le> 0"
proof (induction a arbitrary: b c)
  case Nil
  then show ?case by (cases c) simp_all
next
  case (Cons x xs)
  from Cons.prems(1) obtain y ys where b: "b = y # ys" by (cases b) simp_all
  from Cons.prems(2) b obtain z zs where c: "c = z # zs" by (cases c) simp_all
  from Cons.prems(1) b have xy: "x \<le> y" by (simp split: if_splits)
  from Cons.prems(2) b c have yz: "y \<le> z" by (simp split: if_splits)
  show ?case
  proof (cases "x < z")
    case True
    then show ?thesis using c by simp
  next
    case False
    with xy yz have eq: "x = y" "y = z" by simp_all
    from Cons.prems(1) b eq have 1: "lex_cmp xs ys \<le> 0" by simp
    from Cons.prems(2) b c eq have 2: "lex_cmp ys zs \<le> 0" by simp
    from 1 2 have "lex_cmp xs zs \<le> 0" by (rule Cons.IH)
    with eq c show ?thesis by simp
  qed
qed

lemma consistent_lex_cmp: "consistent_cmp lex_cmp"
  unfolding consistent_cmp_def using lex_cmp_total lex_cmp_trans by blast

section \<open>Claims about the adapters\<close>

text \<open>
  C6 (as stated): the alternate titles are deduplicated and sorted before they are
  joined. The adapter sorts and joins only: a title that occurs twice behind the label
  occurs twice in the result.
\<close>

theorem C6_counterexample:
  "douban_aka lex_cmp (Matched (Some (asc ''A / A''))) = asc ''A/A''"
  by (simp add: douban_aka_def anchor_found_def fetch_anchor_def str_defs)

text \<open>
  C6 (amended): the alternate titles behind the label are split at \<open>" / "\<close>, put in
  ascending order of \<open>localeCompare\<close> and joined with \<open>"/"\<close>; every entry is kept as often
  as it occurs. This holds for every collation that is a consistent comparison
  function; without the label the field is empty.
\<close>

theorem C6_aka_sorted:
  assumes "consistent_cmp cmp"
  shows "\<exists>ys. douban_aka cmp (Matched v) = js_join (asc ''/'') ys
           \<and> sorted_wrt (\<lambda>a b. cmp a b \<le> 0) ys
           \<and> mset ys = mset (js_split (asc '' / '') (fetch_anchor (Matched v)))"
proof -
  let ?ys = "js_sort cmp (js_split (asc '' / '') (fetch_anchor (Matched v)))"
  have "douban_aka cmp (Matched v) = js_join (asc ''/'') ?ys"
    by (simp add: douban_aka_def anchor_found_def)
  moreover have "sorted_wrt (\<lambda>a b. cmp a b \<le> 0) ?ys"
    using assms by (rule sorted_js_sort)
  moreover have "mset ?ys = mset (js_split (asc '' / '') (fetch_anchor (Matched v)))"
    by (rule mset_js_sort)
  ultimately show ?thesis by blast
qed

theorem C6_aka_sorted_witness:
  "consistent_cmp lex_cmp
   \<and> douban_aka lex_cmp (Matched (Some (asc ''Beta / Alpha''))) = asc ''Alpha/Beta''
   \<and> (\<exists>ys. douban_aka lex_cmp (Matched (Some (asc ''Beta / Alpha''))) = js_join (asc ''/'') ys
           \<and> sorted_wrt (\<lambda>a b. lex_cmp a b \<le> 0) ys
           \<and> mset ys = mset (js_split (asc '' / '') (fetch_anchor (Matched (Some (asc ''Beta / Alpha''))))))"
proof -
  have "douban_aka lex_cmp (Matched (Some (asc ''Beta / Alpha''))) = asc ''Alpha/Beta''"
    by (simp add: douban_aka_def anchor_found_def fetch_anchor_def str_defs)
  with consistent_lex_cmp C6_aka_sorted [OF consistent_lex_cmp, of "Some (asc ''Beta / Alpha'')"]
  show ?thesis by simp
qed

text \<open>
  C7: a labelled line is rendered only for a field that is not empty, and never with a
  blank value. The year line of the Douban description breaks this. The field is built as
  a space followed by four characters of the year element, so it is never empty and its
  guard never omits the line: for a page without a year the description carries the year
  label followed by nothing. The run below is \<open>gen_douban\<close> for subject \<open>1\<close> on a page with
  a title and no year.
\<close>

theorem C7_year_line_blank:
  "(case fst (gen_douban fixed_platform (JStr (asc ''1'')) net0) of
      Inl e \<Rightarrow> False
    | Inr r \<Rightarrow>
        js_get r ''success'' = JBool True
        \<and> js_get r ''year'' = JStr (asc '' '')
        \<and> js_get r ''format'' =
            JStr (lbl_this_title @ asc ''T'' @ nl
                  @ lbl_year @ nl
                  @ lbl_douban_rating @ asc ''0/10 from 0 users'' @ nl
                  @ lbl_douban_link @ asc ''https://movie.douban.com/subject/1/'' @ nl
                  @ nl @ lbl_introduction @ nl @ nl @ [12288, 12288] @ no_introduction))"
  by (simp add: gen_douban_fixed douban_record_fixed bare_douban_record_def js_get_def)

text \<open>
  C10 (as stated): for every subject id string the record's \<open>imdb_id\<close> is \<open>tt\<close> followed
  by at least seven digits. The adapter pads whatever it is given: for the id \<open>abc\<close> it
  asks for \<open>tt0000abc\<close> and returns that as the \<open>imdb_id\<close> of the record.
\<close>

theorem C10_counterexample:
  "imdb_id_of (asc ''abc'') = asc ''tt0000abc''
   \<and> \<not> tt_then_digits (imdb_id_of (asc ''abc''))
   \<and> (case fst (gen_imdb fixed_platform (JStr (asc ''abc'')) net0) of
         Inl e \<Rightarrow> False
       | Inr r \<Rightarrow> js_get r ''success'' = JBool True
                  \<and> js_get r ''imdb_id'' = JStr (asc ''tt0000abc''))"
proof -
  have rep: "replicate 4 x = [x, x, x, x]" for x :: nat
    by (simp add: numeral_eq_Suc)
  have i: "imdb_id_of (asc ''abc'') = asc ''tt0000abc''"
    by (simp add: imdb_id_of_def str_defs rep)
  have n: "\<not> tt_then_digits (asc ''tt0000abc'')"
    by (simp add: tt_then_digits_def is_digit_def asc_def)
  from i n show ?thesis
    by (simp add: gen_imdb_fixed imdb_record_fixed js_get_def)
qed

lemma digits_not_tt: "list_all is_digit ds \<Longrightarrow> \<not> startsWith ds (asc ''tt'')"
proof (cases ds)
  case Nil
  then show ?thesis by (simp add: startsWith_def asc_def)
next
  case (Cons d ds')
  assume "list_all is_digit ds"
  with Cons have "d \<noteq> 116" by (auto simp: is_digit_def)
  with Cons show ?thesis by (cases ds') (simp_all add: startsWith_def asc_def)
qed

lemma imdb_id_of_digits:
  assumes "list_all is_digit ds" and "sid = ds \<or> sid = asc ''tt'' @ ds"
  shows "imdb_id_of sid = asc ''tt'' @ replicate (7 - length ds) 48 @ ds"
proof -
  from assms(2) show ?thesis
  proof
    assume "sid = ds"
    with digits_not_tt [OF assms(1)] show ?thesis
      by (simp add: imdb_id_of_def padStart0_def)
  next
    assume "sid = asc ''tt'' @ ds"
    then show ?thesis
      by (simp add: imdb_id_of_def padStart0_def startsWith_def asc_def)
  qed
qed

lemma imdb_record_id:
  "imdb_record P sid i u t = Inr r \<Longrightarrow> js_get r ''imdb_id'' = JStr i"
  by (auto simp: imdb_record_def bind_err_def Let_def js_get_def
           split: option.splits sum.splits if_splits)

lemma gen_imdb_request:
  assumes "gen_imdb P (JStr s) st = (res, st')"
  shows "sent st' = sent st @ [get_request (imdb_url_of s) []]"
  using assms
  by (auto simp: gen_imdb_def Let_def js_fetch_def split: prod.splits sum.splits if_splits)

lemma gen_imdb_id:
  assumes "gen_imdb P (JStr s) st = (Inr r, st')" and "js_get r ''success'' = JBool True"
  shows "js_get r ''imdb_id'' = JStr (imdb_id_of s)"
  using assms
  by (auto simp: gen_imdb_def Let_def js_get_def dest: imdb_record_id
           split: prod.splits sum.splits if_splits)

text \<open>
  C10 (amended): for every subject id that consists of decimal digits, with or without
  the prefix \<open>tt\<close>, the canonical id is \<open>tt\<close> followed by the digits padded on the left
  with \<open>0\<close> to at least seven, so it has the shape \<open>tt\<close> and seven or more digits; the
  adapter sends its one request to the title URL of that id, and a record it returns
  with \<open>success\<close> carries that id as \<open>imdb_id\<close>. The ids \<open>tt42\<close>, \<open>42\<close> and \<open>0000042\<close> all
  give \<open>tt0000042\<close>.
\<close>

theorem C10_imdb_id_canonical:
  assumes "list_all is_digit ds" and "sid = ds \<or> sid = asc ''tt'' @ ds"
  shows "imdb_id_of sid = asc ''tt'' @ replicate (7 - length ds) 48 @ ds
    \<and> tt_then_digits (imdb_id_of sid)
    \<and> imdb_url_of sid =
        asc ''https://www.imdb.com/title/'' @ asc ''tt'' @ replicate (7 - length ds) 48 @ ds
        @ asc ''/''
    \<and> (\<forall>P st res st'. gen_imdb P (JStr sid) (st :: 'w net) = (res, st') \<longrightarrow>
          sent st' = sent st @ [get_request (imdb_url_of sid) []]
          \<and> (\<forall>r. res = Inr r \<and> js_get r ''success'' = JBool True \<longrightarrow>
                js_get r ''imdb_id'' = JStr (imdb_id_of sid)))"
proof -
  have id: "imdb_id_of sid = asc ''tt'' @ replicate (7 - length ds) 48 @ ds"
    using assms by (rule imdb_id_of_digits)
  have "list_all is_digit (replicate (7 - length ds) 48 @ ds)"
    using assms(1) by (auto simp: list_all_iff is_digit_def)
  moreover have "7 \<le> length (replicate (7 - length ds) 48 @ ds)" by simp
  ultimately have shape: "tt_then_digits (imdb_id_of sid)"
    unfolding id by (simp add: tt_then_digits_def asc_def)
  have url: "imdb_url_of sid =
      asc ''https://www.imdb.com/title/'' @ asc ''tt'' @ replicate (7 - length ds) 48 @ ds @ asc ''/''"
    by (simp add: imdb_url_of_def id)
  have run: "\<forall>P st res st'. gen_imdb P (JStr sid) (st :: 'w net) = (res, st') \<longrightarrow>
          sent st' = sent st @ [get_request (imdb_url_of sid) []]
          \<and> (\<forall>r. res = Inr r \<and> js_get r ''success'' = JBool True \<longrightarrow>
                js_get r ''imdb_id'' = JStr (imdb_id_of sid))"
    using gen_imdb_request gen_imdb_id by blast
  from id shape url run show ?thesis by blast
qed

theorem C10_imdb_id_canonical_witness:
  "list_all is_digit (asc ''42'') \<and> list_all is_digit (asc ''0000042'')
   \<and> imdb_id_of (asc ''tt42'') = asc ''tt0000042''
   \<and> imdb_id_of (asc ''42'') = asc ''tt0000042''
   \<and> imdb_id_of (asc ''0000042'') = asc ''tt0000042''
   \<and> tt_then_digits (imdb_id_of (asc ''tt42''))
   \<and> imdb_url_of (asc ''tt42'') = asc ''https://www.imdb.com/title/tt0000042/''
   \<and> imdb_url_of (asc ''42'') = asc ''https://www.imdb.com/title/tt0000042/''
   \<and> imdb_url_of (asc ''0000042'') = asc ''https://www.imdb.com/title/tt0000042/''"
proof -
  have d1: "list_all is_digit (asc ''42'')" and d2: "list_all is_digit (asc ''0000042'')"
    by (simp_all add: is_digit_def asc_def)
  have s1: "asc ''tt42'' = asc ''42'' \<or> asc ''tt42'' = asc ''tt'' @ asc ''42''"
    by (simp add: asc_def)
  have s2: "asc ''42'' = asc ''42'' \<or> asc ''42'' = asc ''tt'' @ asc ''42''"
    by simp
  have s3: "asc ''0000042'' = asc ''0000042'' \<or> asc ''0000042'' = asc ''tt'' @ asc ''0000042''"
    by simp
  have rep: "replicate 5 x = [x, x, x, x, x]" for x :: nat
    by (simp add: numeral_eq_Suc)
  note t1 = C10_imdb_id_canonical [OF d1 s1, where ?'w = unit]
  note t2 = C10_imdb_id_canonical [OF d1 s2, where ?'w = unit]
  note t3 = C10_imdb_id_canonical [OF d2 s3, where ?'w = unit]
  from t1 have i1: "imdb_id_of (asc ''tt42'') = asc ''tt0000042''"
    by (simp add: asc_def rep)
  from t2 have i2: "imdb_id_of (asc ''42'') = asc ''tt0000042''"
    by (simp add: asc_def rep)
  from t3 have i3: "imdb_id_of (asc ''0000042'') = asc ''tt0000042''"
    by (simp add: asc_def rep)
  from t1 have k1: "tt_then_digits (imdb_id_of (asc ''tt42''))"
    by blast
  from t1 have u1: "imdb_url_of (asc ''tt42'') = asc ''https://www.imdb.com/title/tt0000042/''"
    by (simp add: asc_def rep)
  from t2 have u2: "imdb_url_of (asc ''42'') = asc ''https://www.imdb.com/title/tt0000042/''"
    by (simp add: asc_def rep)
  from t3 have u3: "imdb_url_of (asc ''0000042'') = asc ''https://www.imdb.com/title/tt0000042/''"
    by (simp add: asc_def rep)
  from d1 d2 i1 i2 i3 k1 u1 u2 u3 show ?thesis by blast
qed

section \<open>Facts about objects\<close>

lemma map_of_obj_set: "map_of (obj_set k v fs) k' = (if k' = k then Some v else map_of fs k')"
  by (induction fs) auto

lemma js_get_obj_set: "js_get (obj_set k v fs) k' = (if k' = k then v else js_get fs k')"
  by (simp add: js_get_def map_of_obj_set)

lemma keys_obj_set: "set (map fst (obj_set k v fs)) = insert k (set (map fst fs))"
proof (induction fs)
  case Nil
  then show ?case by simp
next
  case (Cons kv fs)
  obtain k' v' where kv: "kv = (k', v')" by (cases kv)
  show ?case
  proof (cases "k = k'")
    case True
    with kv show ?thesis by simp
  next
    case False
    with kv Cons.IH show ?thesis by (simp add: insert_commute)
  qed
qed

lemma distinct_obj_set: "distinct (map fst fs) \<Longrightarrow> distinct (map fst (obj_set k v fs))"
proof (induction fs)
  case Nil
  then show ?case by simp
next
  case (Cons kv fs)
  obtain k' v' where kv: "kv = (k', v')" by (cases kv)
  from Cons.prems kv have nin: "k' \<notin> set (map fst fs)" and d: "distinct (map fst fs)"
    by simp_all
  show ?case
  proof (cases "k = k'")
    case True
    with kv Cons.prems show ?thesis by simp
  next
    case False
    from nin False have "k' \<notin> set (map fst (obj_set k v fs))"
      unfolding keys_obj_set by simp
    with False kv Cons.IH [OF d] show ?thesis by simp
  qed
qed

lemma distinct_spread: "distinct (map fst a) \<Longrightarrow> distinct (map fst (spread a b))"
  unfolding spread_def
  by (induction b arbitrary: a) (auto simp: distinct_obj_set)

lemma map_of_spread:
  "distinct (map fst b) \<Longrightarrow>
   map_of (spread a b) k = (case map_of b k of Some v \<Rightarrow> Some v | None \<Rightarrow> map_of a k)"
  unfolding spread_def
proof (induction b arbitrary: a)
  case Nil
  then show ?case by simp
next
  case (Cons kv b)
  obtain k' v' where kv: "kv = (k', v')" by (cases kv)
  from Cons.prems kv have d: "distinct (map fst b)" and nin: "k' \<notin> fst ` set b" by simp_all
  from nin have none: "map_of b k' = None" by (simp add: map_of_eq_None_iff)
  show ?case
    using Cons.IH [OF d, of "obj_set k' v' a"] kv none
    by (auto simp: map_of_obj_set split: option.splits)
qed

lemma js_get_spread:
  "distinct (map fst b) \<Longrightarrow>
   js_get (spread a b) k = (case map_of b k of Some v \<Rightarrow> v | None \<Rightarrow> js_get a k)"
  by (simp add: js_get_def map_of_spread split: option.splits)

lemma map_of_norm_fields:
  "map_of (map (\<lambda>(k, v). (k, json_norm v)) (filter (\<lambda>(k, v). js_get fs k \<noteq> JUndefined) gs)) k
   = (if js_get fs k = JUndefined then None else map_option json_norm (map_of gs k))"
  by (induction gs) auto

lemma js_get_json_norm:
  "json_norm (JObj fs) = JObj gs \<Longrightarrow>
   js_get gs k = (if js_get fs k = JUndefined then JUndefined
                  else case map_of fs k of None \<Rightarrow> JUndefined | Some v \<Rightarrow> json_norm v)"
  by (auto simp: js_get_def map_of_norm_fields [of fs fs, unfolded js_get_def] split: option.splits)

lemma distinct_json_norm:
  "distinct (map fst fs) \<Longrightarrow> json_norm (JObj fs) = JObj gs \<Longrightarrow> distinct (map fst gs)"
  by (auto simp: distinct_map_filter comp_def case_prod_unfold)

section \<open>Shapes of the results of the adapters\<close>

lemma bind_err_InrE:
  assumes "bind_err m f = Inr r"
  obtains x where "m = Inr x" and "f x = Inr r"
  using assms by (cases m) (simp_all add: bind_err_def)

lemmas shape_defs = error_result_def success_result_def data_result_def distinct_keys_def
  js_get_def

lemma nonempty_asc [simp]: "asc (c # cs) \<noteq> []"
  by (simp add: asc_def)

lemma none_exist_nonempty: "NONE_EXIST_ERROR \<noteq> []"
  by (simp add: NONE_EXIST_ERROR_def)

lemma douban_record_shape:
  assumes "douban_record P sid l u t = Inr r"
  shows "distinct_keys r \<and> (error_result r \<or> success_result r)"
proof (cases "d_ld_script (p_page_douban P t)")
  case None
  with assms show ?thesis
    by (auto simp: douban_record_def Let_def shape_defs)
next
  case (Some ldScript)
  show ?thesis
  proof (cases "ldScript = []")
    case True
    with Some assms show ?thesis
      by (auto simp: douban_record_def Let_def shape_defs)
  next
    case False
    show ?thesis
    proof (cases "p_json_parse P (filter (\<lambda>c. c \<noteq> 13 \<and> c \<noteq> 10 \<and> c \<noteq> 9) ldScript)")
      case (Inl e)
      with Some False assms show ?thesis
        by (auto simp: douban_record_def Let_def shape_defs)
    next
      case (Inr ld_json)
      with Some False assms show ?thesis
        by (auto simp: douban_record_def Let_def shape_defs elim!: bind_err_InrE)
    qed
  qed
qed

lemma gen_douban_shape:
  assumes "gen_douban P sid st = (Inr r, st')"
  shows "distinct_keys r \<and> (error_result r \<or> success_result r)"
proof -
  from assms consider
      (nf) "r = [(''site'', JStr (asc ''douban'')), (''sid'', sid)] @ [(''error'', JStr NONE_EXIST_ERROR)]"
    | (ban) "r = [(''site'', JStr (asc ''douban'')), (''sid'', sid)]
               @ [(''error'', JStr (asc ''GenHelp was temporary banned by Douban''))]"
    | (rec) l u t where "douban_record P sid l u t = Inr r"
    by (auto simp: gen_douban_def Let_def split: prod.splits sum.splits if_splits)
  then show ?thesis
  proof cases
    case nf
    then show ?thesis by (simp add: shape_defs none_exist_nonempty)
  next
    case ban
    then show ?thesis by (simp add: shape_defs)
  next
    case rec
    then show ?thesis by (rule douban_record_shape)
  qed
qed

lemma imdb_record_form:
  assumes "imdb_record P sid i u t = Inr r"
  shows "\<exists>name genre cr dp desc dur poster year ar f.
     r = [(''site'', JStr (asc ''imdb'')), (''sid'', sid),
                   (''imdb_id'', JStr i),
                   (''imdb_link'', JStr u),
                   (''name'', name),
                   (''genre'', genre),
                   (''contentRating'', cr),
                   (''datePublished'', dp),
                   (''description'', desc),
                   (''duration'', dur),
                   (''poster'', poster),
                   (''year'', year)]
                  @ (if truthy ar
                       then [(''imdb_votes'', js_or (opt_prop ar ''ratingCount'') (JNum (asc ''0''))),
                             (''imdb_rating_average'', js_or (opt_prop ar ''ratingValue'') (JNum (asc ''0''))),
                             (''imdb_rating'', JStr f)]
                       else [])
                  @ [(''format'', JStr (trim (imdb_descr
                \<lparr>m_poster = poster, m_name = name, m_datePublished = dp,
                 m_imdb_rating = (if truthy ar then JStr f else JUndefined),
                 m_imdb_link = u\<rparr>))), (''success'', JBool True)]"
proof (cases "p_page_imdb_ld P t")
  case None
  with assms show ?thesis by (simp add: imdb_record_def)
next
  case (Some html)
  with assms show ?thesis
    unfolding imdb_record_def Let_def
    apply (simp only: option.case)
    apply (elim bind_err_InrE)
    apply (simp only: sum.inject)
    apply blast
    done
qed


lemma imdb_record_shape:
  assumes "imdb_record P sid i u t = Inr r"
  shows "distinct_keys r \<and> success_result r"
proof -
  from imdb_record_form [OF assms] obtain name genre cr dp desc dur poster year ar f where
    r: "r = [(''site'', JStr (asc ''imdb'')), (''sid'', sid),
                   (''imdb_id'', JStr i),
                   (''imdb_link'', JStr u),
                   (''name'', name),
                   (''genre'', genre),
                   (''contentRating'', cr),
                   (''datePublished'', dp),
                   (''description'', desc),
                   (''duration'', dur),
                   (''poster'', poster),
                   (''year'', year)]
                  @ (if truthy ar
                       then [(''imdb_votes'', js_or (opt_prop ar ''ratingCount'') (JNum (asc ''0''))),
                             (''imdb_rating_average'', js_or (opt_prop ar ''ratingValue'') (JNum (asc ''0''))),
                             (''imdb_rating'', JStr f)]
                       else [])
                  @ [(''format'', JStr (trim (imdb_descr
                \<lparr>m_poster = poster, m_name = name, m_datePublished = dp,
                 m_imdb_rating = (if truthy ar then JStr f else JUndefined),
                 m_imdb_link = u\<rparr>))), (''success'', JBool True)]"
    by blast
  show ?thesis
  proof (cases "truthy ar")
    case True
    with r show ?thesis by (simp add: shape_defs)
  next
    case False
    with r show ?thesis by (simp add: shape_defs)
  qed
qed

lemma gen_imdb_shape:
  assumes "gen_imdb P sid st = (Inr r, st')"
  shows "distinct_keys r \<and> (error_result r \<or> success_result r)"
proof -
  from assms consider
      (nf) "r = [(''site'', JStr (asc ''imdb'')), (''sid'', sid)] @ [(''error'', JStr NONE_EXIST_ERROR)]"
    | (rec) i u t where "imdb_record P sid i u t = Inr r"
    by (auto simp: gen_imdb_def Let_def split: jsval.splits prod.splits sum.splits if_splits)
  then show ?thesis
  proof cases
    case nf
    then show ?thesis by (simp add: shape_defs none_exist_nonempty)
  next
    case rec
    then show ?thesis using imdb_record_shape by blast
  qed
qed

lemma gen_bangumi_shape:
  assumes "gen_bangumi P sid st = (Inr r, st')"
  shows "distinct_keys r \<and> (error_result r \<or> success_result r)"
  using assms
  by (auto simp: gen_bangumi_def Let_def shape_defs none_exist_nonempty
           split: prod.splits sum.splits if_splits)

lemma gen_steam_shape:
  assumes "gen_steam P sid st = (Inr r, st')"
  shows "distinct_keys r \<and> (error_result r \<or> success_result r)"
  using assms
  by (auto simp: gen_steam_def Let_def shape_defs none_exist_nonempty
           split: prod.splits sum.splits if_splits)

lemma gen_indienova_shape:
  assumes "gen_indienova P sid st = (Inr r, st')"
  shows "distinct_keys r \<and> (error_result r \<or> success_result r)"
  using assms
  by (auto simp: gen_indienova_def Let_def shape_defs none_exist_nonempty
           split: prod.splits sum.splits if_splits)

lemma epic_record_shape:
  assumes "epic_record P sid t = Inr r"
  shows "distinct_keys r \<and> (error_result r \<or> success_result r)"
proof -
  from assms obtain api_json pages where
    r: "(let page = js_index0 pages
         in if \<not> truthy page
            then Inr ([(''site'', JStr (asc ''epic'')), (''sid'', sid)]
                      @ [(''error'', JStr (asc ''Invalid response''))])
            else
              (let name = opt_prop page ''productName'';
                   epic_link = asc ''https://www.epicgames.com/store/zh-CN/product/'' @ to_str sid
                               @ asc ''/home'';
                   pdata = opt_prop page ''data'';
                   desc = opt_prop (opt_prop pdata ''about'') ''description'';
                   poster = opt_prop (opt_prop (opt_prop pdata ''hero'') ''logoImage'') ''src'';
                   gallery = opt_prop (opt_prop pdata ''gallery'') ''galleryImages''
               in bind_err (arr_map_prop ''src'' (js_or gallery (JArr []))) (\<lambda>screenshot.
                  let descr = epic_descr
                        \<lparr>e_poster = poster, e_name = name, e_epic_link = epic_link, e_desc = desc\<rparr>
                  in Inr ([(''site'', JStr (asc ''epic'')), (''sid'', sid)] @
                       [(''name'', name),
                        (''epic_link'', JStr epic_link),
                        (''desc'', desc),
                        (''poster'', poster),
                        (''screenshot'', JArr screenshot),
                        (''format'', JStr (trim descr)),
                        (''success'', JBool True)])))) = Inr r"
    by (auto simp: epic_record_def Let_def elim!: bind_err_InrE)
  show ?thesis
  proof (cases "truthy (js_index0 pages)")
    case False
    with r show ?thesis by (auto simp: Let_def shape_defs)
  next
    case True
    with r show ?thesis by (auto simp: Let_def shape_defs elim!: bind_err_InrE)
  qed
qed

lemma gen_epic_shape:
  assumes "gen_epic P sid st = (Inr r, st')"
  shows "distinct_keys r \<and> (error_result r \<or> success_result r)"
proof -
  from assms consider
      (nf) "r = [(''site'', JStr (asc ''epic'')), (''sid'', sid)] @ [(''error'', JStr NONE_EXIST_ERROR)]"
    | (rec) t where "epic_record P sid t = Inr r"
    by (auto simp: gen_epic_def Let_def split: prod.splits sum.splits if_splits)
  then show ?thesis
  proof cases
    case nf
    then show ?thesis by (simp add: shape_defs none_exist_nonempty)
  next
    case rec
    then show ?thesis by (rule epic_record_shape)
  qed
qed

lemma dispatch_gen_shape:
  assumes "dispatch_gen P site sid st = (Inr r, st')"
  shows "distinct_keys r \<and> (error_result r \<or> success_result r)"
proof -
  from assms consider
      "gen_douban P sid st = (Inr r, st')" | "gen_imdb P sid st = (Inr r, st')"
    | "gen_bangumi P sid st = (Inr r, st')" | "gen_steam P sid st = (Inr r, st')"
    | "gen_indienova P sid st = (Inr r, st')" | "gen_epic P sid st = (Inr r, st')"
    | "r = [(''error'', JStr (asc ''Unknown site: '' @ to_str site))]"
    by (auto simp: dispatch_gen_def split: if_splits)
  then show ?thesis
  proof cases
    case 7
    then show ?thesis by (simp add: shape_defs asc_def)
  qed (simp_all add: gen_douban_shape gen_imdb_shape gen_bangumi_shape gen_steam_shape
         gen_indienova_shape gen_epic_shape)
qed

lemma search_douban_shape:
  assumes "search_douban P q st = (Inr r, st')"
  shows "distinct_keys r \<and> (error_result r \<or> data_result r)"
  using assms
  by (auto simp: search_douban_def Let_def shape_defs split: prod.splits sum.splits)

lemma search_imdb_shape:
  assumes "search_imdb P q st = (Inr r, st')"
  shows "distinct_keys r \<and> (error_result r \<or> data_result r)"
  using assms
  by (auto simp: search_imdb_def Let_def shape_defs elim!: bind_err_InrE
           split: jsval.splits prod.splits sum.splits)

lemma search_bangumi_shape:
  assumes "search_bangumi P q st = (Inr r, st')"
  shows "distinct_keys r \<and> (error_result r \<or> data_result r)"
  using assms
  by (auto simp: search_bangumi_def Let_def shape_defs elim!: bind_err_InrE
           split: prod.splits sum.splits)

lemma dispatch_search_shape:
  assumes "dispatch_search P source q st = (Inr r, st')"
  shows "distinct_keys r \<and> (error_result r \<or> data_result r)"
proof -
  from assms consider
      "search_douban P q st = (Inr r, st')" | "search_imdb P q st = (Inr r, st')"
    | "search_bangumi P q st = (Inr r, st')"
    | "r = [(''error'', JStr (asc ''Unknown source: '' @ to_str source))]"
    by (auto simp: dispatch_search_def split: if_splits)
  then show ?thesis
  proof cases
    case 4
    then show ?thesis by (simp add: shape_defs asc_def)
  qed (simp_all add: search_douban_shape search_imdb_shape search_bangumi_shape)
qed

section \<open>Facts about responses and the cache\<close>

lemma default_body_get:
  "js_get (default_body env) ''success'' = JBool False"
  "js_get (default_body env) ''error'' = JNull"
  "js_get (default_body env) ''format'' = JStr []"
  by (simp_all add: default_body_def js_get_def)

lemma distinct_default_body: "distinct (map fst (default_body env))"
  by (simp add: default_body_def)

lemma body_get:
  assumes "distinct (map fst fs)" and "k \<noteq> ''generate_at''"
  shows "js_get (obj_set ''generate_at'' g (spread (default_body env) fs)) k =
     (case map_of fs k of Some v \<Rightarrow> v | None \<Rightarrow> js_get (default_body env) k)"
  using assms by (simp add: js_get_obj_set js_get_spread)

lemma makeJsonResponse_body:
  "rs_body (makeJsonResponse env now d status) =
     Json (obj_set ''generate_at'' (JNum (dec now)) (spread (default_body env) (spread_of d)))"
  by (simp add: makeJsonResponse_def makeJsonRawResponse_def)

lemma record_inv_body:
  assumes "data_ok d" and "rs_body (makeJsonResponse env now d status) = Json b"
  shows "record_inv b"
proof -
  from assms(1) obtain fs where d: "d = JObj fs" and dist: "distinct (map fst fs)"
    and shape: "error_result fs \<or> success_result fs \<or> data_result fs"
    by (auto simp: data_ok_def distinct_keys_def)
  from assms(2) d have b: "b = obj_set ''generate_at'' (JNum (dec now)) (spread (default_body env) fs)"
    by (simp add: makeJsonResponse_body spread_of_def)
  have s: "js_get b ''success'' = (case map_of fs ''success'' of Some v \<Rightarrow> v | None \<Rightarrow> JBool False)"
    unfolding b using dist by (simp add: body_get default_body_get split: option.splits)
  have e: "js_get b ''error'' = (case map_of fs ''error'' of Some v \<Rightarrow> v | None \<Rightarrow> JNull)"
    unfolding b using dist by (simp add: body_get default_body_get split: option.splits)
  have f: "js_get b ''format'' = (case map_of fs ''format'' of Some v \<Rightarrow> v | None \<Rightarrow> JStr [])"
    unfolding b using dist by (simp add: body_get default_body_get split: option.splits)
  from shape show ?thesis
    unfolding record_inv_def s e f
    by (auto simp: error_result_def success_result_def data_result_def js_get_def
             split: option.splits)
qed

lemma json_norm_bool: "json_norm v = JBool x \<Longrightarrow> v = JBool x"
  by (cases v) (auto split: if_splits)

lemma sent_document_obj: "\<exists>gs. sent_document b = JObj gs"
  by (simp add: sent_document_def)

lemma record_inv_doc:
  assumes "record_inv b"
  shows "record_inv (doc_fields b)"
proof -
  obtain gs where gs: "json_norm (JObj b) = JObj gs" by simp
  then have df: "doc_fields b = gs" by (simp add: doc_fields_def sent_document_def)
  note g = js_get_json_norm [OF gs]
  have s: "js_get gs ''success'' = JBool x \<Longrightarrow> js_get b ''success'' = JBool x" for x
    unfolding g [of "''success''"]
    by (auto simp: js_get_def dest: json_norm_bool split: if_splits option.splits)
  have e: "js_get b ''error'' = JNull \<or> js_get b ''error'' = JUndefined \<Longrightarrow>
      js_get gs ''error'' = JNull \<or> js_get gs ''error'' = JUndefined"
    unfolding g [of "''error''"]
    by (auto simp: js_get_def split: if_splits option.splits)
  have f: "js_get b ''format'' = JStr [] \<or> js_get b ''format'' = JUndefined \<Longrightarrow>
      js_get gs ''format'' = JStr [] \<or> js_get gs ''format'' = JUndefined"
    unfolding g [of "''format''"]
    by (auto simp: js_get_def split: if_splits option.splits)
  from assms s e f show ?thesis
    unfolding df record_inv_def by blast
qed

lemma stored_ok_data_ok: "stored_ok v \<Longrightarrow> data_ok v"
  by (auto simp: stored_ok_def data_ok_def)



lemma stored_ok_json_norm:
  assumes "data_ok d" and "\<not> truthy (opt_prop d ''error'')"
  shows "stored_ok (json_norm d)"
proof -
  from assms(1) obtain fs where d: "d = JObj fs" and dist: "distinct (map fst fs)"
    and shape: "error_result fs \<or> success_result fs \<or> data_result fs"
    by (auto simp: data_ok_def distinct_keys_def)
  from assms(2) d have ne: "\<not> error_result fs"
    by (simp add: opt_prop_def error_result_def)
  obtain gs where gs: "json_norm (JObj fs) = JObj gs" by simp
  note g = js_get_json_norm [OF gs]
  have dg: "distinct (map fst gs)" using dist gs by (rule distinct_json_norm)
  from shape ne have "success_result gs \<or> data_result gs"
    unfolding success_result_def data_result_def g
    by (auto simp: js_get_def split: option.splits)
  with dg gs d show ?thesis by (simp add: stored_ok_def distinct_keys_def)
qed

lemma cache_ok_restore:
  assumes "cache_ok kv" and "restoreFromKV now kv key = (v, kv')"
  shows "cache_ok kv' \<and> (truthy v \<longrightarrow> stored_ok v)"
  using assms
  by (auto simp: restoreFromKV_def kv_get_def cache_ok_def
           split: option.splits if_splits prod.splits)

lemma cache_ok_put:
  assumes "cache_ok (Some store)" and "stored_ok v"
  shows "cache_ok (Some (kv_put now store key v ttl))"
  using assms by (auto simp: cache_ok_def kv_put_def)

lemma cached_or_ok:
  assumes "cache_ok kv"
    and "\<And>st r st'. live st = (Inr r, st') \<Longrightarrow>
           distinct_keys r \<and> (error_result r \<or> success_result r \<or> data_result r)"
    and "cached_or now key live kv st = (res, kv', st')"
  shows "cache_ok kv' \<and> (\<forall>d ck. res = Inr (d, ck) \<longrightarrow> data_ok d)"
proof -
  obtain v kv1 where r: "restoreFromKV now kv key = (v, kv1)" by (cases "restoreFromKV now kv key")
  from cache_ok_restore [OF assms(1) r] have ok1: "cache_ok kv1" and sv: "truthy v \<longrightarrow> stored_ok v"
    by simp_all
  show ?thesis
  proof (cases "truthy v")
    case True
    with assms(3) r sv ok1 show ?thesis
      by (auto simp: cached_or_def stored_ok_data_ok)
  next
    case False
    obtain lr st1 where l: "live st = (lr, st1)" by (cases "live st")
    show ?thesis
    proof (cases lr)
      case (Inl e)
      with assms(3) r False l ok1 show ?thesis by (auto simp: cached_or_def)
    next
      case (Inr x)
      with assms(2) l have "distinct_keys x \<and> (error_result x \<or> success_result x \<or> data_result x)"
        by blast
      then have "data_ok (JObj x)" by (auto simp: data_ok_def)
      with assms(3) r False l Inr ok1 show ?thesis by (auto simp: cached_or_def)
    qed
  qed
qed

lemma literal_error_ok: "data_ok (JObj [(''error'', JStr (asc (c # cs)))])"
  by (simp add: data_ok_def distinct_keys_def error_result_def js_get_def asc_def)

lemma response_data_ok:
  assumes "cache_ok kv" and "response_data_of P env clk rq kv st = (res, kv', st')"
  shows "cache_ok kv' \<and> (\<forall>d ck. res = Inr (d, ck) \<longrightarrow> data_ok d)"
proof (cases "truthy (rq_query rq ''search'')")
  case True
  show ?thesis
  proof (cases "str_truthy (env_DISABLE_SEARCH env)")
    case d: True
    with True assms show ?thesis
      by (auto simp: response_data_of_def literal_error_ok)
  next
    case False
    from True False assms(2) have c:
      "cached_or (at_lookup clk)
         (asc ''search-'' @ to_str (js_or (rq_query rq ''source'') (JStr (asc ''douban'')))
          @ asc ''-'' @ to_str (rq_query rq ''search''))
         (dispatch_search P (js_or (rq_query rq ''source'') (JStr (asc ''douban'')))
            (rq_query rq ''search'')) kv st = (res, kv', st')"
      by (simp add: response_data_of_def Let_def)
    show ?thesis
    proof (rule cached_or_ok [OF assms(1) _ c])
      fix st0 :: "'a net" and r st1
      assume "dispatch_search P (js_or (rq_query rq ''source'') (JStr (asc ''douban'')))
            (rq_query rq ''search'') st0 = (Inr r, st1)"
      then show "distinct_keys r \<and> (error_result r \<or> success_result r \<or> data_result r)"
        using dispatch_search_shape by blast
    qed
  qed
next
  case False
  show ?thesis
  proof (cases "identify P rq")
    case (Inl e)
    with False assms show ?thesis by (auto simp: response_data_of_def)
  next
    case (Inr p)
    obtain site sid where p: "p = (site, sid)" by (cases p)
    show ?thesis
    proof (cases "\<not> truthy site \<or> \<not> truthy sid")
      case True
      with False Inr p assms show ?thesis
        by (auto simp: response_data_of_def literal_error_ok)
    next
      case nt: False
      from False Inr p nt assms(2) have c:
        "cached_or (at_lookup clk) (asc ''info-'' @ to_str site @ asc ''-'' @ to_str sid)
           (dispatch_gen P site sid) kv st = (res, kv', st')"
        by (simp add: response_data_of_def Let_def)
      show ?thesis
      proof (rule cached_or_ok [OF assms(1) _ c])
        fix st0 :: "'a net" and r st1
        assume "dispatch_gen P site sid st0 = (Inr r, st1)"
        then show "distinct_keys r \<and> (error_result r \<or> success_result r \<or> data_result r)"
          using dispatch_gen_shape by blast
      qed
    qed
  qed
qed

lemma internal_error_ok:
  "data_ok (JObj [(''error'', JStr (asc ''Internal Error: '' @ m)), (''debug'', dbg)])"
  by (simp add: data_ok_def distinct_keys_def error_result_def js_get_def asc_def)

lemma data_ok_truthy: "data_ok d \<Longrightarrow> truthy d"
  by (auto simp: data_ok_def)

lemma raw_error_inv: "record_inv [(''error'', v)]"
  by (simp add: record_inv_def js_get_def)

lemma handle_inv:
  assumes "cache_ok kv" and "handle P env clk rq kv st = (resp, kv', st')"
  shows "cache_ok kv' \<and> (\<forall>r b. resp = Some r \<and> rs_body r = Json b \<longrightarrow> record_inv b)"
proof (cases "rq_pathname rq = asc ''/'' \<and> rq_search rq = []")
  case True
  with assms show ?thesis by (auto simp: handle_def)
next
  case html: False
  show ?thesis
  proof (cases "str_truthy (env_APIKEY env) \<and> rq_query rq ''apikey'' \<noteq> JStr (the (env_APIKEY env))")
    case True
    with html assms show ?thesis
      by (auto simp: handle_def makeJsonRawResponse_def raw_error_inv)
  next
    case key: False
    obtain res kv1 st1 where rd: "response_data_of P env clk rq kv st = (res, kv1, st1)"
      by (cases "response_data_of P env clk rq kv st") auto
    from response_data_ok [OF assms(1) rd]
    have ok1: "cache_ok kv1" and dok: "\<And>d ck. res = Inr (d, ck) \<Longrightarrow> data_ok d" by auto
    show ?thesis
    proof (cases res)
      case (Inl err)
      with html key rd assms(2) have
        resp: "resp = Some (makeJsonResponse env (at_response clk)
                      (JObj [(''error'', JStr (asc ''Internal Error: ''
                                               @ error_message (p_runtime_message P) err)),
                             (''debug'', debug_get_err (p_runtime_message P) (at_response clk) err rq)])
                      500)"
        and kv': "kv' = kv1"
        by (auto simp: handle_def)
      from resp have "\<forall>r b. resp = Some r \<and> rs_body r = Json b \<longrightarrow> record_inv b"
        using record_inv_body [OF internal_error_ok] by auto
      with ok1 kv' show ?thesis by simp
    next
      case (Inr p)
      obtain d ck where p: "p = (d, ck)" by (cases p)
      from dok Inr p have d: "data_ok d" by simp
      then have t: "truthy d" by (rule data_ok_truthy)
      from html key rd Inr p t assms(2) have
        resp: "resp = Some (makeJsonResponse env (at_response clk) d 200)"
        and kv': "kv' = (case kv1 of
                       None \<Rightarrow> None
                     | Some store \<Rightarrow>
                         if \<not> truthy (opt_prop d ''error'') \<and> str_truthy ck
                         then Some (kv_put (at_store clk) store (the ck) (json_norm d) (86400 * 2))
                         else Some store)"
        by (auto simp: handle_def Let_def)
      from resp have inv: "\<forall>r b. resp = Some r \<and> rs_body r = Json b \<longrightarrow> record_inv b"
        using record_inv_body [OF d] by auto
      have "cache_ok kv'"
      proof (cases kv1)
        case None
        with kv' show ?thesis by (simp add: cache_ok_def)
      next
        case (Some store)
        show ?thesis
        proof (cases "\<not> truthy (opt_prop d ''error'') \<and> str_truthy ck")
          case True
          then have "stored_ok (json_norm d)" using d by (simp add: stored_ok_json_norm)
          with ok1 Some have "cache_ok (Some (kv_put (at_store clk) store (the ck) (json_norm d) (86400 * 2)))"
            by (simp add: cache_ok_put)
          with kv' Some True show ?thesis by simp
        next
          case False
          with kv' Some ok1 show ?thesis by auto
        qed
      qed
      with inv show ?thesis by simp
    qed
  qed
qed

lemma serve_inv:
  assumes "cache_ok kv" and "serve P env reqs kv st = (resps, kv', st')"
  shows "cache_ok kv' \<and> (\<forall>r b. Some r \<in> set resps \<and> rs_body r = Json b \<longrightarrow> record_inv b)"
  using assms
proof (induction reqs arbitrary: kv st resps kv' st')
  case Nil
  then show ?case by simp
next
  case (Cons cr reqs)
  obtain clk rq where cr: "cr = (clk, rq)" by (cases cr)
  obtain resp kv1 st1 where h: "handle P env clk rq kv st = (resp, kv1, st1)"
    by (cases "handle P env clk rq kv st") auto
  obtain rest kv2 st2 where s: "serve P env reqs kv1 st1 = (rest, kv2, st2)"
    by (cases "serve P env reqs kv1 st1") auto
  from Cons.prems(2) cr h s have eq: "resps = resp # rest" "kv' = kv2" by simp_all
  from handle_inv [OF Cons.prems(1) h]
  have ok1: "cache_ok kv1" and r1: "\<forall>r b. resp = Some r \<and> rs_body r = Json b \<longrightarrow> record_inv b"
    by blast+
  from Cons.IH [OF ok1 s]
  have "cache_ok kv2" and "\<forall>r b. Some r \<in> set rest \<and> rs_body r = Json b \<longrightarrow> record_inv b"
    by blast+
  with r1 eq show ?case by auto
qed

lemma cache_ok_empty: "cache_ok None" "cache_ok (Some empty_store)"
  by (simp_all add: cache_ok_def empty_store_def)

section \<open>Runs on the concrete inputs\<close>

lemma info_request_fields:
  "rq_pathname (info_request site sid) = asc ''/''"
  "rq_search (info_request site sid) \<noteq> []"
  "rq_query (info_request site sid) ''search'' = JUndefined"
  "rq_query (info_request site sid) ''url'' = JUndefined"
  "rq_query (info_request site sid) ''apikey'' = JUndefined"
  "rq_query (info_request site sid) ''site'' = JStr site"
  "rq_query (info_request site sid) ''sid'' = JStr sid"
  by (simp_all add: info_request_def query_of_def js_get_def asc_def)

lemma plain_env_fields:
  "env_APIKEY plain_env = None" "env_DISABLE_SEARCH plain_env = None"
  "env_AUTHOR plain_env = None"
  by (simp_all add: plain_env_def)

lemma identify_info_request:
  "identify P (info_request site sid) = Inr (JStr site, JStr sid)"
  by (simp add: identify_def info_request_fields)


lemma gen_douban_fixed_1:
  "gen_douban fixed_platform (JStr (asc ''1'')) st =
     (Inr bare_douban_record,
      \<lparr>world = (),
       sent = sent st @ [get_request (asc ''https://movie.douban.com/subject/'' @ asc ''1'' @ asc ''/'') []]\<rparr>)"
  by (simp add: gen_douban_fixed douban_record_fixed)

lemma bare_record_truthy_fields:
  "opt_prop (JObj bare_douban_record) ''error'' = JUndefined"
  by (simp add: opt_prop_def bare_douban_record_def js_get_def)

lemma handle_fixed_douban:
  "fst (handle fixed_platform plain_env clock0 (info_request (asc ''douban'') (asc ''1''))
         (Some empty_store) net0)
   = Some (makeJsonResponse plain_env 2000 (JObj bare_douban_record) 200)"
  by (simp add: handle_def info_request_fields plain_env_fields str_truthy_def
      response_data_of_def identify_info_request asc_def [of "''douban''", symmetric]
      cached_or_def restoreFromKV_def kv_get_def empty_store_def dispatch_gen_def
      gen_douban_fixed_1 clock0_def Let_def bare_record_truthy_fields)

section \<open>Claims about the resolver\<close>

text \<open>
  C4: every record returned to the caller satisfies the invariant: with \<open>success\<close> true
  its \<open>error\<close> is \<open>null\<close> or absent, with \<open>success\<close> false its \<open>format\<close> is empty. This
  holds for the body of every JSON response in every run of requests, for every adapter,
  search function, failure and cache hit, both for the body as built and for the
  document sent, from any store whose entries the handler wrote (\<open>cache_ok\<close>: no store
  and the empty store are such, and each request leaves such a store).
\<close>

theorem C4_record_invariant:
  assumes "cache_ok kv" and "serve P env reqs kv st = (resps, kv', st')"
    and "Some r \<in> set resps" and "rs_body r = Json b"
  shows "record_inv b \<and> record_inv (doc_fields b) \<and> cache_ok kv'"
proof -
  from serve_inv [OF assms(1,2)] assms(3,4) have inv: "record_inv b" and ok: "cache_ok kv'"
    by blast+
  from inv have "record_inv (doc_fields b)" by (rule record_inv_doc)
  with inv ok show ?thesis by simp
qed

theorem C4_record_invariant_witness:
  "cache_ok (Some empty_store)
   \<and> js_get (json_body (fst (handle fixed_platform plain_env clock0
        (info_request (asc ''douban'') (asc ''1'')) (Some empty_store) net0))) ''success''
      = JBool True
   \<and> js_get (json_body (fst (handle fixed_platform plain_env clock0
        (info_request (asc ''douban'') (asc ''1'')) (Some empty_store) net0))) ''error''
      = JNull
   \<and> record_inv (json_body (fst (handle fixed_platform plain_env clock0
        (info_request (asc ''douban'') (asc ''1'')) (Some empty_store) net0)))
   \<and> record_inv (doc_fields (json_body (fst (handle fixed_platform plain_env clock0
        (info_request (asc ''douban'') (asc ''1'')) (Some empty_store) net0))))"
proof -
  let ?rq = "info_request (asc ''douban'') (asc ''1'')"
  let ?h = "handle fixed_platform plain_env clock0 ?rq (Some empty_store) net0"
  let ?r = "makeJsonResponse plain_env 2000 (JObj bare_douban_record) 200"
  let ?b = "obj_set ''generate_at'' (JNum (dec 2000))
              (spread (default_body plain_env) bare_douban_record)"
  obtain kv1 st1 where h: "?h = (Some ?r, kv1, st1)"
    using handle_fixed_douban by (cases ?h) auto
  have s: "serve fixed_platform plain_env [(clock0, ?rq)] (Some empty_store) net0
           = ([Some ?r], kv1, st1)"
    by (simp add: h)
  have body: "rs_body ?r = Json ?b"
    by (simp add: makeJsonResponse_body spread_of_def)
  have jb: "json_body (fst ?h) = ?b"
    by (simp add: h json_body_def body)
  have d: "distinct (map fst bare_douban_record)"
    by (simp add: bare_douban_record_def)
  have su: "js_get ?b ''success'' = JBool True"
    using d by (simp add: body_get bare_douban_record_def)
  have er: "js_get ?b ''error'' = JNull"
    using d by (simp add: body_get bare_douban_record_def default_body_get)
  from C4_record_invariant [OF cache_ok_empty(2) s _ body]
  have "record_inv ?b \<and> record_inv (doc_fields ?b)" by simp
  with su er cache_ok_empty(2) show ?thesis by (simp add: jb)
qed

text \<open>
  C5: a generate request whose cache key has a stored, unexpired record is answered with
  that record and without any outbound request. The request is past the front door (not
  the index page, API key accepted), names a site and a subject id, and the store holds
  under \<open>info-{site}-{sid}\<close> an object whose expiry time is not behind the clock. Then the
  response data are the stored object, every property of it other than \<open>generate_at\<close>
  (which every response sets to the current time) is in the body with its stored value,
  and the network is as before: nothing was sent.
\<close>

theorem C5_cache_hit:
  assumes "\<not> (rq_pathname rq = asc ''/'' \<and> rq_search rq = [])"
    and "\<not> (str_truthy (env_APIKEY env) \<and> rq_query rq ''apikey'' \<noteq> JStr (the (env_APIKEY env)))"
    and "\<not> truthy (rq_query rq ''search'')"
    and "identify P rq = Inr (site, sid)" and "truthy site" and "truthy sid"
    and "store (asc ''info-'' @ to_str site @ asc ''-'' @ to_str sid) = Some item"
    and "at_lookup clk \<le> kv_expiry item"
    and "kv_value item = JObj fs" and "distinct_keys fs"
    and "handle P env clk rq (Some store) st = (resp, kv', st')"
  shows "resp = Some (makeJsonResponse env (at_response clk) (JObj fs) 200)
    \<and> st' = st \<and> sent st' = sent st
    \<and> (\<forall>k v. k \<noteq> ''generate_at'' \<and> map_of fs k = Some v \<longrightarrow> js_get (json_body resp) k = v)"
proof -
  let ?key = "asc ''info-'' @ to_str site @ asc ''-'' @ to_str sid"
  have r: "restoreFromKV (at_lookup clk) (Some store) ?key = (JObj fs, Some store)"
    using assms(7,8,9) by (simp add: restoreFromKV_def kv_get_def)
  have c: "cached_or (at_lookup clk) ?key (dispatch_gen P site sid) (Some store) st
           = (Inr (JObj fs, Some ?key), Some store, st)"
    by (simp add: cached_or_def r)
  have rd: "response_data_of P env clk rq (Some store) st
            = (Inr (JObj fs, Some ?key), Some store, st)"
    using assms(3,4,5,6) by (simp add: response_data_of_def Let_def c)
  from assms(1,2,11) rd
  have resp: "resp = Some (makeJsonResponse env (at_response clk) (JObj fs) 200)"
    and st: "st' = st"
    by (auto simp: handle_def Let_def)
  have jb: "json_body resp = obj_set ''generate_at'' (JNum (dec (at_response clk)))
              (spread (default_body env) fs)"
    by (simp add: resp json_body_def makeJsonResponse_body spread_of_def)
  have "\<forall>k v. k \<noteq> ''generate_at'' \<and> map_of fs k = Some v \<longrightarrow> js_get (json_body resp) k = v"
  proof (intro allI impI)
    fix k v assume kv: "k \<noteq> ''generate_at'' \<and> map_of fs k = Some v"
    with assms(10) have "js_get (json_body resp) k = (case map_of fs k of Some v \<Rightarrow> v
        | None \<Rightarrow> js_get (default_body env) k)"
      unfolding jb distinct_keys_def by (intro body_get) simp_all
    with kv show "js_get (json_body resp) k = v" by simp
  qed
  with resp st show ?thesis by simp
qed

theorem C5_cache_hit_witness:
  "fst (handle offline_platform plain_env clock0 (info_request (asc ''douban'') (asc ''1''))
          (Some warm_store) net0)
     = Some (makeJsonResponse plain_env 2000 (JObj cached_record) 200)
   \<and> snd (snd (handle offline_platform plain_env clock0
          (info_request (asc ''douban'') (asc ''1'')) (Some warm_store) net0)) = net0
   \<and> sent net0 = []
   \<and> js_get (json_body (fst (handle offline_platform plain_env clock0
          (info_request (asc ''douban'') (asc ''1'')) (Some warm_store) net0))) ''format''
     = JStr (asc ''T'')"
proof -
  let ?rq = "info_request (asc ''douban'') (asc ''1'')"
  let ?h = "handle offline_platform plain_env clock0 ?rq (Some warm_store) net0"
  obtain resp kv' st' where h: "?h = (resp, kv', st')" by (cases ?h) auto
  have 1: "\<not> (rq_pathname ?rq = asc ''/'' \<and> rq_search ?rq = [])"
    by (simp add: info_request_fields)
  have 2: "\<not> (str_truthy (env_APIKEY plain_env)
      \<and> rq_query ?rq ''apikey'' \<noteq> JStr (the (env_APIKEY plain_env)))"
    by (simp add: plain_env_fields str_truthy_def)
  have 3: "\<not> truthy (rq_query ?rq ''search'')"
    by (simp add: info_request_fields)
  have 4: "identify offline_platform ?rq = Inr (JStr (asc ''douban''), JStr (asc ''1''))"
    by (rule identify_info_request)
  have 5: "truthy (JStr (asc ''douban''))" and 6: "truthy (JStr (asc ''1''))"
    by (simp_all add: asc_def)
  have 7: "warm_store (asc ''info-'' @ to_str (JStr (asc ''douban'')) @ asc ''-''
              @ to_str (JStr (asc ''1'')))
           = Some \<lparr>kv_value = JObj cached_record, kv_expiry = 5000\<rparr>"
    by (simp add: warm_store_def asc_def)
  have 8: "at_lookup clock0 \<le> kv_expiry \<lparr>kv_value = JObj cached_record, kv_expiry = 5000\<rparr>"
    by (simp add: clock0_def)
  have 9: "kv_value \<lparr>kv_value = JObj cached_record, kv_expiry = 5000\<rparr> = JObj cached_record"
    by simp
  have 10: "distinct_keys cached_record"
    by (simp add: distinct_keys_def cached_record_def)
  have f: "map_of cached_record ''format'' = Some (JStr (asc ''T''))"
    by (simp add: cached_record_def)
  note t = C5_cache_hit [OF 1 2 3 4 5 6 7 8 9 10 h]
  from t have r: "resp = Some (makeJsonResponse plain_env (at_response clock0) (JObj cached_record) 200)"
    by (rule conjunct1)
  from t have s: "st' = net0"
    by (elim conjE)
  from t have all: "\<forall>k v. k \<noteq> ''generate_at'' \<and> map_of cached_record k = Some v
      \<longrightarrow> js_get (json_body resp) k = v"
    by (elim conjE)
  have g: "''format'' \<noteq> ''generate_at''" by simp
  from all have "''format'' \<noteq> ''generate_at'' \<and> map_of cached_record ''format'' = Some (JStr (asc ''T''))
      \<longrightarrow> js_get (json_body resp) ''format'' = JStr (asc ''T'')"
    by (elim allE)
  with g f have fm: "js_get (json_body resp) ''format'' = JStr (asc ''T'')"
    by (elim impE) (intro conjI)
  have ar: "at_response clock0 = 2000" by (simp add: clock0_def)
  have sn: "sent net0 = []" by (simp add: net0_def)
  from r s fm sn show ?thesis unfolding h by (simp add: ar)
qed

section \<open>Facts about writes to the cache\<close>

























section \<open>Claims about writes to the cache\<close>




end
